theory Spec2Isabelle
  imports Main "HOL-Library.AList"
begin

section \<open>Host values and errors\<close>

text \<open>
  The JavaScript values that reach the modelled methods: plain data and the kinds of
  object that the library has a set-method for. \<open>JNum\<close> is a number holding an integer;
  \<open>JFloat\<close> is any other number (a fraction, \<open>NaN\<close>, an infinity), given by the text that
  \<open>toString()\<close> prints for it. Rounding to the nearest double is outside the embedding:
  an integer keeps all its digits. Strings are lists of 8-bit characters. An object is the
  list of its own enumerable properties in insertion order (the rule that puts
  integer-like names first is not modelled). A function and a \<open>RegExp\<close> are given by the
  text that \<open>toString()\<close> returns for them, a \<open>Date\<close> by its ISO text (\<open>None\<close> for an invalid
  date) and the text of \<open>toString()\<close>, which depends on the time zone of the host, a
  \<open>Map\<close> by its entries in insertion order and a \<open>Uint8Array\<close> by its bytes. Getters, a
  \<open>toJSON\<close> or \<open>toString\<close> method of the caller's own, proxies and cyclic structures are
  outside the embedding, and the model never calls a function value.
\<close>

datatype jsval =
    JUndefined
  | JNull
  | JBool bool
  | JNum int
  | JStr string
  | JArr "jsval list"
  | JObj "(string \<times> jsval) list"
  | JFloat string
  | JBigInt int
  | JFunction string
  | JRegExp string
  | JDate "string option" string
  | JMap "(jsval \<times> jsval) list"
  | JUint8Array "nat list"

text \<open>
  What a method throws. \<open>JoiError\<close> is the \<open>Error\<close> that \<open>validateParams\<close> and the
  logger validators build from a Joi message (\<open>Invalid parameters: ...\<close>); \<open>Error m\<close> is
  \<open>new Error(m)\<close> with a message the source spells out; \<open>TypeError\<close>, \<open>SyntaxError\<close> and
  \<open>RangeError\<close> are the host's own exceptions (a method call on \<open>undefined\<close>, a failed
  \<open>JSON.parse\<close>, \<open>toISOString\<close> of an invalid date).
\<close>

datatype error = JoiError | Error string | TypeError | SyntaxError | RangeError

definition bindE :: "error + 'a \<Rightarrow> ('a \<Rightarrow> error + 'b) \<Rightarrow> error + 'b" where
  "bindE m f = (case m of Inl e \<Rightarrow> Inl e | Inr x \<Rightarrow> f x)"

text \<open>\<open>try { m } catch (error) { f error }\<close>\<close>

definition catchE :: "error + 'a \<Rightarrow> (error \<Rightarrow> error + 'a) \<Rightarrow> error + 'a" where
  "catchE m f = (case m of Inl e \<Rightarrow> f e | Inr x \<Rightarrow> Inr x)"

section \<open>Functions of the host and of third-party libraries taken as parameters\<close>

text \<open>
  The class calls functions of the host and of the libraries CryptoJS and LZString whose
  code is no part of the repository and whose results the embedding does not compute:
  arithmetic and comparison on values that need not be numbers, the parsers of numbers,
  dates, regular expressions and big integers, the evaluation of a stored function text,
  encryption, hashing and compression, and Joi's conversion of a string to a number. A
  model of a method that calls one of them takes them all as one parameter, a function
  from the name and the arguments to the value returned or the error thrown. Every
  theorem about such a method holds for whatever this parameter is.
\<close>

datatype native =
    Joi_number_of_string
  | Number_of
  | ParseFloat
  | ParseInt10
  | IsNaN
  | Plus
  | Minus
  | Greater
  | LessEq
  | Math_max
  | Countdown
  | Assign_in_array
  | Delete_in_array
  | New_Date
  | New_Function
  | New_RegExp
  | BigInt_of
  | New_Uint8Array
  | AES_encrypt
  | AES_decrypt
  | SHA256
  | LZ_compress
  | LZ_decompress

type_synonym natives = "native \<Rightarrow> jsval list \<Rightarrow> error + jsval"

section \<open>The Joi schemas the validators use\<close>

text \<open>
  Joi is a third-party library; the schemas below are the ones the source builds, with
  the meaning they have in Joi 17: \<open>Joi.string()\<close> accepts a string and, by default, not
  the empty one; \<open>required()\<close> rejects \<open>undefined\<close>, and a key without it may be
  \<open>undefined\<close>; \<open>valid(...)\<close> restricts the value to the listed ones; \<open>Joi.boolean()\<close>
  accepts a boolean and the strings \<open>true\<close> and \<open>false\<close> in any case; \<open>Joi.object()\<close>
  accepts every value whose \<open>typeof\<close> is \<open>object\<close> other than \<open>null\<close> and an array;
  \<open>Joi.array()\<close> accepts an array; \<open>Joi.func()\<close> accepts a function; \<open>Joi.number()\<close>
  accepts a finite number in the safe integer range, and a string when its conversion,
  taken from the parameter, accepts it. The value Joi returns (where \<open>default\<close> or a
  conversion would apply) is never read by the source, only \<open>error\<close> is.
\<close>

definition Joi_string_required :: "jsval \<Rightarrow> bool" where
  "Joi_string_required v = (case v of JStr s \<Rightarrow> s \<noteq> [] | _ \<Rightarrow> False)"

definition Joi_string_valid :: "string list \<Rightarrow> jsval \<Rightarrow> bool" where
  "Joi_string_valid allowed v =
     (case v of JUndefined \<Rightarrow> True | JStr s \<Rightarrow> s \<in> set allowed | _ \<Rightarrow> False)"

definition to_lower :: "char \<Rightarrow> char" where
  "to_lower c =
     (if 65 \<le> (of_char c :: nat) \<and> (of_char c :: nat) \<le> 90 then char_of ((of_char c :: nat) + 32)
      else c)"

definition Joi_boolean_required :: "jsval \<Rightarrow> bool" where
  "Joi_boolean_required v =
     (case v of
        JBool b \<Rightarrow> True
      | JStr s \<Rightarrow> map to_lower s = ''true'' \<or> map to_lower s = ''false''
      | _ \<Rightarrow> False)"

definition Joi_object_required :: "jsval \<Rightarrow> bool" where
  "Joi_object_required v =
     (case v of
        JObj kvs \<Rightarrow> True
      | JRegExp s \<Rightarrow> True
      | JDate isoText s \<Rightarrow> True
      | JMap es \<Rightarrow> True
      | JUint8Array bs \<Rightarrow> True
      | _ \<Rightarrow> False)"

definition Joi_array_required :: "jsval \<Rightarrow> bool" where
  "Joi_array_required v = (case v of JArr xs \<Rightarrow> True | _ \<Rightarrow> False)"

definition Joi_func_required :: "jsval \<Rightarrow> bool" where
  "Joi_func_required v = (case v of JFunction s \<Rightarrow> True | _ \<Rightarrow> False)"

definition finite_text :: "string \<Rightarrow> bool" where
  "finite_text t = (t \<noteq> ''NaN'' \<and> t \<noteq> ''Infinity'' \<and> t \<noteq> ''-Infinity'')"

definition Joi_number_required :: "natives \<Rightarrow> jsval \<Rightarrow> bool" where
  "Joi_number_required env v =
     (case v of
        JNum n \<Rightarrow> - 9007199254740991 \<le> n \<and> n \<le> 9007199254740991
      | JFloat t \<Rightarrow> finite_text t
      | JStr s \<Rightarrow> env Joi_number_of_string [JStr s] = Inr (JBool True)
      | _ \<Rightarrow> False)"

section \<open>LoggerValidation\<close>

definition validateLogLevel :: "jsval \<Rightarrow> error + unit" where
  "validateLogLevel level =
     (if \<not> Joi_string_valid [''WARN'', ''INFO'', ''DEBUG''] level then Inl JoiError
      else Inr ())"

definition validateLogMessage :: "jsval \<Rightarrow> error + unit" where
  "validateLogMessage message =
     (if \<not> Joi_string_required message then Inl JoiError else Inr ())"

section \<open>String helpers of the host\<close>

text \<open>\<open>String.prototype.split\<close> with a string separator.\<close>

fun split_go :: "string \<Rightarrow> string \<Rightarrow> string \<Rightarrow> string list" where
  "split_go sep cur [] = [rev cur]"
| "split_go sep cur (c # cs) =
     (if take (length sep) (c # cs) = sep
      then rev cur # split_go sep [] (drop (length sep - 1) cs)
      else split_go sep (c # cur) cs)"

definition split :: "string \<Rightarrow> string \<Rightarrow> string list" where
  "split sep s = (if sep = [] then map (\<lambda>c. [c]) s else split_go sep [] s)"

text \<open>\<open>Array.prototype.indexOf\<close>: the first index holding the value, or -1.\<close>

fun indexOf :: "'a list \<Rightarrow> 'a \<Rightarrow> int" where
  "indexOf [] x = -1"
| "indexOf (y # ys) x =
     (if y = x then 0 else (let i = indexOf ys x in if i < 0 then -1 else i + 1))"

text \<open>Decimal digits of a natural number and of an integer, as \<open>Number.prototype.toString\<close>
  and \<open>JSON.stringify\<close> print an integer in the safe range.\<close>

definition digit_char :: "nat \<Rightarrow> char" where
  "digit_char d = char_of (48 + d)"

fun show_nat :: "nat \<Rightarrow> string" where
  "show_nat n = (if n < 10 then [digit_char n] else show_nat (n div 10) @ [digit_char (n mod 10)])"

declare show_nat.simps [simp del]

definition show_int :: "int \<Rightarrow> string" where
  "show_int i = (if i < 0 then CHR ''-'' # show_nat (nat (- i)) else show_nat (nat i))"

fun join :: "string \<Rightarrow> string list \<Rightarrow> string" where
  "join sep [] = []"
| "join sep [x] = x"
| "join sep (x # y # ys) = x @ sep @ join sep (y # ys)"

text \<open>
  \<open>value.toString()\<close>: a method call, so a \<open>TypeError\<close> on \<open>undefined\<close> and \<open>null\<close>.
  An array joins its elements with commas, \<open>undefined\<close> and \<open>null\<close> elements printing
  as the empty string; a plain object prints as \<open>[object Object]\<close>.
\<close>

fun toStr :: "jsval \<Rightarrow> string" where
  "toStr JUndefined = []"
| "toStr JNull = []"
| "toStr (JBool b) = (if b then ''true'' else ''false'')"
| "toStr (JNum n) = show_int n"
| "toStr (JStr s) = s"
| "toStr (JArr xs) = join '','' (map toStr xs)"
| "toStr (JObj kvs) = ''[object Object]''"
| "toStr (JFloat t) = t"
| "toStr (JBigInt n) = show_int n"
| "toStr (JFunction src) = src"
| "toStr (JRegExp src) = src"
| "toStr (JDate isoText txt) = txt"
| "toStr (JMap es) = ''[object Map]''"
| "toStr (JUint8Array bs) = join '','' (map show_nat bs)"

definition toString :: "jsval \<Rightarrow> error + string" where
  "toString v = (if v = JUndefined \<or> v = JNull then Inl TypeError else Inr (toStr v))"

text \<open>\<open>String(value)\<close>, the conversion that a template literal and \<open>setItem\<close> apply.\<close>

definition to_text :: "jsval \<Rightarrow> string" where
  "to_text v = (if v = JUndefined then ''undefined'' else if v = JNull then ''null'' else toStr v)"

text \<open>A name between single quotes, as the messages of the source print a key.\<close>

definition quoted :: "string \<Rightarrow> string" where
  "quoted k = [CHR 0x27] @ k @ [CHR 0x27]"

section \<open>LoggerBase\<close>

definition LOG_LEVELS :: "(string \<times> string) list" where
  "LOG_LEVELS = [(''DEBUG'', ''DEBUG''), (''INFO'', ''INFO''), (''WARN'', ''WARN'')]"

record LoggerBase =
  level :: jsval
  logs :: "string list"

text \<open>\<open>constructor(level = LOG_LEVELS.INFO)\<close>: a default parameter replaces \<open>undefined\<close>.\<close>

definition LoggerBase_new :: "jsval \<Rightarrow> error + LoggerBase" where
  "LoggerBase_new lv =
     (let lvl = (if lv = JUndefined then JStr ''INFO'' else lv) in
      bindE (validateLogLevel lvl) (\<lambda>_.
      Inr \<lparr>level = lvl, logs = []\<rparr>))"

definition setLogLevel :: "LoggerBase \<Rightarrow> jsval \<Rightarrow> error + LoggerBase" where
  "setLogLevel this lv =
     bindE (validateLogLevel lv) (\<lambda>_.
     Inr (this\<lparr>level := lv\<rparr>))"

text \<open>
  \<open>LOG_LEVELS[logLevel]\<close> for the first part of the split; a split is never empty.
  The lookup is over the three own properties of \<open>LOG_LEVELS\<close>; the names it inherits
  from \<open>Object.prototype\<close> are outside the embedding.
\<close>

definition getLogLevel :: "string \<Rightarrow> jsval" where
  "getLogLevel logMessage =
     (let parts = split '' - '' logMessage;
          logLevel = (case parts of [] \<Rightarrow> [] | p # _ \<Rightarrow> p)
      in case map_of LOG_LEVELS logLevel of None \<Rightarrow> JUndefined | Some l \<Rightarrow> JStr l)"

definition isValidLogLevel :: "jsval \<Rightarrow> bool" where
  "isValidLogLevel lv = (lv \<in> set (map (\<lambda>kv. JStr (snd kv)) LOG_LEVELS))"

text \<open>
  \<open>addLog(message, level = LOG_LEVELS.INFO)\<close>. The clock reading
  \<open>new Date().toISOString()\<close> is the parameter \<open>timestamp\<close>. Every throw comes before
  the push, so an error leaves the instance as it was.
\<close>

definition addLog :: "LoggerBase \<Rightarrow> string \<Rightarrow> jsval \<Rightarrow> jsval \<Rightarrow> error + LoggerBase" where
  "addLog this timestamp message lv =
     (let lvl = (if lv = JUndefined then JStr ''INFO'' else lv) in
      bindE (validateLogLevel lvl) (\<lambda>_.
      bindE (validateLogMessage message) (\<lambda>_.
      bindE (toString lvl) (\<lambda>levelStr.
      bindE (toString (level this)) (\<lambda>thisLevelStr.
        let levelIndex = indexOf (map fst LOG_LEVELS) levelStr;
            levelConstructorIndex = indexOf (map fst LOG_LEVELS) thisLevelStr
        in if levelIndex < levelConstructorIndex then Inr this
           else let finalMessage = toStr lvl @ '' - '' @ timestamp @ '' - '' @ toStr message
                in Inr (this\<lparr>logs := logs this @ [finalMessage]\<rparr>))))))"

text \<open>
  A call with an argument list: JavaScript binds the formal parameters in order, gives
  \<open>undefined\<close> to a missing one and drops surplus arguments. \<open>setLogLevel(level)\<close> has one
  formal parameter.
\<close>

definition arg :: "jsval list \<Rightarrow> nat \<Rightarrow> jsval" where
  "arg args i = (if i < length args then args ! i else JUndefined)"

definition setLogLevel_call :: "LoggerBase \<Rightarrow> jsval list \<Rightarrow> error + LoggerBase" where
  "setLogLevel_call this args = setLogLevel this (arg args 0)"

section \<open>The ordering of the levels, as the specification words it\<close>

text \<open>The index of a level in the ordering (DEBUG, INFO, WARN).\<close>

definition level_rank :: "jsval \<Rightarrow> nat" where
  "level_rank lv = (if lv = JStr ''DEBUG'' then 0 else if lv = JStr ''INFO'' then 1 else 2)"

definition log_level :: "jsval \<Rightarrow> bool" where
  "log_level lv = (lv = JStr ''DEBUG'' \<or> lv = JStr ''INFO'' \<or> lv = JStr ''WARN'')"

section \<open>JSON.stringify and JSON.parse\<close>

text \<open>
  \<open>JSON.stringify(value)\<close> without indentation throws a \<open>TypeError\<close> when it meets a
  \<open>BigInt\<close>, at the top or inside an array or an object, and otherwise yields the text
  \<open>json_text\<close>. That text is \<open>undefined\<close> (here \<open>None\<close>) for \<open>undefined\<close> and for a
  function; inside an array these print as \<open>null\<close>, and a property holding one of them
  is left out. A string is quoted with the escapes of the standard: the two-character
  escapes for backspace, tab, newline, form feed, carriage return, the double quote and
  the backslash, and \<open>\u00XX\<close> for the other characters below 0x20. \<open>NaN\<close> and the
  infinities print as \<open>null\<close>. A \<open>Date\<close> prints through its \<open>toJSON\<close>, as its quoted ISO
  text or as \<open>null\<close> when it is invalid; a \<open>RegExp\<close> and a \<open>Map\<close> have no enumerable
  property of their own and print as \<open>{}\<close>; a \<open>Uint8Array\<close> prints as the object of its
  indices.
\<close>

definition dquote :: char where
  "dquote = CHR 0x22"

definition backslash :: char where
  "backslash = CHR 0x5C"

definition hex_char :: "nat \<Rightarrow> char" where
  "hex_char d = (if d < 10 then char_of (48 + d) else char_of (87 + d))"

definition escape_char :: "char \<Rightarrow> string" where
  "escape_char c =
     (let n = (of_char c :: nat) in
      if n = 8 then [backslash, CHR ''b'']
      else if n = 9 then [backslash, CHR ''t'']
      else if n = 10 then [backslash, CHR ''n'']
      else if n = 12 then [backslash, CHR ''f'']
      else if n = 13 then [backslash, CHR ''r'']
      else if n = 34 then [backslash, dquote]
      else if n = 92 then [backslash, backslash]
      else if n < 32 then
        [backslash, CHR ''u'', CHR ''0'', CHR ''0'', hex_char (n div 16), hex_char (n mod 16)]
      else [c])"

definition quote :: "string \<Rightarrow> string" where
  "quote s = dquote # concat (map escape_char s) @ [dquote]"

fun stringify_members :: "(string \<times> string option) list \<Rightarrow> string list" where
  "stringify_members [] = []"
| "stringify_members ((k, None) # kvs) = stringify_members kvs"
| "stringify_members ((k, Some t) # kvs) = (quote k @ '':'' @ t) # stringify_members kvs"

fun json_text :: "jsval \<Rightarrow> string option" where
  "json_text JUndefined = None"
| "json_text JNull = Some ''null''"
| "json_text (JBool b) = Some (if b then ''true'' else ''false'')"
| "json_text (JNum n) = Some (show_int n)"
| "json_text (JStr s) = Some (quote s)"
| "json_text (JArr xs) =
     Some (''['' @ join '',''
        (map (\<lambda>x. case json_text x of None \<Rightarrow> ''null'' | Some t \<Rightarrow> t) xs) @ '']'')"
| "json_text (JObj kvs) =
     Some (''{'' @ join '',''
        (stringify_members (map (\<lambda>kv. (fst kv, json_text (snd kv))) kvs)) @ ''}'')"
| "json_text (JFloat t) = Some (if t = ''NaN'' \<or> t = ''Infinity'' \<or> t = ''-Infinity'' then ''null'' else t)"
| "json_text (JBigInt n) = None"
| "json_text (JFunction src) = None"
| "json_text (JRegExp src) = Some ''{}''"
| "json_text (JDate isoText txt) = Some (case isoText of None \<Rightarrow> ''null'' | Some s \<Rightarrow> quote s)"
| "json_text (JMap es) = Some ''{}''"
| "json_text (JUint8Array bs) =
     Some (''{'' @ join '',''
        (map (\<lambda>ib. quote (show_nat (fst ib)) @ '':'' @ show_nat (snd ib)) (zip [0..<length bs] bs))
        @ ''}'')"

fun has_bigint :: "jsval \<Rightarrow> bool" where
  "has_bigint (JBigInt n) = True"
| "has_bigint (JArr xs) = list_ex has_bigint xs"
| "has_bigint (JObj kvs) = list_ex (\<lambda>kv. has_bigint (snd kv)) kvs"
| "has_bigint v = False"

definition JSON_stringify :: "jsval \<Rightarrow> error + string option" where
  "JSON_stringify v = (if has_bigint v then Inl TypeError else Inr (json_text v))"

text \<open>
  \<open>JSON.parse(text)\<close>, a recursive-descent parser of the JSON grammar; \<open>None\<close> is the
  \<open>SyntaxError\<close>. White space is the four characters of the grammar. A \<open>\u\<close> escape
  above 0x00FF denotes a character outside the embedding and is not accepted here. A
  number literal denotes the number of its digits, fraction and exponent: an integer is
  a \<open>JNum\<close>, any other number the \<open>JFloat\<close> of the text that \<open>toString()\<close> prints for
  it. A repeated member name keeps its first position and its last value. The recursion
  is bounded by a fuel that \<open>JSON_parse\<close> sets from the length of the text: of two nested
  calls at least one consumes a character.
\<close>

definition is_ws :: "char \<Rightarrow> bool" where
  "is_ws c = (c = CHR '' '' \<or> c = CHR 0x09 \<or> c = CHR 0x0A \<or> c = CHR 0x0D)"

definition skip_ws :: "string \<Rightarrow> string" where
  "skip_ws s = dropWhile is_ws s"

definition is_digit :: "char \<Rightarrow> bool" where
  "is_digit c = (48 \<le> (of_char c :: nat) \<and> (of_char c :: nat) \<le> 57)"

definition digits_val :: "string \<Rightarrow> nat" where
  "digits_val ds = foldl (\<lambda>a c. 10 * a + (of_char c - 48)) 0 ds"

definition hex_val :: "char \<Rightarrow> nat option" where
  "hex_val c =
     (let n = (of_char c :: nat) in
      if 48 \<le> n \<and> n \<le> 57 then Some (n - 48)
      else if 97 \<le> n \<and> n \<le> 102 then Some (n - 87)
      else if 65 \<le> n \<and> n \<le> 70 then Some (n - 55)
      else None)"

definition hex4 :: "char \<Rightarrow> char \<Rightarrow> char \<Rightarrow> char \<Rightarrow> nat option" where
  "hex4 a b c d =
     (case (hex_val a, hex_val b, hex_val c, hex_val d) of
        (Some x, Some y, Some z, Some w) \<Rightarrow> Some (((x * 16 + y) * 16 + z) * 16 + w)
      | _ \<Rightarrow> None)"

definition unescape :: "char \<Rightarrow> char option" where
  "unescape e =
     (if e = dquote then Some dquote
      else if e = backslash then Some backslash
      else if e = CHR ''/'' then Some CHR ''/''
      else if e = CHR ''b'' then Some (CHR 0x08)
      else if e = CHR ''f'' then Some (CHR 0x0C)
      else if e = CHR ''n'' then Some (CHR 0x0A)
      else if e = CHR ''r'' then Some (CHR 0x0D)
      else if e = CHR ''t'' then Some (CHR 0x09)
      else None)"

definition consS :: "char \<Rightarrow> (string \<times> string) option \<Rightarrow> (string \<times> string) option" where
  "consS c r = (case r of None \<Rightarrow> None | Some (s, rest) \<Rightarrow> Some (c # s, rest))"

text \<open>The characters of a string literal after its opening quote, up to the closing one.\<close>

fun parse_chars :: "string \<Rightarrow> (string \<times> string) option" where
  "parse_chars [] = None"
| "parse_chars (c # cs) =
     (if c = dquote then Some ([], cs)
      else if c = backslash then
        (case cs of
           [] \<Rightarrow> None
         | e # cs1 \<Rightarrow>
             if e = CHR ''u'' then
               (case cs1 of
                  h1 # h2 # h3 # h4 # cs2 \<Rightarrow>
                    (case hex4 h1 h2 h3 h4 of
                       None \<Rightarrow> None
                     | Some n \<Rightarrow> if n < 256 then consS (char_of n) (parse_chars cs2) else None)
                | _ \<Rightarrow> None)
             else (case unescape e of
                     None \<Rightarrow> None
                   | Some ch \<Rightarrow> consS ch (parse_chars cs1)))
      else if (of_char c :: nat) < 32 then None
      else consS c (parse_chars cs))"

text \<open>
  The number \<open>m / 10 ^ k\<close> with the zeros at the end of \<open>m\<close> cancelled, and the text that
  \<open>Number.prototype.toString\<close> prints for the fraction \<open>m * 10 ^ e\<close> (\<open>m\<close> positive and
  no multiple of ten, \<open>e\<close> negative): plain decimal notation when the decimal point lies
  within 21 digits after or 6 zeros before the first digit, exponent notation otherwise.
\<close>

fun strip_zeros :: "nat \<Rightarrow> nat \<Rightarrow> nat \<times> nat" where
  "strip_zeros m 0 = (m, 0)"
| "strip_zeros m (Suc k) = (if m mod 10 = 0 then strip_zeros (m div 10) k else (m, Suc k))"

definition decimal_text :: "nat \<Rightarrow> int \<Rightarrow> string" where
  "decimal_text m e =
     (let ds = show_nat m;
          n = int (length ds) + e
      in if 0 < n \<and> n \<le> 21 then take (nat n) ds @ ''.'' @ drop (nat n) ds
         else if - 6 < n \<and> n \<le> 0 then ''0.'' @ replicate (nat (- n)) CHR ''0'' @ ds
         else hd ds # (if 1 < length ds then CHR ''.'' # tl ds else [])
                @ ''e'' @ (if 0 \<le> n - 1 then ''+'' else ''-'') @ show_nat (nat (abs (n - 1))))"

definition number_of :: "bool \<Rightarrow> nat \<Rightarrow> int \<Rightarrow> jsval" where
  "number_of neg m e =
     (if 0 \<le> e then JNum ((if neg then - 1 else 1) * int m * 10 ^ nat e)
      else (case strip_zeros m (nat (- e)) of
              (m', k) \<Rightarrow>
                if k = 0 then JNum ((if neg then - 1 else 1) * int m')
                else JFloat ((if neg then ''-'' else []) @ decimal_text m' (- int k))))"

text \<open>The three parts of a number literal: the sign and the digits of the integer part
  (no leading zero), the digits of the fraction after its point if there is one, and the
  exponent after its letter if there is one, each with the text that follows.\<close>

definition parse_integer :: "string \<Rightarrow> (bool \<times> string \<times> string) option" where
  "parse_integer s =
     (let neg = (s \<noteq> [] \<and> hd s = CHR ''-'');
          s1 = (if neg then tl s else s);
          ds = takeWhile is_digit s1
      in if ds = [] then None
         else if 1 < length ds \<and> hd ds = CHR ''0'' then None
         else Some (neg, ds, dropWhile is_digit s1))"

definition parse_fraction :: "string \<Rightarrow> (string \<times> string) option" where
  "parse_fraction r =
     (if r \<noteq> [] \<and> hd r = CHR ''.''
      then (if takeWhile is_digit (tl r) = [] then None
            else Some (takeWhile is_digit (tl r), dropWhile is_digit (tl r)))
      else Some ([], r))"

definition parse_exponent :: "string \<Rightarrow> (int \<times> string) option" where
  "parse_exponent r =
     (if r \<noteq> [] \<and> (hd r = CHR ''e'' \<or> hd r = CHR ''E'')
      then (let r1 = tl r;
                eneg = (r1 \<noteq> [] \<and> hd r1 = CHR ''-'');
                r2 = (if r1 \<noteq> [] \<and> (hd r1 = CHR ''+'' \<or> hd r1 = CHR ''-'') then tl r1 else r1);
                es = takeWhile is_digit r2
            in if es = [] then None
               else Some (if eneg then - int (digits_val es) else int (digits_val es),
                          dropWhile is_digit r2))
      else Some (0, r))"

definition parse_number :: "string \<Rightarrow> (jsval \<times> string) option" where
  "parse_number s =
     (case parse_integer s of
        None \<Rightarrow> None
      | Some (neg, ds, r1) \<Rightarrow>
          (case parse_fraction r1 of
             None \<Rightarrow> None
           | Some (fs, r2) \<Rightarrow>
               (case parse_exponent r2 of
                  None \<Rightarrow> None
                | Some (e, rest) \<Rightarrow>
                    Some (number_of neg (digits_val (ds @ fs)) (e - int (length fs)), rest))))"

text \<open>A member list as the object it builds: a repeated name overwrites in place.\<close>

definition build_object :: "(string \<times> jsval) list \<Rightarrow> (string \<times> jsval) list" where
  "build_object kvs = foldl (\<lambda>acc kv. AList.update (fst kv) (snd kv) acc) [] kvs"

fun parse_value :: "nat \<Rightarrow> string \<Rightarrow> (jsval \<times> string) option"
and parse_elements :: "nat \<Rightarrow> string \<Rightarrow> (jsval list \<times> string) option"
and parse_members :: "nat \<Rightarrow> string \<Rightarrow> ((string \<times> jsval) list \<times> string) option"
where
  "parse_value 0 s = None"
| "parse_value (Suc n) s =
     (case skip_ws s of
        [] \<Rightarrow> None
      | c # cs \<Rightarrow>
          if c = CHR ''['' then
            (if skip_ws cs \<noteq> [] \<and> hd (skip_ws cs) = CHR '']''
             then Some (JArr [], tl (skip_ws cs))
             else (case parse_elements n cs of
                     None \<Rightarrow> None
                   | Some (xs, r) \<Rightarrow> Some (JArr xs, r)))
          else if c = CHR ''{'' then
            (if skip_ws cs \<noteq> [] \<and> hd (skip_ws cs) = CHR ''}''
             then Some (JObj [], tl (skip_ws cs))
             else (case parse_members n cs of
                     None \<Rightarrow> None
                   | Some (kvs, r) \<Rightarrow> Some (JObj (build_object kvs), r)))
          else if c = dquote then
            (case parse_chars cs of
               None \<Rightarrow> None
             | Some (str, r) \<Rightarrow> Some (JStr str, r))
          else if take 4 (c # cs) = ''null'' then Some (JNull, drop 3 cs)
          else if take 4 (c # cs) = ''true'' then Some (JBool True, drop 3 cs)
          else if take 5 (c # cs) = ''false'' then Some (JBool False, drop 4 cs)
          else parse_number (c # cs))"
| "parse_elements 0 s = None"
| "parse_elements (Suc n) s =
     (case parse_value n s of
        None \<Rightarrow> None
      | Some (v, r) \<Rightarrow>
          (case skip_ws r of
             [] \<Rightarrow> None
           | d # r1 \<Rightarrow>
               if d = CHR '','' then
                 (case parse_elements n r1 of
                    None \<Rightarrow> None
                  | Some (vs, r2) \<Rightarrow> Some (v # vs, r2))
               else if d = CHR '']'' then Some ([v], r1)
               else None))"
| "parse_members 0 s = None"
| "parse_members (Suc n) s =
     (case skip_ws s of
        [] \<Rightarrow> None
      | q # cs \<Rightarrow>
          if q \<noteq> dquote then None
          else (case parse_chars cs of
                  None \<Rightarrow> None
                | Some (k, r) \<Rightarrow>
                    (case skip_ws r of
                       [] \<Rightarrow> None
                     | col # r1 \<Rightarrow>
                         if col \<noteq> CHR '':'' then None
                         else (case parse_value n r1 of
                                 None \<Rightarrow> None
                               | Some (v, r2) \<Rightarrow>
                                   (case skip_ws r2 of
                                      [] \<Rightarrow> None
                                    | d # r3 \<Rightarrow>
                                        if d = CHR '','' then
                                          (case parse_members n r3 of
                                             None \<Rightarrow> None
                                           | Some (kvs, r4) \<Rightarrow> Some ((k, v) # kvs, r4))
                                        else if d = CHR ''}'' then Some ([(k, v)], r3)
                                        else None)))))"

definition JSON_parse :: "string \<Rightarrow> jsval option" where
  "JSON_parse s =
     (case parse_value (2 * length s + 2) s of
        None \<Rightarrow> None
      | Some (v, r) \<Rightarrow> if skip_ws r = [] then Some v else None)"

section \<open>The validation shim: DomValidator\<close>

text \<open>
  \<open>validateParams(schema, params, throwOnError)\<close>. The object schema of every check has
  the two keys \<open>param\<close> and \<open>throwOnError\<close>; the second holds a boolean in every call
  of the modelled methods and so always passes, and the schema is given here by its
  test of \<open>param\<close>.
\<close>

definition validateParams :: "(jsval \<Rightarrow> bool) \<Rightarrow> jsval \<Rightarrow> bool \<Rightarrow> error + bool" where
  "validateParams schema param throwOnError =
     (if \<not> schema param then (if throwOnError then Inl JoiError else Inr False)
      else Inr True)"

definition isString :: "jsval \<Rightarrow> bool \<Rightarrow> error + bool" where
  "isString param throwOnError = validateParams Joi_string_required param throwOnError"

definition isObject :: "jsval \<Rightarrow> bool \<Rightarrow> error + bool" where
  "isObject param throwOnError = validateParams Joi_object_required param throwOnError"

definition isBoolean :: "jsval \<Rightarrow> bool \<Rightarrow> error + bool" where
  "isBoolean param throwOnError = validateParams Joi_boolean_required param throwOnError"

definition isNumber :: "natives \<Rightarrow> jsval \<Rightarrow> bool \<Rightarrow> error + bool" where
  "isNumber env param throwOnError = validateParams (Joi_number_required env) param throwOnError"

definition isArray :: "jsval \<Rightarrow> bool \<Rightarrow> error + bool" where
  "isArray param throwOnError = validateParams Joi_array_required param throwOnError"

definition isFunction :: "jsval \<Rightarrow> bool \<Rightarrow> error + bool" where
  "isFunction param throwOnError = validateParams Joi_func_required param throwOnError"

definition throwOrReturnOnError :: "bool \<Rightarrow> string \<Rightarrow> error + jsval" where
  "throwOrReturnOnError throwOnError message =
     (if throwOnError then Inl (Error message) else Inr JNull)"

text \<open>\<open>throwOrReturnOnError(throwOnError, message)\<close> followed by what the method does
  when that call returns.\<close>

definition reject :: "bool \<Rightarrow> string \<Rightarrow> 'a \<Rightarrow> error + 'a" where
  "reject throwOnError message r = bindE (throwOrReturnOnError throwOnError message) (\<lambda>_. Inr r)"

section \<open>Host storage\<close>

text \<open>
  A \<open>Storage\<close> object: its keys in enumeration order with their strings. \<open>setItem\<close> is
  modelled without a quota, so it never throws. The host state holds the two storages,
  the timers that \<open>setTimeout\<close> has scheduled and, for the frame properties, the trace of
  the mutating storage calls made so far.
\<close>

type_synonym storage = "(string \<times> string) list"

datatype host_call =
    SetItem bool string string
  | RemoveItem bool string
  | Clear bool

record timer =
  delay :: int
  session :: bool
  target :: string

record host =
  localStorage :: storage
  sessionStorage :: storage
  timers :: "timer list"
  calls :: "host_call list"

text \<open>\<open>const storage = useSessionStorage ? sessionStorage : localStorage\<close>\<close>

definition storage_of :: "bool \<Rightarrow> host \<Rightarrow> storage" where
  "storage_of useSessionStorage h = (if useSessionStorage then sessionStorage h else localStorage h)"

definition storage_upd :: "bool \<Rightarrow> (storage \<Rightarrow> storage) \<Rightarrow> host \<Rightarrow> host" where
  "storage_upd useSessionStorage f h =
     (if useSessionStorage then h\<lparr>sessionStorage := f (sessionStorage h)\<rparr>
      else h\<lparr>localStorage := f (localStorage h)\<rparr>)"

definition getItem :: "bool \<Rightarrow> string \<Rightarrow> host \<Rightarrow> string option" where
  "getItem u k h = map_of (storage_of u h) k"

definition setItem :: "bool \<Rightarrow> string \<Rightarrow> string \<Rightarrow> host \<Rightarrow> host" where
  "setItem u k v h = (storage_upd u (AList.update k v) h)\<lparr>calls := calls h @ [SetItem u k v]\<rparr>"

definition removeItem :: "bool \<Rightarrow> string \<Rightarrow> host \<Rightarrow> host" where
  "removeItem u k h = (storage_upd u (AList.delete k) h)\<lparr>calls := calls h @ [RemoveItem u k]\<rparr>"

definition clear :: "bool \<Rightarrow> host \<Rightarrow> host" where
  "clear u h = (storage_upd u (\<lambda>_. []) h)\<lparr>calls := calls h @ [Clear u]\<rparr>"

definition setTimeout :: "timer \<Rightarrow> host \<Rightarrow> host" where
  "setTimeout tm h = h\<lparr>timers := timers h @ [tm]\<rparr>"

text \<open>
  The milliseconds that the host waits before it runs the callback of a timer.
  \<open>setTimeout\<close> reads its delay argument as a 32-bit signed integer (the type \<open>long\<close> of
  Web IDL, which wraps around), and a negative reading counts as zero.
\<close>

definition waits :: "int \<Rightarrow> int" where
  "waits d = max 0 ((d + 2147483648) mod 4294967296 - 2147483648)"

text \<open>A string argument of \<open>setItem\<close>: \<open>undefined\<close> is stored as the text \<open>undefined\<close>.\<close>

definition item_of :: "string option \<Rightarrow> string" where
  "item_of r = (case r of None \<Rightarrow> ''undefined'' | Some t \<Rightarrow> t)"

text \<open>What \<open>getItem\<close> returned, as a value: a string, or \<open>null\<close> for an absent key.\<close>

definition item :: "string option \<Rightarrow> jsval" where
  "item r = (case r of None \<Rightarrow> JNull | Some s \<Rightarrow> JStr s)"

text \<open>\<open>JSON.parse\<close> of what \<open>getItem\<close> returned: \<open>null\<close> is read as the text \<open>null\<close>.\<close>

definition JSON_parse_item :: "string option \<Rightarrow> jsval option" where
  "JSON_parse_item r = (case r of None \<Rightarrow> Some JNull | Some t \<Rightarrow> JSON_parse t)"

definition parsed :: "string option \<Rightarrow> error + jsval" where
  "parsed r = (case JSON_parse_item r of None \<Rightarrow> Inl SyntaxError | Some v \<Rightarrow> Inr v)"

definition typeof :: "jsval \<Rightarrow> string" where
  "typeof v =
     (case v of
        JUndefined \<Rightarrow> ''undefined''
      | JNull \<Rightarrow> ''object''
      | JBool b \<Rightarrow> ''boolean''
      | JNum n \<Rightarrow> ''number''
      | JStr s \<Rightarrow> ''string''
      | JArr xs \<Rightarrow> ''object''
      | JObj kvs \<Rightarrow> ''object''
      | JFloat t \<Rightarrow> ''number''
      | JBigInt n \<Rightarrow> ''bigint''
      | JFunction src \<Rightarrow> ''function''
      | JRegExp src \<Rightarrow> ''object''
      | JDate isoText txt \<Rightarrow> ''object''
      | JMap es \<Rightarrow> ''object''
      | JUint8Array bs \<Rightarrow> ''object'')"

definition isArray_host :: "jsval \<Rightarrow> bool" where
  "isArray_host v = (case v of JArr xs \<Rightarrow> True | _ \<Rightarrow> False)"

definition truthy :: "jsval \<Rightarrow> bool" where
  "truthy v =
     (case v of
        JUndefined \<Rightarrow> False
      | JNull \<Rightarrow> False
      | JBool b \<Rightarrow> b
      | JNum n \<Rightarrow> n \<noteq> 0
      | JStr s \<Rightarrow> s \<noteq> []
      | JArr xs \<Rightarrow> True
      | JObj kvs \<Rightarrow> True
      | JFloat t \<Rightarrow> t \<noteq> ''NaN''
      | JBigInt n \<Rightarrow> n \<noteq> 0
      | JFunction src \<Rightarrow> True
      | JRegExp src \<Rightarrow> True
      | JDate isoText txt \<Rightarrow> True
      | JMap es \<Rightarrow> True
      | JUint8Array bs \<Rightarrow> True)"

text \<open>\<open>name in value\<close> for a value that \<open>JSON.parse\<close> returned, whose \<open>typeof\<close> is
  \<open>object\<close> and which is not \<open>null\<close>, and a name that is neither an index nor \<open>length\<close>.\<close>

definition has_property :: "string \<Rightarrow> jsval \<Rightarrow> bool" where
  "has_property name v = (case v of JObj kvs \<Rightarrow> name \<in> set (map fst kvs) | _ \<Rightarrow> False)"

text \<open>
  The own properties of a value that \<open>JSON.parse\<close> returned: the members of an object,
  the elements of an array and the characters of a string under their indices, and the
  \<open>length\<close> of an array or a string. \<open>own_property\<close> is \<open>hasOwnProperty\<close> together with
  the value read.
\<close>

definition indexed :: "jsval list \<Rightarrow> (string \<times> jsval) list" where
  "indexed xs = zip (map show_nat [0..<length xs]) xs"

definition own_property :: "jsval \<Rightarrow> string \<Rightarrow> jsval option" where
  "own_property v name =
     (case v of
        JObj kvs \<Rightarrow> map_of kvs name
      | JArr xs \<Rightarrow> if name = ''length'' then Some (JNum (int (length xs)))
                    else map_of (indexed xs) name
      | JStr s \<Rightarrow> if name = ''length'' then Some (JNum (int (length s)))
                   else map_of (indexed (map (\<lambda>c. JStr [c]) s)) name
      | _ \<Rightarrow> None)"

text \<open>\<open>value.expirationTime\<close>, for a value that \<open>JSON.parse\<close> returned: a \<open>TypeError\<close>
  on \<open>null\<close>, \<open>undefined\<close> where there is no such member.\<close>

definition expirationTime_of :: "jsval \<Rightarrow> error + jsval" where
  "expirationTime_of v =
     (if v = JNull \<or> v = JUndefined then Inl TypeError
      else Inr (case own_property v ''expirationTime'' of None \<Rightarrow> JUndefined | Some x \<Rightarrow> x))"

text \<open>The own enumerable properties that an object spread copies, and the spread.\<close>

definition enumerable :: "jsval \<Rightarrow> (string \<times> jsval) list" where
  "enumerable v =
     (case v of
        JObj kvs \<Rightarrow> kvs
      | JArr xs \<Rightarrow> indexed xs
      | JStr s \<Rightarrow> indexed (map (\<lambda>c. JStr [c]) s)
      | JUint8Array bs \<Rightarrow> indexed (map (\<lambda>b. JNum (int b)) bs)
      | _ \<Rightarrow> [])"

definition assign :: "(string \<times> jsval) list \<Rightarrow> (string \<times> jsval) list \<Rightarrow> (string \<times> jsval) list" where
  "assign kvs new = foldl (\<lambda>acc kv. AList.update (fst kv) (snd kv) acc) kvs new"

text \<open>\<open>[...value]\<close>: the elements that the iterator of the value yields; a \<open>TypeError\<close> on
  a value that is not iterable.\<close>

definition spread :: "jsval \<Rightarrow> error + jsval list" where
  "spread v =
     (case v of
        JArr xs \<Rightarrow> Inr xs
      | JStr s \<Rightarrow> Inr (map (\<lambda>c. JStr [c]) s)
      | JMap es \<Rightarrow> Inr (map (\<lambda>e. JArr [fst e, snd e]) es)
      | JUint8Array bs \<Rightarrow> Inr (map (\<lambda>b. JNum (int b)) bs)
      | _ \<Rightarrow> Inl TypeError)"

text \<open>
  \<open>a === b\<close> where one side is an element of a value that \<open>JSON.parse\<close> has just built:
  two primitives are compared by their values, and a freshly built array or object is
  identical to nothing that the caller holds. (\<open>NaN\<close> cannot come out of \<open>JSON.parse\<close>.)
\<close>

definition primitive :: "jsval \<Rightarrow> bool" where
  "primitive v =
     (case v of
        JArr xs \<Rightarrow> False | JObj kvs \<Rightarrow> False | JFunction src \<Rightarrow> False | JRegExp src \<Rightarrow> False
      | JDate isoText txt \<Rightarrow> False | JMap es \<Rightarrow> False | JUint8Array bs \<Rightarrow> False
      | _ \<Rightarrow> True)"

definition strict_equal :: "jsval \<Rightarrow> jsval \<Rightarrow> bool" where
  "strict_equal a b = (primitive a \<and> a = b)"

fun index_of :: "jsval list \<Rightarrow> jsval \<Rightarrow> nat option" where
  "index_of [] x = None"
| "index_of (y # ys) x =
     (if strict_equal y x then Some 0 else map_option Suc (index_of ys x))"

text \<open>
  \<open>new Map(value)\<close> for a value that \<open>JSON.parse\<close> returned: an array of entries, each
  an array or an object, read at \<open>0\<close> and \<open>1\<close>; \<open>null\<close> gives the empty map; a string is
  iterated by its characters, none of which is an entry; anything else is not iterable. A
  key that is a primitive overwrites an earlier entry with the same key.
\<close>

definition entry_of :: "jsval \<Rightarrow> (jsval \<times> jsval) option" where
  "entry_of v =
     (case v of
        JArr xs \<Rightarrow> Some (if 0 < length xs then xs ! 0 else JUndefined,
                          if 1 < length xs then xs ! 1 else JUndefined)
      | JObj kvs \<Rightarrow> Some (case map_of kvs ''0'' of None \<Rightarrow> JUndefined | Some x \<Rightarrow> x,
                           case map_of kvs ''1'' of None \<Rightarrow> JUndefined | Some x \<Rightarrow> x)
      | _ \<Rightarrow> None)"

definition Map_set :: "jsval \<Rightarrow> jsval \<Rightarrow> (jsval \<times> jsval) list \<Rightarrow> (jsval \<times> jsval) list" where
  "Map_set k v es = (if primitive k then AList.update k v es else es @ [(k, v)])"

fun Map_of_entries :: "jsval list \<Rightarrow> (jsval \<times> jsval) list \<Rightarrow> error + (jsval \<times> jsval) list" where
  "Map_of_entries [] es = Inr es"
| "Map_of_entries (x # xs) es =
     (case entry_of x of
        None \<Rightarrow> Inl TypeError
      | Some kv \<Rightarrow> Map_of_entries xs (Map_set (fst kv) (snd kv) es))"

definition Map_new :: "jsval \<Rightarrow> error + jsval" where
  "Map_new v =
     (case v of
        JNull \<Rightarrow> Inr (JMap [])
      | JArr xs \<Rightarrow> bindE (Map_of_entries xs []) (\<lambda>es. Inr (JMap es))
      | JStr s \<Rightarrow> if s = [] then Inr (JMap []) else Inl TypeError
      | _ \<Rightarrow> Inl TypeError)"

text \<open>The entries of a value that is a \<open>Map\<close>; \<open>has\<close>, \<open>get\<close> and \<open>delete\<close> with a string key.\<close>

definition entries :: "jsval \<Rightarrow> (jsval \<times> jsval) list" where
  "entries v = (case v of JMap es \<Rightarrow> es | _ \<Rightarrow> [])"

definition Map_has :: "jsval \<Rightarrow> (jsval \<times> jsval) list \<Rightarrow> bool" where
  "Map_has k es = (map_of es k \<noteq> None)"

definition Map_get :: "jsval \<Rightarrow> (jsval \<times> jsval) list \<Rightarrow> jsval" where
  "Map_get k es = (case map_of es k of None \<Rightarrow> JUndefined | Some v \<Rightarrow> v)"

definition Map_delete :: "jsval \<Rightarrow> (jsval \<times> jsval) list \<Rightarrow> (jsval \<times> jsval) list" where
  "Map_delete k es = AList.delete k es"

text \<open>\<open>date.toISOString()\<close>, \<open>instanceof\<close> and the two tests by regular expression.\<close>

definition toISOString :: "jsval \<Rightarrow> error + string" where
  "toISOString v =
     (case v of
        JDate isoText txt \<Rightarrow> (case isoText of None \<Rightarrow> Inl RangeError | Some s \<Rightarrow> Inr s)
      | _ \<Rightarrow> Inl TypeError)"

definition is_RegExp :: "jsval \<Rightarrow> bool" where
  "is_RegExp v = (case v of JRegExp src \<Rightarrow> True | _ \<Rightarrow> False)"

definition is_Map :: "jsval \<Rightarrow> bool" where
  "is_Map v = (case v of JMap es \<Rightarrow> True | _ \<Rightarrow> False)"

definition is_Date :: "jsval \<Rightarrow> bool" where
  "is_Date v = (case v of JDate isoText txt \<Rightarrow> True | _ \<Rightarrow> False)"

definition is_Uint8Array :: "jsval \<Rightarrow> bool" where
  "is_Uint8Array v = (case v of JUint8Array bs \<Rightarrow> True | _ \<Rightarrow> False)"

text \<open>\<open>/^\/.*\/[gim]*$/.test(s)\<close>: a slash, characters other than line terminators, a
  slash, and then only the letters g, i and m up to the end.\<close>

definition line_terminator :: "char \<Rightarrow> bool" where
  "line_terminator c = (c = CHR 0x0A \<or> c = CHR 0x0D)"

definition looks_like_RegExp :: "string \<Rightarrow> bool" where
  "looks_like_RegExp s =
     (let flags = takeWhile (\<lambda>c. c = CHR ''g'' \<or> c = CHR ''i'' \<or> c = CHR ''m'') (rev s);
          body = drop (length flags) (rev s)
      in 2 \<le> length body \<and> hd body = CHR ''/'' \<and> last body = CHR ''/''
         \<and> \<not> list_ex line_terminator body)"

text \<open>\<open>/^[a-f0-9]{64}$/i.test(s)\<close>\<close>

definition is_hex :: "char \<Rightarrow> bool" where
  "is_hex c = (hex_val c \<noteq> None)"

definition looks_like_hash :: "string \<Rightarrow> bool" where
  "looks_like_hash s = (length s = 64 \<and> list_all is_hex s)"

text \<open>The result of a native function, read as a condition.\<close>

definition holds :: "error + jsval \<Rightarrow> error + bool" where
  "holds r = bindE r (\<lambda>v. Inr (truthy v))"

section \<open>StorageManager\<close>

text \<open>
  What a method returns: \<open>This\<close> is \<open>return this\<close> (the class), \<open>Ret v\<close> a value, with
  \<open>Ret JUndefined\<close> for a bare \<open>return\<close> and for falling off the end. A method yields
  either the error it throws or its return value with the host state it leaves. In the
  methods of this type every throw comes before the first mutating call, so a call that
  throws leaves the host as it was; the methods that sweep the whole storage can throw
  after they have removed items, and yield the host they leave together with the error.
  The flags \<open>useSessionStorage\<close> and \<open>throwOnError\<close> are taken as booleans, and the
  parameters \<open>secondsToExpiration\<close> and \<open>index\<close> as numbers holding an integer.
\<close>

datatype ret = This | Ret jsval

type_synonym outcome = "error + (ret \<times> host)"

type_synonym sweep = "error option \<times> host"

definition returned :: "ret \<Rightarrow> jsval" where
  "returned r = (case r of This \<Rightarrow> JUndefined | Ret v \<Rightarrow> v)"

definition key_must_be_string :: string where
  "key_must_be_string =
     ''Invalid parameters: '' @ [CHR 0x22] @ ''key'' @ [CHR 0x22] @ '' must be a string.''"

definition keys_must_be_strings :: string where
  "keys_must_be_strings =
     ''Invalid parameters: '' @ [CHR 0x22] @ ''key1'' @ [CHR 0x22] @ '' and ''
       @ [CHR 0x22] @ ''key2'' @ [CHR 0x22] @ '' must be strings.''"

definition key_and_propertyName_must_be_strings :: string where
  "key_and_propertyName_must_be_strings =
     ''Invalid parameters: '' @ [CHR 0x22] @ ''key'' @ [CHR 0x22] @ '' and ''
       @ [CHR 0x22] @ ''propertyName'' @ [CHR 0x22] @ '' must be strings.''"

definition value_must_be_an_array :: string where
  "value_must_be_an_array =
     ''Invalid parameters: '' @ [CHR 0x22] @ ''key'' @ [CHR 0x22] @ '' must be a string, and ''
       @ [CHR 0x22] @ ''value'' @ [CHR 0x22] @ '' must be an array.''"

definition func_must_be_a_function :: string where
  "func_must_be_a_function =
     ''Invalid parameters: '' @ [CHR 0x22] @ ''key'' @ [CHR 0x22] @ '' must be a string and ''
       @ [CHR 0x22] @ ''func'' @ [CHR 0x22] @ '' must be a function.''"

definition regExp_must_be_a_RegExp :: string where
  "regExp_must_be_a_RegExp =
     ''Invalid parameter: '' @ [CHR 0x22] @ ''regExp'' @ [CHR 0x22] @ '' must be a RegExp object.''"

definition no_stored_value_one_or_both :: "string \<Rightarrow> string \<Rightarrow> string" where
  "no_stored_value_one_or_both k1 k2 =
     ''No stored value found for one or both of the keys: '' @ [CHR 0x27] @ k1 @ [CHR 0x27]
       @ '', '' @ [CHR 0x27] @ k2 @ [CHR 0x27] @ ''.''"

definition no_stored_value :: "string \<Rightarrow> string" where
  "no_stored_value k = ''No stored value found for key '' @ [CHR 0x27] @ k @ [CHR 0x27] @ ''.''"

definition error_replacing :: "string \<Rightarrow> string" where
  "error_replacing k =
     ''Error replacing value for key '' @ [CHR 0x27] @ k @ [CHR 0x27] @ '': ''"

definition error_swapping :: "string \<Rightarrow> string \<Rightarrow> string" where
  "error_swapping k1 k2 =
     ''Error swapping values for keys '' @ [CHR 0x27] @ k1 @ [CHR 0x27] @ '' and ''
       @ [CHR 0x27] @ k2 @ [CHR 0x27] @ '': ''"

definition expected_an_array :: "string \<Rightarrow> string" where
  "expected_an_array k = ''Invalid stored value for key '' @ quoted k @ '': Expected an array.''"

definition error_removing_item :: "string \<Rightarrow> string" where
  "error_removing_item k = ''Error removing item with key '' @ quoted k @ '': ''"

definition not_a_valid_BigInt :: "string \<Rightarrow> string" where
  "not_a_valid_BigInt k = ''Value stored for key '' @ quoted k @ '' is not a valid BigInt.''"

definition error_removing_BigInt :: "string \<Rightarrow> string" where
  "error_removing_BigInt k = ''Error removing BigInt for key '' @ quoted k @ '': ''"

definition not_a_valid_binary :: "string \<Rightarrow> string" where
  "not_a_valid_binary k = ''Value stored for key '' @ quoted k @ '' is not a valid binary data.''"

definition not_valid_binary :: "string \<Rightarrow> string" where
  "not_valid_binary k = ''Value stored for key '' @ quoted k @ '' is not valid binary data.''"

definition error_removing_binary :: "string \<Rightarrow> string" where
  "error_removing_binary k = ''Error removing binary data for key '' @ quoted k @ '': ''"

definition not_a_valid_hash :: "string \<Rightarrow> string" where
  "not_a_valid_hash k = ''Value stored for key '' @ quoted k @ '' is not a valid hashed string.''"

text \<open>The \<open>message\<close> property of an error object, as a \<open>catch\<close> block reads it; the
  message of an exception of the host differs between engines and is left empty.\<close>

definition message_of :: "error \<Rightarrow> string" where
  "message_of e = (case e of Error m \<Rightarrow> m | _ \<Rightarrow> [])"

text \<open>The guard clause on top of the methods: when the check fails and does not throw,
  the method returns \<open>fallback\<close>.\<close>

definition guard :: "error + bool \<Rightarrow> bool \<Rightarrow> string \<Rightarrow> jsval \<Rightarrow> host \<Rightarrow> outcome \<Rightarrow> outcome" where
  "guard check throwOnError message fallback h body =
     bindE check (\<lambda>ok.
       if \<not> ok then bindE (throwOrReturnOnError throwOnError message) (\<lambda>_. Inr (Ret fallback, h))
       else body)"

text \<open>\<open>a || b\<close> on two negated checks: the second runs only when the first passed.\<close>

definition both :: "error + bool \<Rightarrow> error + bool \<Rightarrow> error + bool" where
  "both a b = bindE a (\<lambda>x. if \<not> x then Inr False else b)"

text \<open>\<open>storage.setItem(key, JSON.stringify(value))\<close>: the text is computed first, so a
  value that \<open>JSON.stringify\<close> rejects throws before anything is stored.\<close>

definition store :: "bool \<Rightarrow> string \<Rightarrow> jsval \<Rightarrow> host \<Rightarrow> error + host" where
  "store u k v h = bindE (JSON_stringify v) (\<lambda>text. Inr (setItem u k (item_of text) h))"

subsection \<open>Values of any type\<close>

definition setValue :: "host \<Rightarrow> jsval \<Rightarrow> jsval \<Rightarrow> bool \<Rightarrow> bool \<Rightarrow> outcome" where
  "setValue h key val useSessionStorage throwOnError =
     guard (isString key throwOnError) throwOnError key_must_be_string JUndefined h
       (bindE (store useSessionStorage (toStr key) val h) (\<lambda>h'. Inr (This, h')))"

definition getValue :: "host \<Rightarrow> jsval \<Rightarrow> bool \<Rightarrow> bool \<Rightarrow> outcome" where
  "getValue h key useSessionStorage throwOnError =
     guard (isString key throwOnError) throwOnError key_must_be_string JUndefined h
       (case getItem useSessionStorage (toStr key) h of
          None \<Rightarrow> Inr (Ret JNull, h)
        | Some storedValue \<Rightarrow>
            if storedValue = [] then Inr (Ret JNull, h)
            else (case JSON_parse storedValue of
                    None \<Rightarrow> Inl SyntaxError
                  | Some v \<Rightarrow> Inr (Ret v, h)))"

definition removeValue :: "host \<Rightarrow> jsval \<Rightarrow> bool \<Rightarrow> bool \<Rightarrow> outcome" where
  "removeValue h key useSessionStorage throwOnError =
     guard (isString key throwOnError) throwOnError key_must_be_string JUndefined h
       (Inr (This, removeItem useSessionStorage (toStr key) h))"

definition clearStorage :: "host \<Rightarrow> bool \<Rightarrow> outcome" where
  "clearStorage h useSessionStorage = Inr (Ret JUndefined, clear useSessionStorage h)"

subsection \<open>Objects\<close>

definition setObject :: "host \<Rightarrow> jsval \<Rightarrow> jsval \<Rightarrow> bool \<Rightarrow> bool \<Rightarrow> outcome" where
  "setObject h key val useSessionStorage throwOnError =
     guard (both (isString key throwOnError) (isObject val throwOnError))
        throwOnError key_must_be_string JUndefined h
       (bindE (store useSessionStorage (toStr key) val h) (\<lambda>h'. Inr (This, h')))"

definition getObject :: "host \<Rightarrow> jsval \<Rightarrow> bool \<Rightarrow> bool \<Rightarrow> outcome" where
  "getObject h key useSessionStorage throwOnError =
     guard (isString key throwOnError) throwOnError key_must_be_string JNull h
       (let tried =
          (case JSON_parse_item (getItem useSessionStorage (toStr key) h) of
             None \<Rightarrow> Inl SyntaxError
           | Some parsedValue \<Rightarrow>
               if parsedValue \<noteq> JNull \<and> typeof parsedValue = ''object''
                  \<and> \<not> isArray_host parsedValue
               then Inr (Ret parsedValue, h)
               else bindE (throwOrReturnOnError throwOnError
                             ''Stored value must be a non-array object.'')
                      (\<lambda>_. Inr (Ret JNull, h)))
        in case tried of
             Inl e \<Rightarrow> bindE (throwOrReturnOnError throwOnError ''Stored value must be an object.'')
                        (\<lambda>_. Inr (Ret JNull, h))
           | Inr r \<Rightarrow> Inr r)"

text \<open>\<open>JSON.parse(storage.getItem(key)) || {}\<close>\<close>

definition parsed_or_empty :: "string option \<Rightarrow> error + jsval" where
  "parsed_or_empty r = bindE (parsed r) (\<lambda>v. Inr (if truthy v then v else JObj []))"

definition addToObject :: "host \<Rightarrow> jsval \<Rightarrow> jsval \<Rightarrow> bool \<Rightarrow> bool \<Rightarrow> outcome" where
  "addToObject h key newValue useSessionStorage throwOnError =
     guard (both (isString key throwOnError) (isObject newValue throwOnError))
        throwOnError ''Invalid parameters'' JUndefined h
       (bindE (parsed_or_empty (getItem useSessionStorage (toStr key) h)) (\<lambda>storedValue.
          if typeof storedValue \<noteq> ''object''
          then reject throwOnError ''Stored value must be an object'' (Ret JUndefined, h)
          else let updatedValue = JObj (assign (enumerable storedValue) (enumerable newValue))
               in bindE (store useSessionStorage (toStr key) updatedValue h)
                    (\<lambda>h'. Inr (This, h'))))"

definition getFromObject :: "host \<Rightarrow> jsval \<Rightarrow> jsval \<Rightarrow> bool \<Rightarrow> bool \<Rightarrow> outcome" where
  "getFromObject h key propertyName useSessionStorage throwOnError =
     guard (both (isString key throwOnError) (isString propertyName throwOnError))
        throwOnError key_and_propertyName_must_be_strings JNull h
       (bindE (parsed (getItem useSessionStorage (toStr key) h)) (\<lambda>storedValue.
          Inr (Ret (if truthy storedValue
                    then (case own_property storedValue (toStr propertyName) of
                            None \<Rightarrow> JNull
                          | Some v \<Rightarrow> v)
                    else JNull), h)))"

text \<open>
  \<open>storedValue[propertyName] = newValue\<close> and \<open>delete storedValue[propertyName]\<close> on a
  value whose \<open>typeof\<close> is \<open>object\<close>: on an object the member is set or removed; what
  they do to an array (an element, a hole, the \<open>length\<close>, a \<open>RangeError\<close> or a
  \<open>TypeError\<close>) is taken from the parameter.
\<close>

definition set_member :: "natives \<Rightarrow> jsval \<Rightarrow> string \<Rightarrow> jsval \<Rightarrow> error + jsval" where
  "set_member env obj name v =
     (case obj of
        JObj kvs \<Rightarrow> Inr (JObj (AList.update name v kvs))
      | _ \<Rightarrow> env Assign_in_array [obj, JStr name, v])"

definition delete_member :: "natives \<Rightarrow> jsval \<Rightarrow> string \<Rightarrow> error + jsval" where
  "delete_member env obj name =
     (case obj of
        JObj kvs \<Rightarrow> Inr (JObj (AList.delete name kvs))
      | _ \<Rightarrow> env Delete_in_array [obj, JStr name])"

definition updateInObject ::
  "natives \<Rightarrow> host \<Rightarrow> jsval \<Rightarrow> jsval \<Rightarrow> jsval \<Rightarrow> bool \<Rightarrow> bool \<Rightarrow> outcome" where
  "updateInObject env h key propertyName newValue useSessionStorage throwOnError =
     guard (both (isString key throwOnError) (isString propertyName throwOnError))
        throwOnError key_and_propertyName_must_be_strings JUndefined h
       (bindE (parsed_or_empty (getItem useSessionStorage (toStr key) h)) (\<lambda>storedValue.
          if typeof storedValue \<noteq> ''object''
          then reject throwOnError ''Stored value must be an object'' (Ret JUndefined, h)
          else bindE (set_member env storedValue (toStr propertyName) newValue) (\<lambda>updated.
               bindE (store useSessionStorage (toStr key) updated h) (\<lambda>h'. Inr (This, h')))))"

definition removeFromObject ::
  "natives \<Rightarrow> host \<Rightarrow> jsval \<Rightarrow> jsval \<Rightarrow> bool \<Rightarrow> bool \<Rightarrow> outcome" where
  "removeFromObject env h key propertyName useSessionStorage throwOnError =
     guard (both (isString key throwOnError) (isString propertyName throwOnError))
        throwOnError key_and_propertyName_must_be_strings JUndefined h
       (bindE (parsed_or_empty (getItem useSessionStorage (toStr key) h)) (\<lambda>storedValue.
          if typeof storedValue \<noteq> ''object''
          then reject throwOnError ''Stored value must be an object'' (Ret JUndefined, h)
          else bindE (delete_member env storedValue (toStr propertyName)) (\<lambda>updated.
               bindE (store useSessionStorage (toStr key) updated h)
                 (\<lambda>h'. Inr (Ret JUndefined, h')))))"

definition deleteObject :: "host \<Rightarrow> jsval \<Rightarrow> bool \<Rightarrow> bool \<Rightarrow> outcome" where
  "deleteObject h key useSessionStorage throwOnError =
     guard (isString key throwOnError) throwOnError key_must_be_string JUndefined h
       (Inr (Ret JUndefined, removeItem useSessionStorage (toStr key) h))"

text \<open>
  \<open>Object.keys(storage).forEach(key => ...)\<close>: the keys are listed once, before the
  first round; a round that throws ends the sweep, with what the earlier rounds removed.
\<close>

fun forEach :: "(host \<Rightarrow> string \<Rightarrow> error + host) \<Rightarrow> string list \<Rightarrow> host \<Rightarrow> sweep" where
  "forEach f [] h = (None, h)"
| "forEach f (key # keys) h =
     (case f h key of Inl e \<Rightarrow> (Some e, h) | Inr h' \<Rightarrow> forEach f keys h')"

definition keys_of :: "bool \<Rightarrow> host \<Rightarrow> string list" where
  "keys_of u h = map fst (storage_of u h)"

definition removeAllObjectItems :: "host \<Rightarrow> bool \<Rightarrow> bool \<Rightarrow> sweep" where
  "removeAllObjectItems h useSessionStorage throwOnError =
     forEach (\<lambda>h key.
        catchE (bindE (parsed (getItem useSessionStorage key h)) (\<lambda>parsedValue.
                  if parsedValue \<noteq> JNull \<and> typeof parsedValue = ''object''
                     \<and> \<not> isArray_host parsedValue
                  then Inr (removeItem useSessionStorage key h)
                  else Inr h))
          (\<lambda>e. reject throwOnError (error_removing_item key @ message_of e) h))
       (keys_of useSessionStorage h) h"

subsection \<open>Arrays\<close>

definition setArray :: "host \<Rightarrow> jsval \<Rightarrow> jsval \<Rightarrow> bool \<Rightarrow> bool \<Rightarrow> outcome" where
  "setArray h key val useSessionStorage throwOnError =
     guard (both (isString key throwOnError) (isArray val throwOnError))
        throwOnError value_must_be_an_array JUndefined h
       (bindE (store useSessionStorage (toStr key) val h) (\<lambda>h'. Inr (This, h')))"

definition getArray :: "host \<Rightarrow> jsval \<Rightarrow> bool \<Rightarrow> bool \<Rightarrow> outcome" where
  "getArray h key useSessionStorage throwOnError =
     guard (isString key throwOnError) throwOnError key_must_be_string JNull h
       (case JSON_parse_item (getItem useSessionStorage (toStr key) h) of
          None \<Rightarrow> Inl SyntaxError
        | Some storedValue \<Rightarrow>
            if \<not> isArray_host storedValue
            then bindE (throwOrReturnOnError throwOnError ''Stored value must be an array.'')
                   (\<lambda>_. Inr (Ret JNull, h))
            else Inr (Ret storedValue, h))"

text \<open>The elements of a value that is an array. The three methods below parse the stored
  string twice; the second parse yields the array again.\<close>

definition elements :: "jsval \<Rightarrow> jsval list" where
  "elements v = (case v of JArr xs \<Rightarrow> xs | _ \<Rightarrow> [])"

definition stored_array :: "host \<Rightarrow> bool \<Rightarrow> string \<Rightarrow> error + jsval list" where
  "stored_array h u k =
     bindE (parsed (getItem u k h)) (\<lambda>p.
       if \<not> isArray_host p then Inl (Error (expected_an_array k))
       else Inr (elements p))"

definition addToArray :: "host \<Rightarrow> jsval \<Rightarrow> jsval \<Rightarrow> bool \<Rightarrow> bool \<Rightarrow> outcome" where
  "addToArray h key element useSessionStorage throwOnError =
     guard (isString key throwOnError) throwOnError key_must_be_string JUndefined h
       (bindE (stored_array h useSessionStorage (toStr key)) (\<lambda>arrayValue.
        bindE (store useSessionStorage (toStr key) (JArr (arrayValue @ [element])) h)
          (\<lambda>h'. Inr (This, h'))))"

definition updateInArray :: "host \<Rightarrow> jsval \<Rightarrow> jsval \<Rightarrow> jsval \<Rightarrow> bool \<Rightarrow> bool \<Rightarrow> outcome" where
  "updateInArray h key oldElement newElement useSessionStorage throwOnError =
     guard (isString key throwOnError) throwOnError key_must_be_string JUndefined h
       (bindE (stored_array h useSessionStorage (toStr key)) (\<lambda>arrayValue.
          case index_of arrayValue oldElement of
            None \<Rightarrow> Inr (This, h)
          | Some i \<Rightarrow>
              bindE (store useSessionStorage (toStr key) (JArr (arrayValue[i := newElement])) h)
                (\<lambda>h'. Inr (This, h'))))"

definition removeFromArray :: "host \<Rightarrow> jsval \<Rightarrow> jsval \<Rightarrow> bool \<Rightarrow> bool \<Rightarrow> outcome" where
  "removeFromArray h key element useSessionStorage throwOnError =
     guard (isString key throwOnError) throwOnError key_must_be_string JUndefined h
       (bindE (stored_array h useSessionStorage (toStr key)) (\<lambda>arrayValue.
          case index_of arrayValue element of
            None \<Rightarrow> Inr (This, h)
          | Some i \<Rightarrow>
              bindE (store useSessionStorage (toStr key)
                       (JArr (take i arrayValue @ drop (Suc i) arrayValue)) h)
                (\<lambda>h'. Inr (This, h'))))"

definition getFromArray ::
  "natives \<Rightarrow> host \<Rightarrow> jsval \<Rightarrow> int \<Rightarrow> bool \<Rightarrow> bool \<Rightarrow> outcome" where
  "getFromArray env h key index useSessionStorage throwOnError =
     guard (both (isString key throwOnError) (isNumber env (JNum index) throwOnError))
        throwOnError ''Invalid parameters'' JNull h
       (bindE (parsed (getItem useSessionStorage (toStr key) h)) (\<lambda>storedValue.
          if \<not> isArray_host storedValue
          then reject throwOnError ''Stored value must be an array.'' (Ret JNull, h)
          else if index < 0 \<or> int (length (elements storedValue)) \<le> index
          then reject throwOnError ''Index out of bounds.'' (Ret JNull, h)
          else Inr (Ret (elements storedValue ! nat index), h)))"

definition addToArrayByIndex ::
  "natives \<Rightarrow> host \<Rightarrow> jsval \<Rightarrow> jsval \<Rightarrow> int \<Rightarrow> bool \<Rightarrow> bool \<Rightarrow> outcome" where
  "addToArrayByIndex env h key element index useSessionStorage throwOnError =
     guard (both (isString key throwOnError) (isNumber env (JNum index) throwOnError))
        throwOnError ''Invalid parameters'' JUndefined h
       (bindE (stored_array h useSessionStorage (toStr key)) (\<lambda>arrayValue.
          if index < 0 \<or> int (length arrayValue) < index
          then Inl (Error (''Index out of bounds for key '' @ quoted (toStr key) @ ''.''))
          else bindE (store useSessionStorage (toStr key)
                        (JArr (take (nat index) arrayValue @ [element] @ drop (nat index) arrayValue)) h)
                 (\<lambda>h'. Inr (This, h'))))"

definition removeArray :: "host \<Rightarrow> jsval \<Rightarrow> bool \<Rightarrow> bool \<Rightarrow> outcome" where
  "removeArray h key useSessionStorage throwOnError =
     guard (isString key throwOnError) throwOnError key_must_be_string JUndefined h
       (Inr (Ret JUndefined, removeItem useSessionStorage (toStr key) h))"

definition removeAllArrayItems :: "host \<Rightarrow> bool \<Rightarrow> bool \<Rightarrow> sweep" where
  "removeAllArrayItems h useSessionStorage throwOnError =
     forEach (\<lambda>h key.
        catchE (bindE (parsed (getItem useSessionStorage key h)) (\<lambda>parsedValue.
                  if isArray_host parsedValue then Inr (removeItem useSessionStorage key h)
                  else Inr h))
          (\<lambda>e. reject throwOnError (error_removing_item key @ message_of e) h))
       (keys_of useSessionStorage h) h"

subsection \<open>Numbers\<close>

definition setNumber :: "host \<Rightarrow> jsval \<Rightarrow> jsval \<Rightarrow> bool \<Rightarrow> bool \<Rightarrow> outcome" where
  "setNumber h key val useSessionStorage throwOnError =
     guard (isString key throwOnError) throwOnError key_must_be_string JUndefined h
       (if getItem useSessionStorage (toStr key) h = None
        then bindE (store useSessionStorage (toStr key) val h) (\<lambda>h'. Inr (This, h'))
        else Inr (Ret JUndefined, h))"

definition getNumber :: "host \<Rightarrow> jsval \<Rightarrow> bool \<Rightarrow> bool \<Rightarrow> outcome" where
  "getNumber h key useSessionStorage throwOnError =
     guard (isString key throwOnError) throwOnError key_must_be_string JNull h
       (case JSON_parse_item (getItem useSessionStorage (toStr key) h) of
          None \<Rightarrow> Inl SyntaxError
        | Some storedValue \<Rightarrow>
            if typeof storedValue \<noteq> ''number''
            then bindE (throwOrReturnOnError throwOnError ''Stored value must be a number.'')
                   (\<lambda>_. Inr (Ret JNull, h))
            else Inr (Ret storedValue, h))"

definition updateNumber ::
  "natives \<Rightarrow> host \<Rightarrow> jsval \<Rightarrow> jsval \<Rightarrow> bool \<Rightarrow> bool \<Rightarrow> outcome" where
  "updateNumber env h key newValue useSessionStorage throwOnError =
     guard (isString key throwOnError) throwOnError key_must_be_string JUndefined h
       (bindE (isNumber env (item (getItem useSessionStorage (toStr key) h)) throwOnError) (\<lambda>ok.
          if \<not> ok then reject throwOnError ''Stored value must be a number.'' (Ret JUndefined, h)
          else bindE (env Number_of [newValue]) (\<lambda>n.
               bindE (store useSessionStorage (toStr key) n h) (\<lambda>h'. Inr (This, h')))))"

definition removeNumericValues :: "natives \<Rightarrow> host \<Rightarrow> bool \<Rightarrow> bool \<Rightarrow> sweep" where
  "removeNumericValues env h useSessionStorage throwOnError =
     forEach (\<lambda>h key.
        bindE (holds (env IsNaN [item (getItem useSessionStorage key h)])) (\<lambda>nan.
          if \<not> nan then Inr (removeItem useSessionStorage key h) else Inr h))
       (keys_of useSessionStorage h) h"

definition incrementValue ::
  "natives \<Rightarrow> host \<Rightarrow> jsval \<Rightarrow> jsval \<Rightarrow> bool \<Rightarrow> bool \<Rightarrow> outcome" where
  "incrementValue env h key incrementAmount useSessionStorage throwOnError =
     guard (isString key throwOnError) throwOnError key_must_be_string JUndefined h
       (let storedValue = item (getItem useSessionStorage (toStr key) h) in
        bindE (isNumber env storedValue throwOnError) (\<lambda>ok.
          if \<not> ok
          then reject throwOnError
                 (''Invalid stored value for key '' @ quoted (toStr key) @ '': Expected a number.'')
                 (Ret JUndefined, h)
          else bindE (env ParseFloat [storedValue]) (\<lambda>f.
               bindE (env Plus [f, incrementAmount]) (\<lambda>newValue.
               bindE (toString newValue) (\<lambda>text.
               Inr (This, setItem useSessionStorage (toStr key) text h))))))"

definition decrementValue ::
  "natives \<Rightarrow> host \<Rightarrow> jsval \<Rightarrow> jsval \<Rightarrow> bool \<Rightarrow> bool \<Rightarrow> outcome" where
  "decrementValue env h key amount useSessionStorage throwOnError =
     guard (isString key throwOnError) throwOnError key_must_be_string JUndefined h
       (let amount1 = (if amount = JUndefined then JNum 1 else amount);
            storedValue = item (getItem useSessionStorage (toStr key) h)
        in catchE
             (bindE (env ParseInt10 [storedValue]) (\<lambda>numericValue.
              bindE (holds (env IsNaN [numericValue])) (\<lambda>nan.
                if \<not> nan
                then bindE (env Minus [numericValue, amount1]) (\<lambda>d.
                     bindE (toString d) (\<lambda>text.
                     Inr (This, setItem useSessionStorage (toStr key) text h)))
                else reject throwOnError
                       (''Invalid numeric value for key '' @ quoted (toStr key) @ ''.'')
                       (This, h))))
             (\<lambda>e. reject throwOnError
                     (''Error decrementing value for key '' @ quoted (toStr key) @ '': ''
                        @ message_of e)
                     (This, h)))"

subsection \<open>Booleans\<close>

definition setBoolean :: "host \<Rightarrow> jsval \<Rightarrow> jsval \<Rightarrow> bool \<Rightarrow> bool \<Rightarrow> outcome" where
  "setBoolean h key val useSessionStorage throwOnError =
     guard (both (isString key throwOnError) (isBoolean val throwOnError))
        throwOnError key_must_be_string JUndefined h
       (bindE (store useSessionStorage (toStr key) (JBool (truthy val)) h)
          (\<lambda>h'. Inr (This, h')))"

definition getBoolean :: "host \<Rightarrow> jsval \<Rightarrow> bool \<Rightarrow> bool \<Rightarrow> outcome" where
  "getBoolean h key useSessionStorage throwOnError =
     guard (isString key throwOnError) throwOnError key_must_be_string JNull h
       (case JSON_parse_item (getItem useSessionStorage (toStr key) h) of
          None \<Rightarrow> Inl SyntaxError
        | Some storedValue \<Rightarrow>
            if typeof storedValue \<noteq> ''boolean'' \<and> storedValue \<noteq> JNull
            then bindE (throwOrReturnOnError throwOnError ''Stored value must be a boolean.'')
                   (\<lambda>_. Inr (Ret JNull, h))
            else Inr (Ret storedValue, h))"

definition updateBoolean :: "host \<Rightarrow> jsval \<Rightarrow> jsval \<Rightarrow> bool \<Rightarrow> bool \<Rightarrow> outcome" where
  "updateBoolean h key val useSessionStorage throwOnError =
     guard (isString key throwOnError) throwOnError key_must_be_string JUndefined h
       (let storedValue = getItem useSessionStorage (toStr key) h in
        bindE (parsed storedValue) (\<lambda>p.
          if typeof p \<noteq> ''boolean'' \<and> storedValue \<noteq> None
          then Inl (Error (''Invalid stored value for key '' @ quoted (toStr key)
                             @ '': Expected a boolean.''))
          else bindE (store useSessionStorage (toStr key) val h) (\<lambda>h'. Inr (This, h'))))"

definition removeAllBooleanItems :: "host \<Rightarrow> bool \<Rightarrow> bool \<Rightarrow> sweep" where
  "removeAllBooleanItems h useSessionStorage throwOnError =
     forEach (\<lambda>h key.
        catchE (bindE (parsed (getItem useSessionStorage key h)) (\<lambda>p.
                  if typeof p = ''boolean'' then Inr (removeItem useSessionStorage key h)
                  else Inr h))
          (\<lambda>e. reject throwOnError (error_removing_item key @ message_of e) h))
       (keys_of useSessionStorage h) h"

definition removeBoolean :: "host \<Rightarrow> jsval \<Rightarrow> bool \<Rightarrow> bool \<Rightarrow> outcome" where
  "removeBoolean h key useSessionStorage throwOnError =
     guard (isString key throwOnError) throwOnError key_must_be_string JUndefined h
       (Inr (Ret JUndefined, removeItem useSessionStorage (toStr key) h))"

subsection \<open>Strings\<close>

definition setString :: "host \<Rightarrow> jsval \<Rightarrow> jsval \<Rightarrow> bool \<Rightarrow> bool \<Rightarrow> outcome" where
  "setString h key val useSessionStorage throwOnError =
     guard (both (isString key throwOnError) (isString val throwOnError))
        throwOnError key_must_be_string JUndefined h
       (Inr (This, setItem useSessionStorage (toStr key) (toStr val) h))"

definition getString :: "host \<Rightarrow> jsval \<Rightarrow> bool \<Rightarrow> bool \<Rightarrow> outcome" where
  "getString h key useSessionStorage throwOnError =
     guard (isString key throwOnError) throwOnError key_must_be_string JNull h
       (case getItem useSessionStorage (toStr key) h of
          None \<Rightarrow> Inr (Ret JNull, h)
        | Some storedValue \<Rightarrow> Inr (Ret (JStr storedValue), h))"

definition updateString :: "host \<Rightarrow> jsval \<Rightarrow> jsval \<Rightarrow> bool \<Rightarrow> bool \<Rightarrow> outcome" where
  "updateString h key val useSessionStorage throwOnError =
     guard (isString key throwOnError) throwOnError key_must_be_string JUndefined h
       (if getItem useSessionStorage (toStr key) h \<noteq> None
        then Inr (This, setItem useSessionStorage (toStr key) (to_text val) h)
        else Inr (This, h))"

definition removeString :: "host \<Rightarrow> jsval \<Rightarrow> bool \<Rightarrow> bool \<Rightarrow> outcome" where
  "removeString h key useSessionStorage throwOnError =
     guard (isString key throwOnError) throwOnError key_must_be_string JUndefined h
       (if getItem useSessionStorage (toStr key) h \<noteq> None
        then Inr (Ret JUndefined, removeItem useSessionStorage (toStr key) h)
        else Inr (Ret JUndefined, h))"

definition removeAllStringItems :: "host \<Rightarrow> bool \<Rightarrow> bool \<Rightarrow> sweep" where
  "removeAllStringItems h useSessionStorage throwOnError =
     forEach (\<lambda>h key.
        catchE (bindE (parsed (getItem useSessionStorage key h)) (\<lambda>p. Inr h))
          (\<lambda>e. Inr (removeItem useSessionStorage key h)))
       (keys_of useSessionStorage h) h"

subsection \<open>Values with an expiration time\<close>

text \<open>
  \<open>setExpiration\<close>. \<open>now\<close> is the reading of \<open>Date.now()\<close> in milliseconds. The \<open>catch\<close>
  around \<open>setItem\<close> is entered when \<open>JSON.stringify\<close> rejects the value: it rethrows when
  \<open>throwOnError\<close> is true, and otherwise the method goes on to the timer with nothing
  stored. The scheduled callback is kept as a \<open>timer\<close>: its delay, the storage it closes
  over and the key.
\<close>

definition setExpiration ::
  "natives \<Rightarrow> host \<Rightarrow> int \<Rightarrow> jsval \<Rightarrow> jsval \<Rightarrow> int \<Rightarrow> bool \<Rightarrow> bool \<Rightarrow> outcome" where
  "setExpiration env h now key val secondsToExpiration useSessionStorage throwOnError =
     guard (both (isString key throwOnError) (isNumber env (JNum secondsToExpiration) throwOnError))
        throwOnError key_must_be_string JUndefined h
       (let expirationTime =
              (if secondsToExpiration \<noteq> 0 then JNum (now + secondsToExpiration * 1000)
               else JNull);
            storedValue = JObj [(''value'', val), (''expirationTime'', expirationTime)]
        in bindE (catchE (store useSessionStorage (toStr key) storedValue h)
                    (\<lambda>e. reject throwOnError
                            (''Error storing value for key '' @ quoted (toStr key) @ '': ''
                               @ message_of e) h))
             (\<lambda>h1. Inr (This,
                     if truthy expirationTime
                     then setTimeout \<lparr>delay = secondsToExpiration * 1000,
                                      session = useSessionStorage, target = toStr key\<rparr> h1
                     else h1)))"

text \<open>What a timer does when it fires: \<open>storage.removeItem(key)\<close> (and a console line).\<close>

definition fire :: "timer \<Rightarrow> host \<Rightarrow> host" where
  "fire tm h = removeItem (session tm) (target tm) h"

text \<open>\<open>const { value, expirationTime } = parsedValue\<close>\<close>

definition member :: "jsval \<Rightarrow> string \<Rightarrow> jsval" where
  "member v name = (case own_property v name of None \<Rightarrow> JUndefined | Some x \<Rightarrow> x)"

definition getExpiration :: "natives \<Rightarrow> host \<Rightarrow> int \<Rightarrow> jsval \<Rightarrow> bool \<Rightarrow> bool \<Rightarrow> outcome" where
  "getExpiration env h now key useSessionStorage throwOnError =
     guard (isString key throwOnError) throwOnError key_must_be_string JNull h
       (catchE
          (bindE (parsed (getItem useSessionStorage (toStr key) h)) (\<lambda>parsedValue.
             if \<not> truthy parsedValue \<or> typeof parsedValue \<noteq> ''object''
             then reject throwOnError ''Stored value must be an object.'' (Ret JNull, h)
             else let val = member parsedValue ''value'';
                      expirationTime = member parsedValue ''expirationTime''
                  in bindE (env Minus [expirationTime, JNum now]) (\<lambda>d.
                     bindE (env Math_max [JNum 0, d]) (\<lambda>remainingTime.
                     bindE (env Countdown [remainingTime]) (\<lambda>countdown.
                     Inr (Ret (JObj [(''value'', val), (''expirationTime'', expirationTime),
                                     (''remainingTime'', remainingTime),
                                     (''countdown'', countdown)]), h))))))
          (\<lambda>e. reject throwOnError
                  (''Invalid JSON format in stored value for key '' @ quoted (toStr key) @ '': ''
                     @ message_of e)
                  (Ret JNull, h)))"

definition checkExpiration :: "natives \<Rightarrow> host \<Rightarrow> int \<Rightarrow> jsval \<Rightarrow> bool \<Rightarrow> bool \<Rightarrow> outcome" where
  "checkExpiration env h now key useSessionStorage throwOnError =
     guard (isString key throwOnError) throwOnError key_must_be_string JNull h
       (case getItem useSessionStorage (toStr key) h of
          None \<Rightarrow> Inr (Ret JNull, h)
        | Some storedValue \<Rightarrow>
            bindE (parsed (Some storedValue)) (\<lambda>parsedItem.
            bindE (expirationTime_of parsedItem) (\<lambda>expirationTime.
              if \<not> truthy expirationTime then Inr (Ret (JBool False), h)
              else bindE (holds (env Greater [JNum now, expirationTime])) (\<lambda>expired.
                     Inr (Ret (JBool expired), h)))))"

definition clearExpiredValues ::
  "natives \<Rightarrow> host \<Rightarrow> int \<Rightarrow> jsval \<Rightarrow> bool \<Rightarrow> bool \<Rightarrow> outcome" where
  "clearExpiredValues env h now key useSessionStorage throwOnError =
     guard (isString key throwOnError) throwOnError key_must_be_string JUndefined h
       (catchE
          (bindE (parsed (getItem useSessionStorage (toStr key) h)) (\<lambda>parsedValue.
             if \<not> truthy parsedValue \<or> typeof parsedValue \<noteq> ''object''
             then reject throwOnError ''Stored value must be an object.'' (Ret JUndefined, h)
             else let expirationTime = member parsedValue ''expirationTime'' in
                  if \<not> truthy expirationTime then Inr (Ret JUndefined, h)
                  else bindE (holds (env LessEq [expirationTime, JNum now])) (\<lambda>due.
                         if due
                         then Inr (Ret JUndefined, removeItem useSessionStorage (toStr key) h)
                         else Inr (Ret JUndefined, h))))
          (\<lambda>e. reject throwOnError
                  (''Invalid JSON format in stored value for key '' @ quoted (toStr key) @ '': ''
                     @ message_of e)
                  (Ret JUndefined, h)))"

text \<open>\<open>removeAllTimingItems\<close>: the loop over \<open>Object.keys(storage)\<close>, with its empty
  \<open>catch\<close> around each round.\<close>

definition timing_round :: "bool \<Rightarrow> host \<Rightarrow> string \<Rightarrow> host" where
  "timing_round u h key =
     (case JSON_parse_item (getItem u key h) of
        None \<Rightarrow> h
      | Some storedValue \<Rightarrow>
          if truthy storedValue \<and> typeof storedValue = ''object''
             \<and> has_property ''expirationTime'' storedValue
          then removeItem u key h
          else h)"

definition removeAllTimingItems :: "host \<Rightarrow> bool \<Rightarrow> outcome" where
  "removeAllTimingItems h useSessionStorage =
     Inr (Ret JUndefined,
          foldl (timing_round useSessionStorage) h (map fst (storage_of useSessionStorage h)))"

subsection \<open>The whole storage\<close>

definition getAllKeys :: "host \<Rightarrow> bool \<Rightarrow> bool \<Rightarrow> outcome" where
  "getAllKeys h useSessionStorage throwOnError =
     Inr (Ret (JArr (map (\<lambda>kv. JStr (fst kv)) (storage_of useSessionStorage h))), h)"

definition getAllValues :: "host \<Rightarrow> bool \<Rightarrow> bool \<Rightarrow> outcome" where
  "getAllValues h useSessionStorage throwOnError =
     Inr (Ret (JArr (map (\<lambda>kv. JStr (snd kv)) (storage_of useSessionStorage h))), h)"

definition getAllEntries :: "host \<Rightarrow> bool \<Rightarrow> bool \<Rightarrow> outcome" where
  "getAllEntries h useSessionStorage throwOnError =
     Inr (Ret (JArr (map (\<lambda>kv. JObj [(''key'', JStr (fst kv)), (''value'', JStr (snd kv))])
                       (storage_of useSessionStorage h))), h)"

definition getStorageInfo :: "host \<Rightarrow> bool \<Rightarrow> bool \<Rightarrow> outcome" where
  "getStorageInfo h useSessionStorage throwOnError =
     Inr (Ret (JObj [(''totalItems'', JNum (int (length (storage_of useSessionStorage h)))),
                     (''totalSizeBytes'',
                      JNum (int (sum_list (map (\<lambda>kv. length (fst kv) + length (snd kv))
                                             (storage_of useSessionStorage h)))))]), h)"

definition replaceValue :: "host \<Rightarrow> jsval \<Rightarrow> jsval \<Rightarrow> bool \<Rightarrow> bool \<Rightarrow> outcome" where
  "replaceValue h key newValue useSessionStorage throwOnError =
     guard (isString key throwOnError) throwOnError key_must_be_string JUndefined h
       (let tried =
          (if getItem useSessionStorage (toStr key) h \<noteq> None
           then bindE (store useSessionStorage (toStr key) newValue h)
                  (\<lambda>h'. Inr (Ret JUndefined, h'))
           else bindE (throwOrReturnOnError throwOnError (no_stored_value (toStr key)))
                  (\<lambda>_. Inr (Ret JUndefined, h)))
        in case tried of
             Inl e \<Rightarrow> bindE (throwOrReturnOnError throwOnError
                               (error_replacing (toStr key) @ message_of e))
                        (\<lambda>_. Inr (Ret JUndefined, h))
           | Inr r \<Rightarrow> Inr r)"

definition swapValues :: "host \<Rightarrow> jsval \<Rightarrow> jsval \<Rightarrow> bool \<Rightarrow> bool \<Rightarrow> outcome" where
  "swapValues h key1 key2 useSessionStorage throwOnError =
     guard (both (isString key1 throwOnError) (isString key2 throwOnError))
        throwOnError keys_must_be_strings JUndefined h
       (let value1 = getItem useSessionStorage (toStr key1) h;
            value2 = getItem useSessionStorage (toStr key2) h;
            tried =
              (case (value1, value2) of
                 (Some v1, Some v2) \<Rightarrow>
                   Inr (Ret JUndefined,
                        setItem useSessionStorage (toStr key2) v1
                          (setItem useSessionStorage (toStr key1) v2 h))
               | _ \<Rightarrow> bindE (throwOrReturnOnError throwOnError
                                (no_stored_value_one_or_both (toStr key1) (toStr key2)))
                        (\<lambda>_. Inr (Ret JUndefined, h)))
        in case tried of
             Inl e \<Rightarrow> bindE (throwOrReturnOnError throwOnError
                               (error_swapping (toStr key1) (toStr key2) @ message_of e))
                        (\<lambda>_. Inr (Ret JUndefined, h))
           | Inr r \<Rightarrow> Inr r)"

text \<open>\<open>logAvailableFunctions\<close> writes the method names to the console.\<close>

definition logAvailableFunctions :: "host \<Rightarrow> outcome" where
  "logAvailableFunctions h = Inr (Ret JUndefined, h)"

subsection \<open>Maps\<close>

definition setMap :: "host \<Rightarrow> jsval \<Rightarrow> jsval \<Rightarrow> bool \<Rightarrow> bool \<Rightarrow> outcome" where
  "setMap h key val useSessionStorage throwOnError =
     guard (isString key throwOnError) throwOnError key_must_be_string JUndefined h
       (catchE
          (bindE (spread val) (\<lambda>xs.
           bindE (store useSessionStorage (toStr key) (JArr xs) h) (\<lambda>h'. Inr (This, h'))))
          (\<lambda>e. reject throwOnError
                  (''Error storing Map for key '' @ quoted (toStr key) @ '': '' @ message_of e)
                  (This, h)))"

definition getMap :: "host \<Rightarrow> jsval \<Rightarrow> bool \<Rightarrow> bool \<Rightarrow> outcome" where
  "getMap h key useSessionStorage throwOnError =
     guard (isString key throwOnError) throwOnError key_must_be_string JNull h
       (let storedValue = getItem useSessionStorage (toStr key) h in
        catchE
          (if truthy (item storedValue)
           then bindE (parsed storedValue) (\<lambda>p. bindE (Map_new p) (\<lambda>m. Inr (Ret m, h)))
           else Inr (Ret JNull, h))
          (\<lambda>e. reject throwOnError ''Invalid JSON format in stored Map.'' (Ret JNull, h)))"

definition removeMap :: "host \<Rightarrow> jsval \<Rightarrow> bool \<Rightarrow> bool \<Rightarrow> outcome" where
  "removeMap h key useSessionStorage throwOnError =
     guard (isString key throwOnError) throwOnError key_must_be_string JUndefined h
       (Inr (Ret JUndefined, removeItem useSessionStorage (toStr key) h))"

definition not_found_in_Map :: "string \<Rightarrow> string" where
  "not_found_in_Map k = ''Element with key '' @ quoted k @ '' not found in Map.''"

definition updateKeyInMap ::
  "host \<Rightarrow> jsval \<Rightarrow> jsval \<Rightarrow> jsval \<Rightarrow> bool \<Rightarrow> bool \<Rightarrow> outcome" where
  "updateKeyInMap h mapKey oldKey newKey useSessionStorage throwOnError =
     guard (both (both (isString mapKey throwOnError) (isString oldKey throwOnError))
              (isString newKey throwOnError))
        throwOnError key_must_be_string JUndefined h
       (bindE (getMap h mapKey useSessionStorage throwOnError) (\<lambda>got.
          let m = returned (fst got) in
          if \<not> truthy m then Inr (This, h)
          else if Map_has oldKey (entries m)
          then bindE (setMap h mapKey
                        (JMap (Map_set newKey (Map_get oldKey (entries m))
                                 (Map_delete oldKey (entries m))))
                        useSessionStorage throwOnError)
                 (\<lambda>stored. Inr (This, snd stored))
          else reject throwOnError (not_found_in_Map (toStr oldKey)) (This, h)))"

definition updateValueInMap ::
  "host \<Rightarrow> jsval \<Rightarrow> jsval \<Rightarrow> jsval \<Rightarrow> bool \<Rightarrow> bool \<Rightarrow> outcome" where
  "updateValueInMap h mapKey key newValue useSessionStorage throwOnError =
     guard (both (isString mapKey throwOnError) (isString key throwOnError))
        throwOnError key_must_be_string JUndefined h
       (bindE (getMap h mapKey useSessionStorage throwOnError) (\<lambda>got.
          let m = returned (fst got) in
          if \<not> truthy m then Inr (This, h)
          else if Map_has key (entries m)
          then bindE (setMap h mapKey (JMap (Map_set key newValue (entries m)))
                        useSessionStorage throwOnError)
                 (\<lambda>stored. Inr (This, snd stored))
          else reject throwOnError (not_found_in_Map (toStr key)) (This, h)))"

definition removeElementByKeyInMap ::
  "host \<Rightarrow> jsval \<Rightarrow> jsval \<Rightarrow> bool \<Rightarrow> bool \<Rightarrow> outcome" where
  "removeElementByKeyInMap h mapKey key useSessionStorage throwOnError =
     guard (both (isString mapKey throwOnError) (isString key throwOnError))
        throwOnError key_must_be_string JUndefined h
       (bindE (getMap h mapKey useSessionStorage throwOnError) (\<lambda>got.
          let m = returned (fst got) in
          if \<not> truthy m then Inr (This, h)
          else if Map_has key (entries m)
          then bindE (setMap h mapKey (JMap (Map_delete key (entries m)))
                        useSessionStorage throwOnError)
                 (\<lambda>stored. Inr (This, snd stored))
          else reject throwOnError (not_found_in_Map (toStr key)) (This, h)))"

text \<open>\<open>[...map].find(([k, v]) => v === value)?.[0]\<close>: the key of the first entry whose
  value is the given one, or \<open>undefined\<close>; the entry found is the one deleted.\<close>

definition removeElementByValueInMap ::
  "host \<Rightarrow> jsval \<Rightarrow> jsval \<Rightarrow> bool \<Rightarrow> bool \<Rightarrow> outcome" where
  "removeElementByValueInMap h mapKey val useSessionStorage throwOnError =
     guard (isString mapKey throwOnError) throwOnError key_must_be_string JUndefined h
       (bindE (getMap h mapKey useSessionStorage throwOnError) (\<lambda>got.
          let m = returned (fst got) in
          if \<not> truthy m then Inr (This, h)
          else (case find (\<lambda>e. strict_equal (snd e) val) (entries m) of
                  Some e \<Rightarrow>
                    if fst e \<noteq> JUndefined
                    then bindE (setMap h mapKey (JMap (remove1 e (entries m)))
                                  useSessionStorage throwOnError)
                           (\<lambda>stored. Inr (This, snd stored))
                    else reject throwOnError
                           (''Element with value '' @ quoted (to_text val) @ '' not found in Map.'')
                           (This, h)
                | None \<Rightarrow>
                    reject throwOnError
                      (''Element with value '' @ quoted (to_text val) @ '' not found in Map.'')
                      (This, h))))"

definition addIntoMap ::
  "host \<Rightarrow> jsval \<Rightarrow> jsval \<Rightarrow> jsval \<Rightarrow> bool \<Rightarrow> bool \<Rightarrow> outcome" where
  "addIntoMap h mapKey key val useSessionStorage throwOnError =
     guard (both (isString mapKey throwOnError) (isString key throwOnError))
        throwOnError key_must_be_string JUndefined h
       (bindE (getMap h mapKey useSessionStorage throwOnError) (\<lambda>got.
          let m = returned (fst got) in
          if \<not> truthy m then Inr (This, h)
          else if \<not> Map_has key (entries m)
          then bindE (setMap h mapKey (JMap (Map_set key val (entries m)))
                        useSessionStorage throwOnError)
                 (\<lambda>stored. Inr (This, snd stored))
          else reject throwOnError
                 (''Element with key '' @ quoted (toStr key) @ '' already exists in Map.'')
                 (This, h)))"

definition emptyMap :: "host \<Rightarrow> jsval \<Rightarrow> bool \<Rightarrow> bool \<Rightarrow> outcome" where
  "emptyMap h mapKey useSessionStorage throwOnError =
     guard (isString mapKey throwOnError) throwOnError key_must_be_string JUndefined h
       (bindE (getMap h mapKey useSessionStorage throwOnError) (\<lambda>got.
          let m = returned (fst got) in
          if \<not> truthy m then Inr (Ret JUndefined, h)
          else bindE (setMap h mapKey (JMap []) useSessionStorage throwOnError)
                 (\<lambda>stored. Inr (Ret JUndefined, snd stored))))"

definition removeAllMapItems :: "host \<Rightarrow> bool \<Rightarrow> bool \<Rightarrow> sweep" where
  "removeAllMapItems h useSessionStorage throwOnError =
     forEach (\<lambda>h key.
        catchE (bindE (parsed (getItem useSessionStorage key h)) (\<lambda>storedValue.
                  if is_Map storedValue then Inr (removeItem useSessionStorage key h)
                  else Inr h))
          (\<lambda>e. reject throwOnError
                  (''Error removing Map with key '' @ quoted key @ '': '' @ message_of e) h))
       (keys_of useSessionStorage h) h"

subsection \<open>Dates\<close>

definition setDate :: "host \<Rightarrow> jsval \<Rightarrow> jsval \<Rightarrow> bool \<Rightarrow> bool \<Rightarrow> outcome" where
  "setDate h key date useSessionStorage throwOnError =
     guard (isString key throwOnError) throwOnError key_must_be_string JUndefined h
       (catchE
          (bindE (toISOString date) (\<lambda>text.
             Inr (This, setItem useSessionStorage (toStr key) text h)))
          (\<lambda>e. reject throwOnError
                  (''Error storing Date for key '' @ quoted (toStr key) @ '': '' @ message_of e)
                  (This, h)))"

definition getDate :: "natives \<Rightarrow> host \<Rightarrow> jsval \<Rightarrow> bool \<Rightarrow> bool \<Rightarrow> outcome" where
  "getDate env h key useSessionStorage throwOnError =
     guard (isString key throwOnError) throwOnError key_must_be_string JNull h
       (let storedValue = item (getItem useSessionStorage (toStr key) h) in
        catchE
          (if truthy storedValue
           then bindE (env New_Date [storedValue]) (\<lambda>d. Inr (Ret d, h))
           else Inr (Ret JNull, h))
          (\<lambda>e. reject throwOnError ''Invalid Date format in stored value.'' (Ret JNull, h)))"

definition removeDate :: "host \<Rightarrow> jsval \<Rightarrow> bool \<Rightarrow> bool \<Rightarrow> outcome" where
  "removeDate h key useSessionStorage throwOnError =
     guard (isString key throwOnError) throwOnError key_must_be_string JUndefined h
       (Inr (This, removeItem useSessionStorage (toStr key) h))"

definition removeAllDateItems :: "host \<Rightarrow> bool \<Rightarrow> bool \<Rightarrow> sweep" where
  "removeAllDateItems h useSessionStorage throwOnError =
     forEach (\<lambda>h key.
        catchE (bindE (parsed (getItem useSessionStorage key h)) (\<lambda>storedValue.
                  if is_Date storedValue then Inr (removeItem useSessionStorage key h)
                  else Inr h))
          (\<lambda>e. reject throwOnError
                  (''Error removing Date with key '' @ quoted key @ '': '' @ message_of e) h))
       (keys_of useSessionStorage h) h"

subsection \<open>Functions\<close>

definition setFunction :: "host \<Rightarrow> jsval \<Rightarrow> jsval \<Rightarrow> bool \<Rightarrow> bool \<Rightarrow> outcome" where
  "setFunction h key func useSessionStorage throwOnError =
     guard (both (isString key throwOnError) (isFunction func throwOnError))
        throwOnError func_must_be_a_function JUndefined h
       (catchE
          (bindE (toString func) (\<lambda>text.
             Inr (This, setItem useSessionStorage (toStr key) text h)))
          (\<lambda>e. reject throwOnError
                  (''Error storing function for key '' @ quoted (toStr key) @ '': ''
                     @ message_of e)
                  (This, h)))"

text \<open>\<open>new Function(`return ${storedValue}`)()\<close>: the value that evaluating the stored
  text yields is taken from the parameter; an evaluation that itself works on the
  storages is outside the embedding.\<close>

definition getFunction :: "natives \<Rightarrow> host \<Rightarrow> jsval \<Rightarrow> bool \<Rightarrow> bool \<Rightarrow> outcome" where
  "getFunction env h key useSessionStorage throwOnError =
     guard (isString key throwOnError) throwOnError key_must_be_string JNull h
       (let storedValue = item (getItem useSessionStorage (toStr key) h) in
        catchE
          (if truthy storedValue
           then bindE (env New_Function [JStr (''return '' @ toStr storedValue)])
                  (\<lambda>f. Inr (Ret f, h))
           else Inr (Ret JNull, h))
          (\<lambda>e. reject throwOnError ''Invalid function format in stored value.'' (Ret JNull, h)))"

definition removeFunction :: "host \<Rightarrow> jsval \<Rightarrow> bool \<Rightarrow> bool \<Rightarrow> outcome" where
  "removeFunction h key useSessionStorage throwOnError =
     guard (isString key throwOnError) throwOnError key_must_be_string JUndefined h
       (Inr (Ret JUndefined, removeItem useSessionStorage (toStr key) h))"

subsection \<open>Regular expressions\<close>

definition setRegExp :: "host \<Rightarrow> jsval \<Rightarrow> jsval \<Rightarrow> bool \<Rightarrow> bool \<Rightarrow> outcome" where
  "setRegExp h key regExp useSessionStorage throwOnError =
     guard (isString key throwOnError) throwOnError key_must_be_string JUndefined h
       (if \<not> is_RegExp regExp
        then reject throwOnError regExp_must_be_a_RegExp (Ret JUndefined, h)
        else catchE
               (bindE (toString regExp) (\<lambda>text.
                  Inr (Ret JUndefined, setItem useSessionStorage (toStr key) text h)))
               (\<lambda>e. reject throwOnError
                       (''Error storing RegExp for key '' @ quoted (toStr key) @ '': ''
                          @ message_of e)
                       (Ret JUndefined, h)))"

definition getRegExp :: "natives \<Rightarrow> host \<Rightarrow> jsval \<Rightarrow> bool \<Rightarrow> bool \<Rightarrow> outcome" where
  "getRegExp env h key useSessionStorage throwOnError =
     guard (isString key throwOnError) throwOnError key_must_be_string JNull h
       (catchE
          (bindE (env New_RegExp [item (getItem useSessionStorage (toStr key) h)]) (\<lambda>regex.
             if is_RegExp regex then Inr (Ret regex, h)
             else reject throwOnError ''Invalid RegExp format in stored value.'' (Ret JNull, h)))
          (\<lambda>e. reject throwOnError ''Invalid RegExp format in stored value.'' (Ret JNull, h)))"

definition removeRegExp :: "host \<Rightarrow> jsval \<Rightarrow> bool \<Rightarrow> bool \<Rightarrow> outcome" where
  "removeRegExp h key useSessionStorage throwOnError =
     guard (isString key throwOnError) throwOnError key_must_be_string JUndefined h
       (catchE
          (case getItem useSessionStorage (toStr key) h of
             Some storedValue \<Rightarrow>
               if looks_like_RegExp storedValue
               then Inr (Ret JUndefined, removeItem useSessionStorage (toStr key) h)
               else reject throwOnError
                      (''Value stored for key '' @ quoted (toStr key)
                         @ '' is not a valid RegExp object.'')
                      (Ret JUndefined, h)
           | None \<Rightarrow>
               reject throwOnError
                 (''Value stored for key '' @ quoted (toStr key)
                    @ '' is not a valid RegExp object.'')
                 (Ret JUndefined, h))
          (\<lambda>e. reject throwOnError
                  (''Error removing RegExp for key '' @ quoted (toStr key) @ '': ''
                     @ message_of e)
                  (Ret JUndefined, h)))"

text \<open>
  \<open>for (let i = 0; i < storage.length; i++) { const key = storage.key(i); ... }\<close>: a
  round tests the stored string and removes the key when the test holds. With \<open>stay\<close> the
  round that removes also takes \<open>i\<close> back by one; without it the item that moves into
  the freed place is passed over. A test that throws ends the sweep.
\<close>

function sweep_index ::
  "bool \<Rightarrow> (string \<Rightarrow> jsval \<Rightarrow> error + bool) \<Rightarrow> bool \<Rightarrow> nat \<Rightarrow> host \<Rightarrow> sweep" where
  "sweep_index stay test u i h =
     (if i < length (storage_of u h)
      then (case test (fst (storage_of u h ! i)) (item (getItem u (fst (storage_of u h ! i)) h)) of
              Inl e \<Rightarrow> (Some e, h)
            | Inr remove \<Rightarrow>
                if remove
                then sweep_index stay test u (if stay then i else Suc i)
                       (removeItem u (fst (storage_of u h ! i)) h)
                else sweep_index stay test u (Suc i) h)
      else (None, h))"
  by pat_completeness auto

definition removeAllRegExpItems :: "host \<Rightarrow> bool \<Rightarrow> bool \<Rightarrow> sweep" where
  "removeAllRegExpItems h useSessionStorage throwOnError =
     sweep_index False (\<lambda>key storedValue. Inr (looks_like_RegExp (toStr storedValue)))
       useSessionStorage 0 h"

subsection \<open>The value undefined\<close>

definition setUndefined :: "host \<Rightarrow> jsval \<Rightarrow> bool \<Rightarrow> bool \<Rightarrow> outcome" where
  "setUndefined h key useSessionStorage throwOnError =
     guard (isString key throwOnError) throwOnError key_must_be_string JUndefined h
       (Inr (Ret JUndefined, setItem useSessionStorage (toStr key) (to_text JUndefined) h))"

definition isUndefined :: "host \<Rightarrow> jsval \<Rightarrow> bool \<Rightarrow> bool \<Rightarrow> outcome" where
  "isUndefined h key useSessionStorage throwOnError =
     guard (isString key throwOnError) throwOnError key_must_be_string JNull h
       (Inr (Ret (JBool (item (getItem useSessionStorage (toStr key) h) = JUndefined)), h))"

definition removeUndefined :: "host \<Rightarrow> jsval \<Rightarrow> bool \<Rightarrow> bool \<Rightarrow> outcome" where
  "removeUndefined h key useSessionStorage throwOnError =
     guard (isString key throwOnError) throwOnError key_must_be_string JUndefined h
       (if item (getItem useSessionStorage (toStr key) h) = JUndefined
        then Inr (Ret JUndefined, removeItem useSessionStorage (toStr key) h)
        else Inr (Ret JUndefined, h))"

definition removeAllUndefined :: "host \<Rightarrow> bool \<Rightarrow> bool \<Rightarrow> sweep" where
  "removeAllUndefined h useSessionStorage throwOnError =
     sweep_index True (\<lambda>key storedValue. Inr (storedValue = JUndefined)) useSessionStorage 0 h"

subsection \<open>The value null\<close>

definition setNull :: "host \<Rightarrow> jsval \<Rightarrow> bool \<Rightarrow> bool \<Rightarrow> outcome" where
  "setNull h key useSessionStorage throwOnError =
     guard (isString key throwOnError) throwOnError key_must_be_string JUndefined h
       (Inr (Ret JUndefined, setItem useSessionStorage (toStr key) ''null'' h))"

text \<open>\<open>isNull\<close> has no guard clause: \<open>getItem\<close> converts whatever key it is given to a
  string.\<close>

definition isNull :: "host \<Rightarrow> jsval \<Rightarrow> bool \<Rightarrow> outcome" where
  "isNull h key useSessionStorage =
     Inr (Ret (JBool (getItem useSessionStorage (to_text key) h = Some ''null'')), h)"

definition removeNull :: "host \<Rightarrow> jsval \<Rightarrow> bool \<Rightarrow> bool \<Rightarrow> outcome" where
  "removeNull h key useSessionStorage throwOnError =
     guard (isString key throwOnError) throwOnError key_must_be_string JUndefined h
       (if getItem useSessionStorage (toStr key) h = Some ''null''
        then Inr (Ret JUndefined, removeItem useSessionStorage (toStr key) h)
        else reject throwOnError
               (''Value stored for key '' @ quoted (toStr key) @ '' is not a '' @ quoted ''null''
                  @ '' value.'')
               (Ret JUndefined, h))"

definition removeAllNullItems :: "host \<Rightarrow> bool \<Rightarrow> bool \<Rightarrow> sweep" where
  "removeAllNullItems h useSessionStorage throwOnError =
     sweep_index True (\<lambda>key storedValue. Inr (storedValue = JStr ''null'')) useSessionStorage 0 h"

subsection \<open>Big integers\<close>

definition setBigInt :: "host \<Rightarrow> jsval \<Rightarrow> jsval \<Rightarrow> bool \<Rightarrow> bool \<Rightarrow> outcome" where
  "setBigInt h key bigInt useSessionStorage throwOnError =
     guard (isString key throwOnError) throwOnError key_must_be_string JUndefined h
       (if typeof bigInt \<noteq> ''bigint''
        then reject throwOnError ''Invalid BigInt value.'' (Ret JUndefined, h)
        else catchE
               (bindE (toString bigInt) (\<lambda>text.
                  Inr (This, setItem useSessionStorage (toStr key) text h)))
               (\<lambda>e. reject throwOnError
                       (''Error storing BigInt for key '' @ quoted (toStr key) @ '': ''
                          @ message_of e)
                       (This, h)))"

text \<open>\<open>storedValue ? BigInt(storedValue) : null\<close>, and the test that the result is a
  \<open>bigint\<close>.\<close>

definition stored_BigInt :: "natives \<Rightarrow> jsval \<Rightarrow> error + jsval" where
  "stored_BigInt env storedValue =
     (if truthy storedValue then env BigInt_of [storedValue] else Inr JNull)"

definition is_BigInt :: "jsval \<Rightarrow> bool" where
  "is_BigInt v = (v \<noteq> JNull \<and> typeof v = ''bigint'')"

definition getBigInt :: "natives \<Rightarrow> host \<Rightarrow> jsval \<Rightarrow> bool \<Rightarrow> bool \<Rightarrow> outcome" where
  "getBigInt env h key useSessionStorage throwOnError =
     guard (isString key throwOnError) throwOnError key_must_be_string JNull h
       (catchE
          (bindE (stored_BigInt env (item (getItem useSessionStorage (toStr key) h)))
             (\<lambda>retrievedBigInt.
                if is_BigInt retrievedBigInt then Inr (Ret retrievedBigInt, h)
                else reject throwOnError (not_a_valid_BigInt (toStr key)) (Ret JNull, h)))
          (\<lambda>e. reject throwOnError
                  (''Error retrieving BigInt for key '' @ quoted (toStr key) @ '': ''
                     @ message_of e)
                  (Ret JNull, h)))"

definition removeBigInt :: "natives \<Rightarrow> host \<Rightarrow> jsval \<Rightarrow> bool \<Rightarrow> bool \<Rightarrow> outcome" where
  "removeBigInt env h key useSessionStorage throwOnError =
     guard (isString key throwOnError) throwOnError key_must_be_string JUndefined h
       (catchE
          (bindE (stored_BigInt env (item (getItem useSessionStorage (toStr key) h)))
             (\<lambda>retrievedBigInt.
                if is_BigInt retrievedBigInt
                then Inr (Ret JUndefined, removeItem useSessionStorage (toStr key) h)
                else reject throwOnError (not_a_valid_BigInt (toStr key)) (Ret JUndefined, h)))
          (\<lambda>e. reject throwOnError (error_removing_BigInt (toStr key) @ message_of e)
                  (Ret JUndefined, h)))"

definition removeAllBigIntItems :: "natives \<Rightarrow> host \<Rightarrow> bool \<Rightarrow> bool \<Rightarrow> sweep" where
  "removeAllBigIntItems env h useSessionStorage throwOnError =
     sweep_index False
       (\<lambda>key storedValue.
          catchE
            (bindE (stored_BigInt env storedValue) (\<lambda>retrievedBigInt.
               if is_BigInt retrievedBigInt then Inr True
               else reject throwOnError (not_a_valid_BigInt key) False))
            (\<lambda>e. reject throwOnError (error_removing_BigInt key @ message_of e) False))
       useSessionStorage 0 h"

subsection \<open>Binary data\<close>

definition setBinary :: "host \<Rightarrow> jsval \<Rightarrow> jsval \<Rightarrow> bool \<Rightarrow> bool \<Rightarrow> outcome" where
  "setBinary h key binaryData useSessionStorage throwOnError =
     guard (isString key throwOnError) throwOnError key_must_be_string JUndefined h
       (if \<not> is_Uint8Array binaryData
        then reject throwOnError ''Invalid binary data: It must be a Uint8Array.''
               (Ret JUndefined, h)
        else catchE
               (bindE (spread binaryData) (\<lambda>bytes.
                bindE (store useSessionStorage (toStr key) (JArr bytes) h)
                  (\<lambda>h'. Inr (This, h'))))
               (\<lambda>e. reject throwOnError
                       (''Error storing binary data for key '' @ quoted (toStr key) @ '': ''
                          @ message_of e)
                       (This, h)))"

text \<open>\<open>new Uint8Array(JSON.parse(storedValue))\<close> for a stored string, and the test that
  the result is a \<open>Uint8Array\<close>.\<close>

definition stored_binary :: "natives \<Rightarrow> string \<Rightarrow> error + jsval" where
  "stored_binary env storedValue =
     bindE (parsed (Some storedValue)) (\<lambda>parsedArray. env New_Uint8Array [parsedArray])"

definition getBinary :: "natives \<Rightarrow> host \<Rightarrow> jsval \<Rightarrow> bool \<Rightarrow> bool \<Rightarrow> outcome" where
  "getBinary env h key useSessionStorage throwOnError =
     guard (isString key throwOnError) throwOnError key_must_be_string JNull h
       (catchE
          (case getItem useSessionStorage (toStr key) h of
             Some storedValue \<Rightarrow>
               bindE (stored_binary env storedValue) (\<lambda>binaryData.
                 if is_Uint8Array binaryData then Inr (Ret binaryData, h)
                 else reject throwOnError (not_a_valid_binary (toStr key)) (Ret JNull, h))
           | None \<Rightarrow> Inr (Ret JNull, h))
          (\<lambda>e. reject throwOnError ''Invalid binary data format in stored value.''
                  (Ret JNull, h)))"

definition removeBinary :: "natives \<Rightarrow> host \<Rightarrow> jsval \<Rightarrow> bool \<Rightarrow> bool \<Rightarrow> outcome" where
  "removeBinary env h key useSessionStorage throwOnError =
     guard (isString key throwOnError) throwOnError key_must_be_string JUndefined h
       (catchE
          (case getItem useSessionStorage (toStr key) h of
             Some storedValue \<Rightarrow>
               bindE (stored_binary env storedValue) (\<lambda>binaryData.
                 if is_Uint8Array binaryData
                 then Inr (Ret JUndefined, removeItem useSessionStorage (toStr key) h)
                 else reject throwOnError (not_a_valid_binary (toStr key)) (Ret JUndefined, h))
           | None \<Rightarrow> reject throwOnError (not_valid_binary (toStr key)) (Ret JUndefined, h))
          (\<lambda>e. reject throwOnError (error_removing_binary (toStr key) @ message_of e)
                  (Ret JUndefined, h)))"

text \<open>\<open>removeAllBinaryItems\<close> removes nothing in its loop, which only tests every item,
  and then clears the whole storage.\<close>

definition removeAllBinaryItems :: "natives \<Rightarrow> host \<Rightarrow> bool \<Rightarrow> bool \<Rightarrow> sweep" where
  "removeAllBinaryItems env h useSessionStorage throwOnError =
     (case sweep_index False
             (\<lambda>key storedValue.
                catchE
                  (case storedValue of
                     JStr s \<Rightarrow>
                       bindE (stored_binary env s) (\<lambda>binaryData.
                         if \<not> is_Uint8Array binaryData
                         then reject throwOnError (not_a_valid_binary key) False
                         else Inr False)
                   | _ \<Rightarrow> reject throwOnError (not_valid_binary key) False)
                  (\<lambda>e. reject throwOnError (error_removing_binary key @ message_of e) False))
             useSessionStorage 0 h of
        (Some e, h') \<Rightarrow> (Some e, h')
      | (None, h') \<Rightarrow> (None, clear useSessionStorage h'))"

subsection \<open>Encrypted, hashed and compressed strings\<close>

text \<open>
  \<open>CryptoJS.AES.encrypt(data, 'your-secret-key').toString()\<close>,
  \<open>CryptoJS.AES.decrypt(value, 'your-secret-key').toString(CryptoJS.enc.Utf8)\<close>,
  \<open>CryptoJS.SHA256(data).toString(CryptoJS.enc.Hex)\<close>, \<open>LZString.compress(data)\<close> and
  \<open>LZString.decompress(data)\<close> are taken from the parameter. The three set-methods call
  them outside any \<open>try\<close>, so what they throw is thrown by the method.
\<close>

definition setEncrypted ::
  "natives \<Rightarrow> host \<Rightarrow> jsval \<Rightarrow> jsval \<Rightarrow> bool \<Rightarrow> bool \<Rightarrow> outcome" where
  "setEncrypted env h key data useSessionStorage throwOnError =
     guard (isString key throwOnError) throwOnError key_must_be_string JUndefined h
       (bindE (env AES_encrypt [data, JStr ''your-secret-key'']) (\<lambda>encryptedData.
          Inr (This, setItem useSessionStorage (toStr key) (to_text encryptedData) h)))"

definition getDecrypted :: "natives \<Rightarrow> host \<Rightarrow> jsval \<Rightarrow> bool \<Rightarrow> bool \<Rightarrow> outcome" where
  "getDecrypted env h key useSessionStorage throwOnError =
     guard (isString key throwOnError) throwOnError key_must_be_string JNull h
       (let encryptedValue = item (getItem useSessionStorage (toStr key) h) in
        catchE
          (if truthy encryptedValue
           then bindE (env AES_decrypt [encryptedValue, JStr ''your-secret-key''])
                  (\<lambda>decryptedData. Inr (Ret decryptedData, h))
           else Inr (Ret JNull, h))
          (\<lambda>e. reject throwOnError ''Error during decryption. Invalid encrypted value or key.''
                  (Ret JNull, h)))"

definition removeEncrypted :: "natives \<Rightarrow> host \<Rightarrow> jsval \<Rightarrow> bool \<Rightarrow> bool \<Rightarrow> outcome" where
  "removeEncrypted env h key useSessionStorage throwOnError =
     guard (isString key throwOnError) throwOnError key_must_be_string JUndefined h
       (catchE
          (bindE (env AES_decrypt [item (getItem useSessionStorage (toStr key) h),
                                   JStr ''your-secret-key''])
             (\<lambda>decryptedData.
                Inr (Ret JUndefined, removeItem useSessionStorage (toStr key) h)))
          (\<lambda>e. reject throwOnError
                  (''Error removing encrypted string for key '' @ quoted (toStr key) @ '': ''
                     @ message_of e)
                  (Ret JUndefined, h)))"

definition setHashed ::
  "natives \<Rightarrow> host \<Rightarrow> jsval \<Rightarrow> jsval \<Rightarrow> bool \<Rightarrow> bool \<Rightarrow> outcome" where
  "setHashed env h key data useSessionStorage throwOnError =
     guard (isString key throwOnError) throwOnError key_must_be_string JUndefined h
       (bindE (env SHA256 [data]) (\<lambda>hashedData.
          Inr (This, setItem useSessionStorage (toStr key) (to_text hashedData) h)))"

definition getHashed :: "host \<Rightarrow> jsval \<Rightarrow> bool \<Rightarrow> bool \<Rightarrow> outcome" where
  "getHashed h key useSessionStorage throwOnError =
     guard (isString key throwOnError) throwOnError key_must_be_string JNull h
       (catchE
          (case getItem useSessionStorage (toStr key) h of
             Some storedValue \<Rightarrow>
               if storedValue \<noteq> [] \<and> looks_like_hash storedValue
               then Inr (Ret (JStr storedValue), h)
               else reject throwOnError (not_a_valid_hash (toStr key)) (Ret JUndefined, h)
           | None \<Rightarrow> reject throwOnError (not_a_valid_hash (toStr key)) (Ret JUndefined, h))
          (\<lambda>e. reject throwOnError ''Invalid hashed string format in stored value.''
                  (Ret JNull, h)))"

definition removeHashed :: "host \<Rightarrow> jsval \<Rightarrow> bool \<Rightarrow> bool \<Rightarrow> outcome" where
  "removeHashed h key useSessionStorage throwOnError =
     guard (isString key throwOnError) throwOnError key_must_be_string JUndefined h
       (catchE
          (case getItem useSessionStorage (toStr key) h of
             Some storedValue \<Rightarrow>
               if storedValue \<noteq> [] \<and> looks_like_hash storedValue
               then Inr (Ret JUndefined, removeItem useSessionStorage (toStr key) h)
               else reject throwOnError (not_a_valid_hash (toStr key)) (Ret JUndefined, h)
           | None \<Rightarrow> reject throwOnError (not_a_valid_hash (toStr key)) (Ret JUndefined, h))
          (\<lambda>e. reject throwOnError
                  (''Error removing hashed string for key '' @ quoted (toStr key) @ '': ''
                     @ message_of e)
                  (Ret JUndefined, h)))"

definition compareHashed ::
  "natives \<Rightarrow> host \<Rightarrow> jsval \<Rightarrow> jsval \<Rightarrow> bool \<Rightarrow> bool \<Rightarrow> outcome" where
  "compareHashed env h key data useSessionStorage throwOnError =
     guard (isString key throwOnError) throwOnError key_must_be_string JNull h
       (bindE (getHashed h key useSessionStorage throwOnError) (\<lambda>got.
          let storedHashedValue = returned (fst got) in
          catchE
            (if truthy storedHashedValue
             then bindE (env SHA256 [data]) (\<lambda>inputHashedValue.
                    Inr (Ret (JBool (strict_equal inputHashedValue storedHashedValue)), h))
             else Inr (Ret JNull, h))
            (\<lambda>e. reject throwOnError
                    (''Error comparing hashed string for key '' @ quoted (toStr key) @ '': ''
                       @ message_of e)
                    (Ret JNull, h))))"

definition setCompressed ::
  "natives \<Rightarrow> host \<Rightarrow> jsval \<Rightarrow> jsval \<Rightarrow> bool \<Rightarrow> bool \<Rightarrow> outcome" where
  "setCompressed env h key data useSessionStorage throwOnError =
     guard (isString key throwOnError) throwOnError key_must_be_string JUndefined h
       (bindE (env LZ_compress [data]) (\<lambda>compressedData.
          Inr (Ret JUndefined, setItem useSessionStorage (toStr key) (to_text compressedData) h)))"

definition getCompressed :: "natives \<Rightarrow> host \<Rightarrow> jsval \<Rightarrow> bool \<Rightarrow> bool \<Rightarrow> outcome" where
  "getCompressed env h key useSessionStorage throwOnError =
     guard (isString key throwOnError) throwOnError key_must_be_string JNull h
       (let compressedData = item (getItem useSessionStorage (toStr key) h) in
        catchE
          (if truthy compressedData
           then bindE (env LZ_decompress [compressedData])
                  (\<lambda>decompressed. Inr (Ret decompressed, h))
           else Inr (Ret JNull, h))
          (\<lambda>e. reject throwOnError
                  (''Error decompressing string for key '' @ quoted (toStr key) @ '': ''
                     @ message_of e)
                  (Ret JNull, h)))"

section \<open>Calls of the public methods\<close>

text \<open>The storages of a freshly opened page: nothing stored, no timer, no call made.\<close>

definition empty_host :: host where
  "empty_host = \<lparr>localStorage = [], sessionStorage = [], timers = [], calls = []\<rparr>"

text \<open>
  A call \<open>StorageManager.method(arguments)\<close> of one of the public methods of the class,
  so that a property can speak of every one of them; the methods are grouped as the
  source groups them. \<open>call\<close> runs the method, \<open>now\<close> being what \<open>Date.now()\<close> reads during
  the call, and yields what the method returns or throws together with the host it
  leaves. \<open>named_keys\<close> are the storage keys that the arguments name, with the chosen
  storage, and \<open>touches\<close> is the key that a mutating host call writes or removes
  (\<open>clear\<close> has none: it empties the storage).
\<close>

datatype value_op =
    SetValue jsval jsval bool bool
  | GetValue jsval bool bool
  | RemoveValue jsval bool bool
  | ClearStorage bool
  | ReplaceValue jsval jsval bool bool
  | SwapValues jsval jsval bool bool
  | GetAllKeys bool bool
  | GetAllValues bool bool
  | GetAllEntries bool bool
  | GetStorageInfo bool bool
  | LogAvailableFunctions

datatype object_op =
    SetObject jsval jsval bool bool
  | GetObject jsval bool bool
  | AddToObject jsval jsval bool bool
  | GetFromObject jsval jsval bool bool
  | UpdateInObject jsval jsval jsval bool bool
  | RemoveFromObject jsval jsval bool bool
  | DeleteObject jsval bool bool
  | RemoveAllObjectItems bool bool

datatype array_op =
    SetArray jsval jsval bool bool
  | GetArray jsval bool bool
  | AddToArray jsval jsval bool bool
  | UpdateInArray jsval jsval jsval bool bool
  | RemoveFromArray jsval jsval bool bool
  | GetFromArray jsval int bool bool
  | AddToArrayByIndex jsval jsval int bool bool
  | RemoveArray jsval bool bool
  | RemoveAllArrayItems bool bool

datatype scalar_op =
    SetNumber jsval jsval bool bool
  | GetNumber jsval bool bool
  | UpdateNumber jsval jsval bool bool
  | RemoveNumericValues bool bool
  | IncrementValue jsval jsval bool bool
  | DecrementValue jsval jsval bool bool
  | SetBoolean jsval jsval bool bool
  | GetBoolean jsval bool bool
  | UpdateBoolean jsval jsval bool bool
  | RemoveAllBooleanItems bool bool
  | RemoveBoolean jsval bool bool
  | SetString jsval jsval bool bool
  | GetString jsval bool bool
  | UpdateString jsval jsval bool bool
  | RemoveString jsval bool bool
  | RemoveAllStringItems bool bool

datatype timing_op =
    SetExpiration jsval jsval int bool bool
  | GetExpiration jsval bool bool
  | CheckExpiration jsval bool bool
  | ClearExpiredValues jsval bool bool
  | RemoveAllTimingItems bool

datatype map_op =
    SetMap jsval jsval bool bool
  | GetMap jsval bool bool
  | RemoveMap jsval bool bool
  | UpdateKeyInMap jsval jsval jsval bool bool
  | UpdateValueInMap jsval jsval jsval bool bool
  | RemoveElementByKeyInMap jsval jsval bool bool
  | RemoveElementByValueInMap jsval jsval bool bool
  | AddIntoMap jsval jsval jsval bool bool
  | EmptyMap jsval bool bool
  | RemoveAllMapItems bool bool

datatype typed_op =
    SetDate jsval jsval bool bool
  | GetDate jsval bool bool
  | RemoveDate jsval bool bool
  | RemoveAllDateItems bool bool
  | SetFunction jsval jsval bool bool
  | GetFunction jsval bool bool
  | RemoveFunction jsval bool bool
  | SetRegExp jsval jsval bool bool
  | GetRegExp jsval bool bool
  | RemoveRegExp jsval bool bool
  | RemoveAllRegExpItems bool bool
  | SetUndefined jsval bool bool
  | IsUndefined jsval bool bool
  | RemoveUndefined jsval bool bool
  | RemoveAllUndefined bool bool
  | SetNull jsval bool bool
  | IsNull jsval bool
  | RemoveNull jsval bool bool
  | RemoveAllNullItems bool bool

datatype binary_op =
    SetBigInt jsval jsval bool bool
  | GetBigInt jsval bool bool
  | RemoveBigInt jsval bool bool
  | RemoveAllBigIntItems bool bool
  | SetBinary jsval jsval bool bool
  | GetBinary jsval bool bool
  | RemoveBinary jsval bool bool
  | RemoveAllBinaryItems bool bool
  | SetEncrypted jsval jsval bool bool
  | GetDecrypted jsval bool bool
  | RemoveEncrypted jsval bool bool
  | SetHashed jsval jsval bool bool
  | GetHashed jsval bool bool
  | RemoveHashed jsval bool bool
  | CompareHashed jsval jsval bool bool
  | SetCompressed jsval jsval bool bool
  | GetCompressed jsval bool bool

datatype op =
    Values value_op
  | Objects object_op
  | Arrays array_op
  | Scalars scalar_op
  | Timing timing_op
  | Maps map_op
  | Typed typed_op
  | Binary binary_op

type_synonym result = "(error + ret) \<times> host"

text \<open>A method that throws before its first mutating call leaves the host as it was.\<close>

definition settle :: "host \<Rightarrow> outcome \<Rightarrow> result" where
  "settle h out = (case out of Inl e \<Rightarrow> (Inl e, h) | Inr rh \<Rightarrow> (Inr (fst rh), snd rh))"

definition swept :: "sweep \<Rightarrow> result" where
  "swept s = (case fst s of Some e \<Rightarrow> (Inl e, snd s) | None \<Rightarrow> (Inr (Ret JUndefined), snd s))"

fun call_value :: "host \<Rightarrow> value_op \<Rightarrow> result" where
  "call_value h (SetValue key val u t) = settle h (setValue h key val u t)"
| "call_value h (GetValue key u t) = settle h (getValue h key u t)"
| "call_value h (RemoveValue key u t) = settle h (removeValue h key u t)"
| "call_value h (ClearStorage u) = settle h (clearStorage h u)"
| "call_value h (ReplaceValue key val u t) = settle h (replaceValue h key val u t)"
| "call_value h (SwapValues key1 key2 u t) = settle h (swapValues h key1 key2 u t)"
| "call_value h (GetAllKeys u t) = settle h (getAllKeys h u t)"
| "call_value h (GetAllValues u t) = settle h (getAllValues h u t)"
| "call_value h (GetAllEntries u t) = settle h (getAllEntries h u t)"
| "call_value h (GetStorageInfo u t) = settle h (getStorageInfo h u t)"
| "call_value h LogAvailableFunctions = settle h (logAvailableFunctions h)"

fun call_object :: "natives \<Rightarrow> host \<Rightarrow> object_op \<Rightarrow> result" where
  "call_object env h (SetObject key val u t) = settle h (setObject h key val u t)"
| "call_object env h (GetObject key u t) = settle h (getObject h key u t)"
| "call_object env h (AddToObject key val u t) = settle h (addToObject h key val u t)"
| "call_object env h (GetFromObject key name u t) = settle h (getFromObject h key name u t)"
| "call_object env h (UpdateInObject key name val u t) =
     settle h (updateInObject env h key name val u t)"
| "call_object env h (RemoveFromObject key name u t) =
     settle h (removeFromObject env h key name u t)"
| "call_object env h (DeleteObject key u t) = settle h (deleteObject h key u t)"
| "call_object env h (RemoveAllObjectItems u t) = swept (removeAllObjectItems h u t)"

fun call_array :: "natives \<Rightarrow> host \<Rightarrow> array_op \<Rightarrow> result" where
  "call_array env h (SetArray key val u t) = settle h (setArray h key val u t)"
| "call_array env h (GetArray key u t) = settle h (getArray h key u t)"
| "call_array env h (AddToArray key el u t) = settle h (addToArray h key el u t)"
| "call_array env h (UpdateInArray key old new u t) = settle h (updateInArray h key old new u t)"
| "call_array env h (RemoveFromArray key el u t) = settle h (removeFromArray h key el u t)"
| "call_array env h (GetFromArray key i u t) = settle h (getFromArray env h key i u t)"
| "call_array env h (AddToArrayByIndex key el i u t) =
     settle h (addToArrayByIndex env h key el i u t)"
| "call_array env h (RemoveArray key u t) = settle h (removeArray h key u t)"
| "call_array env h (RemoveAllArrayItems u t) = swept (removeAllArrayItems h u t)"

fun call_scalar :: "natives \<Rightarrow> host \<Rightarrow> scalar_op \<Rightarrow> result" where
  "call_scalar env h (SetNumber key val u t) = settle h (setNumber h key val u t)"
| "call_scalar env h (GetNumber key u t) = settle h (getNumber h key u t)"
| "call_scalar env h (UpdateNumber key val u t) = settle h (updateNumber env h key val u t)"
| "call_scalar env h (RemoveNumericValues u t) = swept (removeNumericValues env h u t)"
| "call_scalar env h (IncrementValue key val u t) = settle h (incrementValue env h key val u t)"
| "call_scalar env h (DecrementValue key val u t) = settle h (decrementValue env h key val u t)"
| "call_scalar env h (SetBoolean key val u t) = settle h (setBoolean h key val u t)"
| "call_scalar env h (GetBoolean key u t) = settle h (getBoolean h key u t)"
| "call_scalar env h (UpdateBoolean key val u t) = settle h (updateBoolean h key val u t)"
| "call_scalar env h (RemoveAllBooleanItems u t) = swept (removeAllBooleanItems h u t)"
| "call_scalar env h (RemoveBoolean key u t) = settle h (removeBoolean h key u t)"
| "call_scalar env h (SetString key val u t) = settle h (setString h key val u t)"
| "call_scalar env h (GetString key u t) = settle h (getString h key u t)"
| "call_scalar env h (UpdateString key val u t) = settle h (updateString h key val u t)"
| "call_scalar env h (RemoveString key u t) = settle h (removeString h key u t)"
| "call_scalar env h (RemoveAllStringItems u t) = swept (removeAllStringItems h u t)"

fun call_timing :: "natives \<Rightarrow> host \<Rightarrow> int \<Rightarrow> timing_op \<Rightarrow> result" where
  "call_timing env h now (SetExpiration key val secs u t) =
     settle h (setExpiration env h now key val secs u t)"
| "call_timing env h now (GetExpiration key u t) = settle h (getExpiration env h now key u t)"
| "call_timing env h now (CheckExpiration key u t) = settle h (checkExpiration env h now key u t)"
| "call_timing env h now (ClearExpiredValues key u t) =
     settle h (clearExpiredValues env h now key u t)"
| "call_timing env h now (RemoveAllTimingItems u) = settle h (removeAllTimingItems h u)"

fun call_map :: "host \<Rightarrow> map_op \<Rightarrow> result" where
  "call_map h (SetMap key val u t) = settle h (setMap h key val u t)"
| "call_map h (GetMap key u t) = settle h (getMap h key u t)"
| "call_map h (RemoveMap key u t) = settle h (removeMap h key u t)"
| "call_map h (UpdateKeyInMap mapKey old new u t) = settle h (updateKeyInMap h mapKey old new u t)"
| "call_map h (UpdateValueInMap mapKey key val u t) =
     settle h (updateValueInMap h mapKey key val u t)"
| "call_map h (RemoveElementByKeyInMap mapKey key u t) =
     settle h (removeElementByKeyInMap h mapKey key u t)"
| "call_map h (RemoveElementByValueInMap mapKey val u t) =
     settle h (removeElementByValueInMap h mapKey val u t)"
| "call_map h (AddIntoMap mapKey key val u t) = settle h (addIntoMap h mapKey key val u t)"
| "call_map h (EmptyMap mapKey u t) = settle h (emptyMap h mapKey u t)"
| "call_map h (RemoveAllMapItems u t) = swept (removeAllMapItems h u t)"

fun call_typed :: "natives \<Rightarrow> host \<Rightarrow> typed_op \<Rightarrow> result" where
  "call_typed env h (SetDate key date u t) = settle h (setDate h key date u t)"
| "call_typed env h (GetDate key u t) = settle h (getDate env h key u t)"
| "call_typed env h (RemoveDate key u t) = settle h (removeDate h key u t)"
| "call_typed env h (RemoveAllDateItems u t) = swept (removeAllDateItems h u t)"
| "call_typed env h (SetFunction key func u t) = settle h (setFunction h key func u t)"
| "call_typed env h (GetFunction key u t) = settle h (getFunction env h key u t)"
| "call_typed env h (RemoveFunction key u t) = settle h (removeFunction h key u t)"
| "call_typed env h (SetRegExp key regExp u t) = settle h (setRegExp h key regExp u t)"
| "call_typed env h (GetRegExp key u t) = settle h (getRegExp env h key u t)"
| "call_typed env h (RemoveRegExp key u t) = settle h (removeRegExp h key u t)"
| "call_typed env h (RemoveAllRegExpItems u t) = swept (removeAllRegExpItems h u t)"
| "call_typed env h (SetUndefined key u t) = settle h (setUndefined h key u t)"
| "call_typed env h (IsUndefined key u t) = settle h (isUndefined h key u t)"
| "call_typed env h (RemoveUndefined key u t) = settle h (removeUndefined h key u t)"
| "call_typed env h (RemoveAllUndefined u t) = swept (removeAllUndefined h u t)"
| "call_typed env h (SetNull key u t) = settle h (setNull h key u t)"
| "call_typed env h (IsNull key u) = settle h (isNull h key u)"
| "call_typed env h (RemoveNull key u t) = settle h (removeNull h key u t)"
| "call_typed env h (RemoveAllNullItems u t) = swept (removeAllNullItems h u t)"

fun call_binary :: "natives \<Rightarrow> host \<Rightarrow> binary_op \<Rightarrow> result" where
  "call_binary env h (SetBigInt key bigInt u t) = settle h (setBigInt h key bigInt u t)"
| "call_binary env h (GetBigInt key u t) = settle h (getBigInt env h key u t)"
| "call_binary env h (RemoveBigInt key u t) = settle h (removeBigInt env h key u t)"
| "call_binary env h (RemoveAllBigIntItems u t) = swept (removeAllBigIntItems env h u t)"
| "call_binary env h (SetBinary key data u t) = settle h (setBinary h key data u t)"
| "call_binary env h (GetBinary key u t) = settle h (getBinary env h key u t)"
| "call_binary env h (RemoveBinary key u t) = settle h (removeBinary env h key u t)"
| "call_binary env h (RemoveAllBinaryItems u t) = swept (removeAllBinaryItems env h u t)"
| "call_binary env h (SetEncrypted key data u t) = settle h (setEncrypted env h key data u t)"
| "call_binary env h (GetDecrypted key u t) = settle h (getDecrypted env h key u t)"
| "call_binary env h (RemoveEncrypted key u t) = settle h (removeEncrypted env h key u t)"
| "call_binary env h (SetHashed key data u t) = settle h (setHashed env h key data u t)"
| "call_binary env h (GetHashed key u t) = settle h (getHashed h key u t)"
| "call_binary env h (RemoveHashed key u t) = settle h (removeHashed h key u t)"
| "call_binary env h (CompareHashed key data u t) = settle h (compareHashed env h key data u t)"
| "call_binary env h (SetCompressed key data u t) = settle h (setCompressed env h key data u t)"
| "call_binary env h (GetCompressed key u t) = settle h (getCompressed env h key u t)"

fun call :: "natives \<Rightarrow> host \<Rightarrow> int \<Rightarrow> op \<Rightarrow> result" where
  "call env h now (Values c) = call_value h c"
| "call env h now (Objects c) = call_object env h c"
| "call env h now (Arrays c) = call_array env h c"
| "call env h now (Scalars c) = call_scalar env h c"
| "call env h now (Timing c) = call_timing env h now c"
| "call env h now (Maps c) = call_map h c"
| "call env h now (Typed c) = call_typed env h c"
| "call env h now (Binary c) = call_binary env h c"

text \<open>The keys that the arguments of a call name, each with the storage chosen. A method
  that takes no key names none; \<open>swapValues\<close> names two.\<close>

fun keys_value :: "value_op \<Rightarrow> (bool \<times> string) list" where
  "keys_value (SetValue key val u t) = [(u, toStr key)]"
| "keys_value (GetValue key u t) = [(u, toStr key)]"
| "keys_value (RemoveValue key u t) = [(u, toStr key)]"
| "keys_value (ReplaceValue key val u t) = [(u, toStr key)]"
| "keys_value (SwapValues key1 key2 u t) = [(u, toStr key1), (u, toStr key2)]"
| "keys_value c = []"

fun keys_object :: "object_op \<Rightarrow> (bool \<times> string) list" where
  "keys_object (SetObject key val u t) = [(u, toStr key)]"
| "keys_object (GetObject key u t) = [(u, toStr key)]"
| "keys_object (AddToObject key val u t) = [(u, toStr key)]"
| "keys_object (GetFromObject key name u t) = [(u, toStr key)]"
| "keys_object (UpdateInObject key name val u t) = [(u, toStr key)]"
| "keys_object (RemoveFromObject key name u t) = [(u, toStr key)]"
| "keys_object (DeleteObject key u t) = [(u, toStr key)]"
| "keys_object (RemoveAllObjectItems u t) = []"

fun keys_array :: "array_op \<Rightarrow> (bool \<times> string) list" where
  "keys_array (SetArray key val u t) = [(u, toStr key)]"
| "keys_array (GetArray key u t) = [(u, toStr key)]"
| "keys_array (AddToArray key el u t) = [(u, toStr key)]"
| "keys_array (UpdateInArray key old new u t) = [(u, toStr key)]"
| "keys_array (RemoveFromArray key el u t) = [(u, toStr key)]"
| "keys_array (GetFromArray key i u t) = [(u, toStr key)]"
| "keys_array (AddToArrayByIndex key el i u t) = [(u, toStr key)]"
| "keys_array (RemoveArray key u t) = [(u, toStr key)]"
| "keys_array (RemoveAllArrayItems u t) = []"

fun keys_scalar :: "scalar_op \<Rightarrow> (bool \<times> string) list" where
  "keys_scalar (SetNumber key val u t) = [(u, toStr key)]"
| "keys_scalar (GetNumber key u t) = [(u, toStr key)]"
| "keys_scalar (UpdateNumber key val u t) = [(u, toStr key)]"
| "keys_scalar (RemoveNumericValues u t) = []"
| "keys_scalar (IncrementValue key val u t) = [(u, toStr key)]"
| "keys_scalar (DecrementValue key val u t) = [(u, toStr key)]"
| "keys_scalar (SetBoolean key val u t) = [(u, toStr key)]"
| "keys_scalar (GetBoolean key u t) = [(u, toStr key)]"
| "keys_scalar (UpdateBoolean key val u t) = [(u, toStr key)]"
| "keys_scalar (RemoveAllBooleanItems u t) = []"
| "keys_scalar (RemoveBoolean key u t) = [(u, toStr key)]"
| "keys_scalar (SetString key val u t) = [(u, toStr key)]"
| "keys_scalar (GetString key u t) = [(u, toStr key)]"
| "keys_scalar (UpdateString key val u t) = [(u, toStr key)]"
| "keys_scalar (RemoveString key u t) = [(u, toStr key)]"
| "keys_scalar (RemoveAllStringItems u t) = []"

fun keys_timing :: "timing_op \<Rightarrow> (bool \<times> string) list" where
  "keys_timing (SetExpiration key val secs u t) = [(u, toStr key)]"
| "keys_timing (GetExpiration key u t) = [(u, toStr key)]"
| "keys_timing (CheckExpiration key u t) = [(u, toStr key)]"
| "keys_timing (ClearExpiredValues key u t) = [(u, toStr key)]"
| "keys_timing (RemoveAllTimingItems u) = []"

fun keys_map :: "map_op \<Rightarrow> (bool \<times> string) list" where
  "keys_map (SetMap key val u t) = [(u, toStr key)]"
| "keys_map (GetMap key u t) = [(u, toStr key)]"
| "keys_map (RemoveMap key u t) = [(u, toStr key)]"
| "keys_map (UpdateKeyInMap mapKey old new u t) = [(u, toStr mapKey)]"
| "keys_map (UpdateValueInMap mapKey key val u t) = [(u, toStr mapKey)]"
| "keys_map (RemoveElementByKeyInMap mapKey key u t) = [(u, toStr mapKey)]"
| "keys_map (RemoveElementByValueInMap mapKey val u t) = [(u, toStr mapKey)]"
| "keys_map (AddIntoMap mapKey key val u t) = [(u, toStr mapKey)]"
| "keys_map (EmptyMap mapKey u t) = [(u, toStr mapKey)]"
| "keys_map (RemoveAllMapItems u t) = []"

fun keys_typed :: "typed_op \<Rightarrow> (bool \<times> string) list" where
  "keys_typed (SetDate key date u t) = [(u, toStr key)]"
| "keys_typed (GetDate key u t) = [(u, toStr key)]"
| "keys_typed (RemoveDate key u t) = [(u, toStr key)]"
| "keys_typed (RemoveAllDateItems u t) = []"
| "keys_typed (SetFunction key func u t) = [(u, toStr key)]"
| "keys_typed (GetFunction key u t) = [(u, toStr key)]"
| "keys_typed (RemoveFunction key u t) = [(u, toStr key)]"
| "keys_typed (SetRegExp key regExp u t) = [(u, toStr key)]"
| "keys_typed (GetRegExp key u t) = [(u, toStr key)]"
| "keys_typed (RemoveRegExp key u t) = [(u, toStr key)]"
| "keys_typed (RemoveAllRegExpItems u t) = []"
| "keys_typed (SetUndefined key u t) = [(u, toStr key)]"
| "keys_typed (IsUndefined key u t) = [(u, toStr key)]"
| "keys_typed (RemoveUndefined key u t) = [(u, toStr key)]"
| "keys_typed (RemoveAllUndefined u t) = []"
| "keys_typed (SetNull key u t) = [(u, toStr key)]"
| "keys_typed (IsNull key u) = [(u, to_text key)]"
| "keys_typed (RemoveNull key u t) = [(u, toStr key)]"
| "keys_typed (RemoveAllNullItems u t) = []"

fun keys_binary :: "binary_op \<Rightarrow> (bool \<times> string) list" where
  "keys_binary (SetBigInt key bigInt u t) = [(u, toStr key)]"
| "keys_binary (GetBigInt key u t) = [(u, toStr key)]"
| "keys_binary (RemoveBigInt key u t) = [(u, toStr key)]"
| "keys_binary (RemoveAllBigIntItems u t) = []"
| "keys_binary (SetBinary key data u t) = [(u, toStr key)]"
| "keys_binary (GetBinary key u t) = [(u, toStr key)]"
| "keys_binary (RemoveBinary key u t) = [(u, toStr key)]"
| "keys_binary (RemoveAllBinaryItems u t) = []"
| "keys_binary (SetEncrypted key data u t) = [(u, toStr key)]"
| "keys_binary (GetDecrypted key u t) = [(u, toStr key)]"
| "keys_binary (RemoveEncrypted key u t) = [(u, toStr key)]"
| "keys_binary (SetHashed key data u t) = [(u, toStr key)]"
| "keys_binary (GetHashed key u t) = [(u, toStr key)]"
| "keys_binary (RemoveHashed key u t) = [(u, toStr key)]"
| "keys_binary (CompareHashed key data u t) = [(u, toStr key)]"
| "keys_binary (SetCompressed key data u t) = [(u, toStr key)]"
| "keys_binary (GetCompressed key u t) = [(u, toStr key)]"

fun named_keys :: "op \<Rightarrow> (bool \<times> string) list" where
  "named_keys (Values c) = keys_value c"
| "named_keys (Objects c) = keys_object c"
| "named_keys (Arrays c) = keys_array c"
| "named_keys (Scalars c) = keys_scalar c"
| "named_keys (Timing c) = keys_timing c"
| "named_keys (Maps c) = keys_map c"
| "named_keys (Typed c) = keys_typed c"
| "named_keys (Binary c) = keys_binary c"

fun touches :: "host_call \<Rightarrow> (bool \<times> string) option" where
  "touches (SetItem u k v) = Some (u, k)"
| "touches (RemoveItem u k) = Some (u, k)"
| "touches (Clear u) = None"

text \<open>
  The methods that work on the whole storage and, on a suitable storage, remove keys that
  no argument names: \<open>clearStorage\<close> and eleven of the fourteen \<open>removeAll...\<close> sweeps
  (\<open>removeAllMapItems\<close>, \<open>removeAllDateItems\<close> and \<open>removeAllUndefined\<close> test for what
  \<open>JSON.parse\<close> and \<open>getItem\<close> never return, and remove nothing).
\<close>

fun sweeping_value :: "value_op \<Rightarrow> bool" where
  "sweeping_value (ClearStorage u) = True"
| "sweeping_value c = False"

fun sweeping_object :: "object_op \<Rightarrow> bool" where
  "sweeping_object (RemoveAllObjectItems u t) = True"
| "sweeping_object c = False"

fun sweeping_array :: "array_op \<Rightarrow> bool" where
  "sweeping_array (RemoveAllArrayItems u t) = True"
| "sweeping_array c = False"

fun sweeping_scalar :: "scalar_op \<Rightarrow> bool" where
  "sweeping_scalar (RemoveNumericValues u t) = True"
| "sweeping_scalar (RemoveAllBooleanItems u t) = True"
| "sweeping_scalar (RemoveAllStringItems u t) = True"
| "sweeping_scalar c = False"

fun sweeping_timing :: "timing_op \<Rightarrow> bool" where
  "sweeping_timing (RemoveAllTimingItems u) = True"
| "sweeping_timing c = False"

fun sweeping_typed :: "typed_op \<Rightarrow> bool" where
  "sweeping_typed (RemoveAllRegExpItems u t) = True"
| "sweeping_typed (RemoveAllNullItems u t) = True"
| "sweeping_typed c = False"

fun sweeping_binary :: "binary_op \<Rightarrow> bool" where
  "sweeping_binary (RemoveAllBigIntItems u t) = True"
| "sweeping_binary (RemoveAllBinaryItems u t) = True"
| "sweeping_binary c = False"

fun sweeping :: "op \<Rightarrow> bool" where
  "sweeping (Values c) = sweeping_value c"
| "sweeping (Objects c) = sweeping_object c"
| "sweeping (Arrays c) = sweeping_array c"
| "sweeping (Scalars c) = sweeping_scalar c"
| "sweeping (Timing c) = sweeping_timing c"
| "sweeping (Maps c) = False"
| "sweeping (Typed c) = sweeping_typed c"
| "sweeping (Binary c) = sweeping_binary c"

text \<open>The number of mutating host calls in the body of a method that is no sweep.\<close>

definition calls_bound :: "op \<Rightarrow> nat" where
  "calls_bound c = (case c of Values (SwapValues key1 key2 u t) \<Rightarrow> 2 | _ \<Rightarrow> 1)"

section \<open>JSON-serializable values\<close>


section \<open>Notions used in the proofs about the parser\<close>






section \<open>What a call leaves of the host\<close>

text \<open>
  \<open>within nks n h h'\<close>: the host \<open>h'\<close> comes from \<open>h\<close> by at most \<open>n\<close> mutating storage
  calls, each a \<open>setItem\<close> or a \<open>removeItem\<close> on one of the keys \<open>nks\<close>; every other key
  reads as before, and the timers of \<open>h\<close> are still scheduled, in their order.
\<close>

definition within :: "(bool \<times> string) list \<Rightarrow> nat \<Rightarrow> host \<Rightarrow> host \<Rightarrow> bool" where
  "within nks n h h' =
     ((\<exists>cs. calls h' = calls h @ cs \<and> length cs \<le> n
            \<and> (\<forall>c \<in> set cs. \<exists>nk \<in> set nks. touches c = Some nk))
      \<and> (\<forall>u k. (u, k) \<notin> set nks \<longrightarrow> getItem u k h' = getItem u k h)
      \<and> (\<exists>ts. timers h' = timers h @ ts))"

definition fine :: "(bool \<times> string) list \<Rightarrow> nat \<Rightarrow> host \<Rightarrow> outcome \<Rightarrow> bool" where
  "fine nks n h out = (case out of Inl e \<Rightarrow> True | Inr rh \<Rightarrow> within nks n h (snd rh))"

section \<open>Exact numbers and a host for the examples\<close>

text \<open>
  The integers that a number holds exactly, so that a sum or a product of the source is
  the integer computed here when the operands and the result are among them.
\<close>

definition exact :: "int \<Rightarrow> bool" where
  "exact n = (- 9007199254740991 \<le> n \<and> n \<le> 9007199254740991)"

text \<open>
  The functions of the host as far as the examples below call them: \<open>isNaN('7')\<close> is
  false and \<open>BigInt('7')\<close> is the big integer 7. Every other call is taken to throw; no
  example relies on that.
\<close>

definition example_natives :: natives where
  "example_natives f args =
     (if f = IsNaN \<and> args = [JStr ''7''] then Inr (JBool False)
      else if f = BigInt_of \<and> args = [JStr ''7''] then Inr (JBigInt 7)
      else Inl (Error ''not called in the examples''))"
section \<open>The index loop terminates\<close>

lemma length_delete_less:
  "k \<in> fst ` set al \<Longrightarrow> length (AList.delete k al) < length al"
proof (induction al)
  case Nil
  then show ?case by simp
next
  case (Cons p al)
  have le: "length (AList.delete k al) \<le> length al"
    by (simp add: AList.delete_eq)
  show ?case
  proof (cases "fst p = k")
    case True
    then show ?thesis using le by (cases p) auto
  next
    case False
    then show ?thesis using Cons by (cases p) auto
  qed
qed

lemma storage_of_removeItem:
  "storage_of u (removeItem u k h) = AList.delete k (storage_of u h)"
  by (simp add: storage_of_def removeItem_def storage_upd_def)

lemma length_removeItem_at:
  "i < length (storage_of u h) \<Longrightarrow>
   length (storage_of u (removeItem u (fst (storage_of u h ! i)) h)) < length (storage_of u h)"
  by (simp add: storage_of_removeItem length_delete_less)

termination sweep_index
proof (relation "measure (\<lambda>(stay, test, u, i, h). length (storage_of u h) - i)")
  show "wf (measure (\<lambda>(stay, test, u, i, h). length (storage_of u h) - i))" by simp
next
  fix stay :: bool and test :: "string \<Rightarrow> jsval \<Rightarrow> error + bool" and u i h x2
  assume i: "i < length (storage_of u h)"
  have "length (storage_of u (removeItem u (fst (storage_of u h ! i)) h)) < length (storage_of u h)"
    using i by (rule length_removeItem_at)
  then show "((stay, test, u, if stay then i else Suc i, removeItem u (fst (storage_of u h ! i)) h),
              stay, test, u, i, h)
             \<in> measure (\<lambda>(stay, test, u, i, h). length (storage_of u h) - i)"
    using i by auto
next
  fix stay :: bool and test :: "string \<Rightarrow> jsval \<Rightarrow> error + bool" and u i h x2
  assume "i < length (storage_of u h)"
  then show "((stay, test, u, Suc i, h), stay, test, u, i, h)
             \<in> measure (\<lambda>(stay, test, u, i, h). length (storage_of u h) - i)"
    by auto
qed

section \<open>Properties of LoggerBase\<close>

lemma log_level_valid: "log_level lv \<Longrightarrow> validateLogLevel lv = Inr ()"
  by (auto simp: log_level_def validateLogLevel_def Joi_string_valid_def)

lemma log_level_index:
  "log_level lv \<Longrightarrow> indexOf (map fst LOG_LEVELS) (toStr lv) = int (level_rank lv)"
  by (auto simp: log_level_def LOG_LEVELS_def level_rank_def)

lemma log_level_toString: "log_level lv \<Longrightarrow> toString lv = Inr (toStr lv)"
  by (auto simp: log_level_def toString_def)

lemma addLog_on_levels:
  assumes "Joi_string_required message" "log_level lv" "log_level (level this)"
  shows "addLog this ts message lv =
           Inr (if level_rank lv < level_rank (level this) then this
                else this\<lparr>logs := logs this @ [toStr lv @ '' - '' @ ts @ '' - '' @ toStr message]\<rparr>)"
proof -
  have "lv \<noteq> JUndefined" using assms(2) by (auto simp: log_level_def)
  then show ?thesis
    using assms
    by (simp add: addLog_def bindE_def log_level_valid log_level_index log_level_toString
        validateLogMessage_def Let_def)
qed

lemma getLogLevel_entry:
  "log_level lv \<Longrightarrow> getLogLevel (toStr lv @ '' - '' @ rest) = lv"
  by (auto simp: log_level_def getLogLevel_def split_def LOG_LEVELS_def)

lemma setLogLevel_defined_level:
  "setLogLevel this lv = Inr this' \<Longrightarrow> lv \<noteq> JUndefined \<Longrightarrow> log_level (level this')"
  by (cases lv)
     (auto simp: setLogLevel_def validateLogLevel_def Joi_string_valid_def bindE_def
                 log_level_def split: if_splits)

text \<open>
  The filter of \<open>addLog\<close> on an instance whose level field holds one of the three
  levels, for a message that the message validator accepts and a level \<open>lv\<close> among the
  three: \<open>addLog\<close> returns normally and leaves the level field alone; the logs array is
  the old one followed by the single entry \<open>lv - timestamp - message\<close> exactly when the
  index of \<open>lv\<close> in (DEBUG, INFO, WARN) is at least the index of the instance's level,
  and is the old array otherwise.
\<close>

theorem addLog_appends_iff_level_reached:
  assumes "validateLogMessage message = Inr ()" and "log_level lv" and "log_level (level this)"
  shows "\<exists>this'. addLog this ts message lv = Inr this' \<and> level this' = level this \<and>
           (logs this' = logs this @ [toStr lv @ '' - '' @ ts @ '' - '' @ toStr message])
             = (level_rank (level this) \<le> level_rank lv) \<and>
           (level_rank lv < level_rank (level this) \<longrightarrow> logs this' = logs this)"
proof -
  have m: "Joi_string_required message"
    using assms(1) by (simp add: validateLogMessage_def split: if_splits)
  show ?thesis
    by (simp add: addLog_on_levels [OF m assms(2) assms(3)] not_less)
qed

theorem addLog_appends_iff_level_reached_witness:
  "validateLogMessage (JStr ''started'') = Inr () \<and> log_level (JStr ''WARN'')
   \<and> log_level (level \<lparr>level = JStr ''INFO'', logs = []\<rparr>)
   \<and> (\<exists>this'. addLog \<lparr>level = JStr ''INFO'', logs = []\<rparr> ''2024-01-12T00:00:00.000Z''
               (JStr ''started'') (JStr ''WARN'') = Inr this'
         \<and> logs this' = [''WARN - 2024-01-12T00:00:00.000Z - started''])"
  using addLog_appends_iff_level_reached
          [of "JStr ''started''" "JStr ''WARN''" "\<lparr>level = JStr ''INFO'', logs = []\<rparr>"
              "''2024-01-12T00:00:00.000Z''"]
  by (auto simp: validateLogMessage_def Joi_string_required_def log_level_def level_rank_def)

text \<open>
  C3. The filter does not hold for every instance: after \<open>setLogLevel()\<close> with no
  argument, which returns normally and leaves the level field \<open>undefined\<close>, \<open>addLog\<close> with
  a valid message and the level WARN, the last of the ordering, appends nothing and throws
  a \<open>TypeError\<close> on \<open>this.level.toString()\<close>.
\<close>

theorem addLog_on_undefined_level_throws:
  "setLogLevel_call \<lparr>level = JStr ''INFO'', logs = [''INFO - t0 - up'']\<rparr> []
     = Inr \<lparr>level = JUndefined, logs = [''INFO - t0 - up'']\<rparr> \<and>
   validateLogMessage (JStr ''disk full'') = Inr () \<and>
   addLog \<lparr>level = JUndefined, logs = [''INFO - t0 - up'']\<rparr> ''2024-01-12T00:00:00.000Z''
     (JStr ''disk full'') (JStr ''WARN'') = Inl TypeError"
  by (simp add: setLogLevel_call_def arg_def setLogLevel_def validateLogLevel_def
      Joi_string_valid_def bindE_def addLog_def validateLogMessage_def Joi_string_required_def
      toString_def)

text \<open>
  C10. For an instance whose level is one of the three levels, a message that the message
  validator accepts and a level \<open>lv\<close> among the three, when the entry is appended (the index of \<open>lv\<close> is at
  least the index of the instance's level), \<open>getLogLevel\<close> applied to the appended entry,
  the last one of the logs array, returns \<open>lv\<close>, whatever the timestamp and the message
  contain.
\<close>

theorem getLogLevel_of_added_entry:
  assumes "validateLogMessage message = Inr ()" and "log_level lv" and "log_level (level this)"
    and "level_rank (level this) \<le> level_rank lv"
  shows "\<exists>this'. addLog this ts message lv = Inr this' \<and>
           logs this' = logs this @ [toStr lv @ '' - '' @ ts @ '' - '' @ toStr message] \<and>
           getLogLevel (last (logs this')) = lv"
proof -
  have m: "Joi_string_required message"
    using assms(1) by (simp add: validateLogMessage_def split: if_splits)
  have g: "getLogLevel (toStr lv @ '' - '' @ (ts @ '' - '' @ toStr message)) = lv"
    by (rule getLogLevel_entry [OF assms(2)])
  show ?thesis
    using assms(4) g
    by (simp add: addLog_on_levels [OF m assms(2) assms(3)] not_less)
qed

theorem getLogLevel_of_added_entry_witness:
  "validateLogMessage (JStr ''a - b'') = Inr () \<and> log_level (JStr ''INFO'')
   \<and> log_level (level \<lparr>level = JStr ''DEBUG'', logs = [''x'']\<rparr>)
   \<and> level_rank (level \<lparr>level = JStr ''DEBUG'', logs = [''x'']\<rparr>) \<le> level_rank (JStr ''INFO'')
   \<and> (\<exists>this'. addLog \<lparr>level = JStr ''DEBUG'', logs = [''x'']\<rparr> ''t - 0'' (JStr ''a - b'')
                 (JStr ''INFO'') = Inr this'
         \<and> getLogLevel (last (logs this')) = JStr ''INFO'')"
  using getLogLevel_of_added_entry
          [of "JStr ''a - b''" "JStr ''INFO''" "\<lparr>level = JStr ''DEBUG'', logs = [''x'']\<rparr>" "''t - 0''"]
  by (auto simp: validateLogMessage_def Joi_string_required_def log_level_def level_rank_def)

text \<open>
  C8. The level field does not stay among the three levels: the log-level schema has no
  \<open>required()\<close>, so \<open>setLogLevel(undefined)\<close> passes the validator and returns normally,
  and it stores \<open>undefined\<close>, because the default that the schema names is never applied
  and \<open>setLogLevel\<close> has no default parameter as the constructor and \<open>addLog\<close> have. The
  next \<open>addLog\<close> then fails with a \<open>TypeError\<close> on \<open>this.level.toString()\<close>.
\<close>

theorem setLogLevel_undefined_breaks_level:
  "LoggerBase_new JUndefined = Inr \<lparr>level = JStr ''INFO'', logs = []\<rparr> \<and>
   setLogLevel \<lparr>level = JStr ''INFO'', logs = []\<rparr> JUndefined
     = Inr \<lparr>level = JUndefined, logs = []\<rparr> \<and>
   log_level (level \<lparr>level = JUndefined, logs = []\<rparr>) = False \<and>
   addLog \<lparr>level = JUndefined, logs = []\<rparr> ''2024-01-12T00:00:00.000Z'' (JStr ''m'')
     (JStr ''WARN'') = Inl TypeError"
  by (simp add: LoggerBase_new_def setLogLevel_def validateLogLevel_def Joi_string_valid_def
      bindE_def log_level_def addLog_def validateLogMessage_def Joi_string_required_def
      toString_def)

section \<open>Numbers print and parse back\<close>




















section \<open>String literals print and parse back\<close>






section \<open>Values print and parse back\<close>

lemma skip_ws_id: "t = [] \<or> \<not> is_ws (hd t) \<Longrightarrow> skip_ws t = t"
  by (cases t) (auto simp: skip_ws_def)
































section \<open>Host storage and the guard clause\<close>

lemma guard_failed:
  "guard (validateParams schema p t) t msg fb h body =
     (if schema p then body else if t then Inl JoiError else Inr (Ret fb, h))"
  by (simp add: guard_def validateParams_def bindE_def throwOrReturnOnError_def)

lemma guard_both:
  "guard (both (validateParams s1 p1 t) (validateParams s2 p2 t)) t msg fb h body =
     (if s1 p1 \<and> s2 p2 then body else if t then Inl JoiError else Inr (Ret fb, h))"
  by (simp add: guard_def both_def validateParams_def bindE_def throwOrReturnOnError_def)

lemma guard_three:
  "guard (both (both (validateParams s1 p1 t) (validateParams s2 p2 t)) (validateParams s3 p3 t))
     t msg fb h body =
     (if s1 p1 \<and> s2 p2 \<and> s3 p3 then body else if t then Inl JoiError else Inr (Ret fb, h))"
  by (simp add: guard_def both_def validateParams_def bindE_def throwOrReturnOnError_def)

lemmas checks = isString_def isObject_def isBoolean_def isNumber_def isArray_def isFunction_def

lemma reject_eq: "reject t msg r = (if t then Inl (Error msg) else Inr r)"
  by (simp add: reject_def throwOrReturnOnError_def bindE_def)

lemma getItem_setItem:
  "getItem u' k' (setItem u k v h) = (if u' = u \<and> k' = k then Some v else getItem u' k' h)"
  by (simp add: getItem_def setItem_def storage_of_def storage_upd_def update_conv')

lemma getItem_removeItem:
  "getItem u' k' (removeItem u k h) = (if u' = u \<and> k' = k then None else getItem u' k' h)"
  by (simp add: getItem_def removeItem_def storage_of_def storage_upd_def delete_conv')

lemma getItem_setTimeout: "getItem u k (setTimeout tm h) = getItem u k h"
  by (simp add: getItem_def setTimeout_def storage_of_def)

lemma timers_simps:
  "timers (setItem u k v h) = timers h"
  "timers (removeItem u k h) = timers h"
  "timers (clear u h) = timers h"
  "timers (setTimeout tm h) = timers h @ [tm]"
  by (simp_all add: setItem_def removeItem_def clear_def setTimeout_def storage_upd_def)

lemma calls_simps:
  "calls (setItem u k v h) = calls h @ [SetItem u k v]"
  "calls (removeItem u k h) = calls h @ [RemoveItem u k]"
  "calls (clear u h) = calls h @ [Clear u]"
  "calls (setTimeout tm h) = calls h"
  by (simp_all add: setItem_def removeItem_def clear_def setTimeout_def storage_upd_def)

lemma isString_valid: "k \<noteq> [] \<Longrightarrow> isString (JStr k) t = Inr True"
  by (simp add: isString_def validateParams_def Joi_string_required_def)

lemma guard_passed: "guard (Inr True) t msg fb h body = body"
  by (simp add: guard_def bindE_def)



lemma store_cases:
  "store u k v h = (if has_bigint v then Inl TypeError
                    else Inr (setItem u k (item_of (json_text v)) h))"
  by (simp add: store_def JSON_stringify_def bindE_def)

lemma JSON_parse_empty: "JSON_parse [] = None"
  by (simp add: JSON_parse_def skip_ws_def numeral_2_eq_2)

lemma parse_hello: "JSON_parse ''hello'' = None"
  by code_simp

lemma parse_undefined: "JSON_parse ''undefined'' = None"
  by code_simp

lemma parse_42: "JSON_parse ''42'' = Some (JNum 42)"
  by code_simp

lemma getItem_empty_host: "getItem u k empty_host = None"
  by (simp add: getItem_def storage_of_def empty_host_def)

section \<open>Steps that stay within the named keys\<close>

lemma within_refl: "within nks n h h"
  by (simp add: within_def)

lemma within_setItem: "(u, k) \<in> set nks \<Longrightarrow> 0 < n \<Longrightarrow> within nks n h (setItem u k s h)"
  by (auto simp: within_def calls_simps timers_simps getItem_setItem Suc_le_eq)

lemma within_removeItem: "(u, k) \<in> set nks \<Longrightarrow> 0 < n \<Longrightarrow> within nks n h (removeItem u k h)"
  by (auto simp: within_def calls_simps timers_simps getItem_removeItem Suc_le_eq)

lemma within_setTimeout: "within nks n h h1 \<Longrightarrow> within nks n h (setTimeout tm h1)"
  by (auto simp: within_def calls_simps timers_simps getItem_setTimeout)

lemma within_two:
  "(u, k1) \<in> set nks \<Longrightarrow> (u, k2) \<in> set nks \<Longrightarrow>
   within nks 2 h (setItem u k2 s2 (setItem u k1 s1 h))"
  by (auto simp: within_def calls_simps timers_simps getItem_setItem)

lemma fine_Inl [simp]: "fine nks n h (Inl e)"
  by (simp add: fine_def)

lemma fine_Inr [simp]: "fine nks n h (Inr (r, h')) = within nks n h h'"
  by (simp add: fine_def)

lemma fine_guard:
  "fine nks n h body \<Longrightarrow> fine nks n h (guard c t msg fb h body)"
  by (cases c) (auto simp: guard_def bindE_def throwOrReturnOnError_def within_refl)

lemma fine_bindE: "(\<And>x. fine nks n h (f x)) \<Longrightarrow> fine nks n h (bindE m f)"
  by (cases m) (auto simp: bindE_def)

lemma fine_catchE:
  "fine nks n h m \<Longrightarrow> (\<And>e. fine nks n h (f e)) \<Longrightarrow> fine nks n h (catchE m f)"
  by (cases m) (auto simp: catchE_def fine_def)

lemma fine_reject [simp]: "fine nks n h (reject t msg (r, h))"
  by (simp add: reject_eq within_refl)

lemma fine_same [simp]: "fine nks n h (Inr (r, h))"
  by (simp add: within_refl)

lemma fine_store:
  "(u, k) \<in> set nks \<Longrightarrow> 0 < n \<Longrightarrow> fine nks n h (bindE (store u k v h) (\<lambda>h'. Inr (r, h')))"
  by (simp add: store_cases bindE_def within_setItem)

lemma fine_settle:
  "fine nks n h out \<Longrightarrow> settle h out = (res, h') \<Longrightarrow> within nks n h h'"
  by (cases out) (auto simp: settle_def fine_def within_refl)

section \<open>The methods that work on the keys they are given\<close>

lemmas fine_simps = guard_def bindE_def catchE_def reject_eq both_def throwOrReturnOnError_def
  store_cases Let_def within_setItem within_removeItem within_refl within_setTimeout within_two

lemma setValue_fine: "fine (keys_value (SetValue key val u t)) 1 h (setValue h key val u t)"
  unfolding setValue_def
  by (auto simp: fine_simps split: sum.splits option.splits if_splits prod.splits)

lemma getValue_fine: "fine (keys_value (GetValue key u t)) 1 h (getValue h key u t)"
  unfolding getValue_def
  by (auto simp: fine_simps split: sum.splits option.splits if_splits prod.splits)

lemma removeValue_fine: "fine (keys_value (RemoveValue key u t)) 1 h (removeValue h key u t)"
  unfolding removeValue_def
  by (auto simp: fine_simps split: sum.splits option.splits if_splits prod.splits)

lemma replaceValue_fine: "fine (keys_value (ReplaceValue key val u t)) 1 h (replaceValue h key val u t)"
  unfolding replaceValue_def
  by (auto simp: fine_simps split: sum.splits option.splits if_splits prod.splits)

lemma swapValues_fine: "fine (keys_value (SwapValues key1 key2 u t)) 2 h (swapValues h key1 key2 u t)"
  unfolding swapValues_def
  by (auto simp: fine_simps split: sum.splits option.splits if_splits prod.splits)

lemma getAllKeys_fine: "fine (keys_value (GetAllKeys u t)) 1 h (getAllKeys h u t)"
  unfolding getAllKeys_def
  by (auto simp: fine_simps split: sum.splits option.splits if_splits prod.splits)

lemma getAllValues_fine: "fine (keys_value (GetAllValues u t)) 1 h (getAllValues h u t)"
  unfolding getAllValues_def
  by (auto simp: fine_simps split: sum.splits option.splits if_splits prod.splits)

lemma getAllEntries_fine: "fine (keys_value (GetAllEntries u t)) 1 h (getAllEntries h u t)"
  unfolding getAllEntries_def
  by (auto simp: fine_simps split: sum.splits option.splits if_splits prod.splits)

lemma getStorageInfo_fine: "fine (keys_value (GetStorageInfo u t)) 1 h (getStorageInfo h u t)"
  unfolding getStorageInfo_def
  by (auto simp: fine_simps split: sum.splits option.splits if_splits prod.splits)

lemma setObject_fine: "fine (keys_object (SetObject key val u t)) 1 h (setObject h key val u t)"
  unfolding setObject_def
  by (auto simp: fine_simps split: sum.splits option.splits if_splits prod.splits)

lemma getObject_fine: "fine (keys_object (GetObject key u t)) 1 h (getObject h key u t)"
  unfolding getObject_def
  by (auto simp: fine_simps split: sum.splits option.splits if_splits prod.splits)

lemma addToObject_fine: "fine (keys_object (AddToObject key val u t)) 1 h (addToObject h key val u t)"
  unfolding addToObject_def
  by (auto simp: fine_simps split: sum.splits option.splits if_splits prod.splits)

lemma getFromObject_fine: "fine (keys_object (GetFromObject key name u t)) 1 h (getFromObject h key name u t)"
  unfolding getFromObject_def
  by (auto simp: fine_simps split: sum.splits option.splits if_splits prod.splits)

lemma updateInObject_fine: "fine (keys_object (UpdateInObject key name val u t)) 1 h (updateInObject env h key name val u t)"
  unfolding updateInObject_def
  by (auto simp: fine_simps split: sum.splits option.splits if_splits prod.splits)

lemma removeFromObject_fine: "fine (keys_object (RemoveFromObject key name u t)) 1 h (removeFromObject env h key name u t)"
  unfolding removeFromObject_def
  by (auto simp: fine_simps split: sum.splits option.splits if_splits prod.splits)

lemma deleteObject_fine: "fine (keys_object (DeleteObject key u t)) 1 h (deleteObject h key u t)"
  unfolding deleteObject_def
  by (auto simp: fine_simps split: sum.splits option.splits if_splits prod.splits)

lemma setArray_fine: "fine (keys_array (SetArray key val u t)) 1 h (setArray h key val u t)"
  unfolding setArray_def
  by (auto simp: fine_simps split: sum.splits option.splits if_splits prod.splits)

lemma getArray_fine: "fine (keys_array (GetArray key u t)) 1 h (getArray h key u t)"
  unfolding getArray_def
  by (auto simp: fine_simps split: sum.splits option.splits if_splits prod.splits)

lemma addToArray_fine: "fine (keys_array (AddToArray key el u t)) 1 h (addToArray h key el u t)"
  unfolding addToArray_def
  by (auto simp: fine_simps split: sum.splits option.splits if_splits prod.splits)

lemma updateInArray_fine: "fine (keys_array (UpdateInArray key old new u t)) 1 h (updateInArray h key old new u t)"
  unfolding updateInArray_def
  by (auto simp: fine_simps split: sum.splits option.splits if_splits prod.splits)

lemma removeFromArray_fine: "fine (keys_array (RemoveFromArray key el u t)) 1 h (removeFromArray h key el u t)"
  unfolding removeFromArray_def
  by (auto simp: fine_simps split: sum.splits option.splits if_splits prod.splits)

lemma getFromArray_fine: "fine (keys_array (GetFromArray key i u t)) 1 h (getFromArray env h key i u t)"
  unfolding getFromArray_def
  by (auto simp: fine_simps split: sum.splits option.splits if_splits prod.splits)

lemma addToArrayByIndex_fine: "fine (keys_array (AddToArrayByIndex key el i u t)) 1 h (addToArrayByIndex env h key el i u t)"
  unfolding addToArrayByIndex_def
  by (auto simp: fine_simps split: sum.splits option.splits if_splits prod.splits)

lemma removeArray_fine: "fine (keys_array (RemoveArray key u t)) 1 h (removeArray h key u t)"
  unfolding removeArray_def
  by (auto simp: fine_simps split: sum.splits option.splits if_splits prod.splits)

lemma setNumber_fine: "fine (keys_scalar (SetNumber key val u t)) 1 h (setNumber h key val u t)"
  unfolding setNumber_def
  by (auto simp: fine_simps split: sum.splits option.splits if_splits prod.splits)

lemma getNumber_fine: "fine (keys_scalar (GetNumber key u t)) 1 h (getNumber h key u t)"
  unfolding getNumber_def
  by (auto simp: fine_simps split: sum.splits option.splits if_splits prod.splits)

lemma updateNumber_fine: "fine (keys_scalar (UpdateNumber key val u t)) 1 h (updateNumber env h key val u t)"
  unfolding updateNumber_def
  by (auto simp: fine_simps split: sum.splits option.splits if_splits prod.splits)

lemma incrementValue_fine: "fine (keys_scalar (IncrementValue key val u t)) 1 h (incrementValue env h key val u t)"
  unfolding incrementValue_def
  by (auto simp: fine_simps split: sum.splits option.splits if_splits prod.splits)

lemma decrementValue_fine: "fine (keys_scalar (DecrementValue key val u t)) 1 h (decrementValue env h key val u t)"
  unfolding decrementValue_def
  by (auto simp: fine_simps split: sum.splits option.splits if_splits prod.splits)

lemma setBoolean_fine: "fine (keys_scalar (SetBoolean key val u t)) 1 h (setBoolean h key val u t)"
  unfolding setBoolean_def
  by (auto simp: fine_simps split: sum.splits option.splits if_splits prod.splits)

lemma getBoolean_fine: "fine (keys_scalar (GetBoolean key u t)) 1 h (getBoolean h key u t)"
  unfolding getBoolean_def
  by (auto simp: fine_simps split: sum.splits option.splits if_splits prod.splits)

lemma updateBoolean_fine: "fine (keys_scalar (UpdateBoolean key val u t)) 1 h (updateBoolean h key val u t)"
  unfolding updateBoolean_def
  by (auto simp: fine_simps split: sum.splits option.splits if_splits prod.splits)

lemma removeBoolean_fine: "fine (keys_scalar (RemoveBoolean key u t)) 1 h (removeBoolean h key u t)"
  unfolding removeBoolean_def
  by (auto simp: fine_simps split: sum.splits option.splits if_splits prod.splits)

lemma setString_fine: "fine (keys_scalar (SetString key val u t)) 1 h (setString h key val u t)"
  unfolding setString_def
  by (auto simp: fine_simps split: sum.splits option.splits if_splits prod.splits)

lemma getString_fine: "fine (keys_scalar (GetString key u t)) 1 h (getString h key u t)"
  unfolding getString_def
  by (auto simp: fine_simps split: sum.splits option.splits if_splits prod.splits)

lemma updateString_fine: "fine (keys_scalar (UpdateString key val u t)) 1 h (updateString h key val u t)"
  unfolding updateString_def
  by (auto simp: fine_simps split: sum.splits option.splits if_splits prod.splits)

lemma removeString_fine: "fine (keys_scalar (RemoveString key u t)) 1 h (removeString h key u t)"
  unfolding removeString_def
  by (auto simp: fine_simps split: sum.splits option.splits if_splits prod.splits)

lemma setExpiration_fine: "fine (keys_timing (SetExpiration key val secs u t)) 1 h (setExpiration env h now key val secs u t)"
  unfolding setExpiration_def
  by (auto simp: fine_simps split: sum.splits option.splits if_splits prod.splits)

lemma getExpiration_fine: "fine (keys_timing (GetExpiration key u t)) 1 h (getExpiration env h now key u t)"
  unfolding getExpiration_def
  by (auto simp: fine_simps split: sum.splits option.splits if_splits prod.splits)

lemma checkExpiration_fine: "fine (keys_timing (CheckExpiration key u t)) 1 h (checkExpiration env h now key u t)"
  unfolding checkExpiration_def
  by (auto simp: fine_simps split: sum.splits option.splits if_splits prod.splits)

lemma clearExpiredValues_fine: "fine (keys_timing (ClearExpiredValues key u t)) 1 h (clearExpiredValues env h now key u t)"
  unfolding clearExpiredValues_def
  by (auto simp: fine_simps split: sum.splits option.splits if_splits prod.splits)

lemma setMap_fine: "fine (keys_map (SetMap key val u t)) 1 h (setMap h key val u t)"
  unfolding setMap_def
  by (auto simp: fine_simps split: sum.splits option.splits if_splits prod.splits)

lemma getMap_fine: "fine (keys_map (GetMap key u t)) 1 h (getMap h key u t)"
  unfolding getMap_def
  by (auto simp: fine_simps split: sum.splits option.splits if_splits prod.splits)

lemma removeMap_fine: "fine (keys_map (RemoveMap key u t)) 1 h (removeMap h key u t)"
  unfolding removeMap_def
  by (auto simp: fine_simps split: sum.splits option.splits if_splits prod.splits)

lemma setDate_fine: "fine (keys_typed (SetDate key date u t)) 1 h (setDate h key date u t)"
  unfolding setDate_def
  by (auto simp: fine_simps split: sum.splits option.splits if_splits prod.splits)

lemma getDate_fine: "fine (keys_typed (GetDate key u t)) 1 h (getDate env h key u t)"
  unfolding getDate_def
  by (auto simp: fine_simps split: sum.splits option.splits if_splits prod.splits)

lemma removeDate_fine: "fine (keys_typed (RemoveDate key u t)) 1 h (removeDate h key u t)"
  unfolding removeDate_def
  by (auto simp: fine_simps split: sum.splits option.splits if_splits prod.splits)

lemma setFunction_fine: "fine (keys_typed (SetFunction key func u t)) 1 h (setFunction h key func u t)"
  unfolding setFunction_def
  by (auto simp: fine_simps split: sum.splits option.splits if_splits prod.splits)

lemma getFunction_fine: "fine (keys_typed (GetFunction key u t)) 1 h (getFunction env h key u t)"
  unfolding getFunction_def
  by (auto simp: fine_simps split: sum.splits option.splits if_splits prod.splits)

lemma removeFunction_fine: "fine (keys_typed (RemoveFunction key u t)) 1 h (removeFunction h key u t)"
  unfolding removeFunction_def
  by (auto simp: fine_simps split: sum.splits option.splits if_splits prod.splits)

lemma setRegExp_fine: "fine (keys_typed (SetRegExp key regExp u t)) 1 h (setRegExp h key regExp u t)"
  unfolding setRegExp_def
  by (auto simp: fine_simps split: sum.splits option.splits if_splits prod.splits)

lemma getRegExp_fine: "fine (keys_typed (GetRegExp key u t)) 1 h (getRegExp env h key u t)"
  unfolding getRegExp_def
  by (auto simp: fine_simps split: sum.splits option.splits if_splits prod.splits)

lemma removeRegExp_fine: "fine (keys_typed (RemoveRegExp key u t)) 1 h (removeRegExp h key u t)"
  unfolding removeRegExp_def
  by (auto simp: fine_simps split: sum.splits option.splits if_splits prod.splits)

lemma setUndefined_fine: "fine (keys_typed (SetUndefined key u t)) 1 h (setUndefined h key u t)"
  unfolding setUndefined_def
  by (auto simp: fine_simps split: sum.splits option.splits if_splits prod.splits)

lemma isUndefined_fine: "fine (keys_typed (IsUndefined key u t)) 1 h (isUndefined h key u t)"
  unfolding isUndefined_def
  by (auto simp: fine_simps split: sum.splits option.splits if_splits prod.splits)

lemma removeUndefined_fine: "fine (keys_typed (RemoveUndefined key u t)) 1 h (removeUndefined h key u t)"
  unfolding removeUndefined_def
  by (auto simp: fine_simps split: sum.splits option.splits if_splits prod.splits)

lemma setNull_fine: "fine (keys_typed (SetNull key u t)) 1 h (setNull h key u t)"
  unfolding setNull_def
  by (auto simp: fine_simps split: sum.splits option.splits if_splits prod.splits)

lemma isNull_fine: "fine (keys_typed (IsNull key u)) 1 h (isNull h key u)"
  unfolding isNull_def
  by (auto simp: fine_simps split: sum.splits option.splits if_splits prod.splits)

lemma removeNull_fine: "fine (keys_typed (RemoveNull key u t)) 1 h (removeNull h key u t)"
  unfolding removeNull_def
  by (auto simp: fine_simps split: sum.splits option.splits if_splits prod.splits)

lemma setBigInt_fine: "fine (keys_binary (SetBigInt key bigInt u t)) 1 h (setBigInt h key bigInt u t)"
  unfolding setBigInt_def
  by (auto simp: fine_simps split: sum.splits option.splits if_splits prod.splits)

lemma getBigInt_fine: "fine (keys_binary (GetBigInt key u t)) 1 h (getBigInt env h key u t)"
  unfolding getBigInt_def
  by (auto simp: fine_simps split: sum.splits option.splits if_splits prod.splits)

lemma removeBigInt_fine: "fine (keys_binary (RemoveBigInt key u t)) 1 h (removeBigInt env h key u t)"
  unfolding removeBigInt_def
  by (auto simp: fine_simps split: sum.splits option.splits if_splits prod.splits)

lemma setBinary_fine: "fine (keys_binary (SetBinary key data u t)) 1 h (setBinary h key data u t)"
  unfolding setBinary_def
  by (auto simp: fine_simps split: sum.splits option.splits if_splits prod.splits)

lemma getBinary_fine: "fine (keys_binary (GetBinary key u t)) 1 h (getBinary env h key u t)"
  unfolding getBinary_def
  by (auto simp: fine_simps split: sum.splits option.splits if_splits prod.splits)

lemma removeBinary_fine: "fine (keys_binary (RemoveBinary key u t)) 1 h (removeBinary env h key u t)"
  unfolding removeBinary_def
  by (auto simp: fine_simps split: sum.splits option.splits if_splits prod.splits)

lemma setEncrypted_fine: "fine (keys_binary (SetEncrypted key data u t)) 1 h (setEncrypted env h key data u t)"
  unfolding setEncrypted_def
  by (auto simp: fine_simps split: sum.splits option.splits if_splits prod.splits)

lemma getDecrypted_fine: "fine (keys_binary (GetDecrypted key u t)) 1 h (getDecrypted env h key u t)"
  unfolding getDecrypted_def
  by (auto simp: fine_simps split: sum.splits option.splits if_splits prod.splits)

lemma removeEncrypted_fine: "fine (keys_binary (RemoveEncrypted key u t)) 1 h (removeEncrypted env h key u t)"
  unfolding removeEncrypted_def
  by (auto simp: fine_simps split: sum.splits option.splits if_splits prod.splits)

lemma setHashed_fine: "fine (keys_binary (SetHashed key data u t)) 1 h (setHashed env h key data u t)"
  unfolding setHashed_def
  by (auto simp: fine_simps split: sum.splits option.splits if_splits prod.splits)

lemma getHashed_fine: "fine (keys_binary (GetHashed key u t)) 1 h (getHashed h key u t)"
  unfolding getHashed_def
  by (auto simp: fine_simps split: sum.splits option.splits if_splits prod.splits)

lemma removeHashed_fine: "fine (keys_binary (RemoveHashed key u t)) 1 h (removeHashed h key u t)"
  unfolding removeHashed_def
  by (auto simp: fine_simps split: sum.splits option.splits if_splits prod.splits)

lemma compareHashed_fine: "fine (keys_binary (CompareHashed key data u t)) 1 h (compareHashed env h key data u t)"
  unfolding compareHashed_def
  by (auto simp: fine_simps split: sum.splits option.splits if_splits prod.splits)

lemma setCompressed_fine: "fine (keys_binary (SetCompressed key data u t)) 1 h (setCompressed env h key data u t)"
  unfolding setCompressed_def
  by (auto simp: fine_simps split: sum.splits option.splits if_splits prod.splits)

lemma getCompressed_fine: "fine (keys_binary (GetCompressed key u t)) 1 h (getCompressed env h key u t)"
  unfolding getCompressed_def
  by (auto simp: fine_simps split: sum.splits option.splits if_splits prod.splits)

lemma logAvailableFunctions_fine: "fine (keys_value (LogAvailableFunctions)) 1 h (logAvailableFunctions h)"
  unfolding logAvailableFunctions_def
  by (auto simp: fine_simps split: sum.splits option.splits if_splits prod.splits)

lemma getMap_host: "getMap h key u t = Inr (r, h') \<Longrightarrow> h' = h"
  unfolding getMap_def
  by (auto simp: fine_simps split: sum.splits option.splits if_splits prod.splits)

lemma setMap_within:
  "setMap h key val u t = Inr (r, h') \<Longrightarrow> within [(u, toStr key)] (Suc 0) h h'"
  using setMap_fine [of key val u t h] by (simp add: fine_def)

lemma updateKeyInMap_fine: "fine (keys_map (UpdateKeyInMap mapKey old new u t)) 1 h (updateKeyInMap h mapKey old new u t)"
  unfolding updateKeyInMap_def
  by (auto simp: fine_simps dest!: getMap_host setMap_within split: sum.splits option.splits if_splits prod.splits)

lemma updateValueInMap_fine: "fine (keys_map (UpdateValueInMap mapKey key val u t)) 1 h (updateValueInMap h mapKey key val u t)"
  unfolding updateValueInMap_def
  by (auto simp: fine_simps dest!: getMap_host setMap_within split: sum.splits option.splits if_splits prod.splits)

lemma removeElementByKeyInMap_fine: "fine (keys_map (RemoveElementByKeyInMap mapKey key u t)) 1 h (removeElementByKeyInMap h mapKey key u t)"
  unfolding removeElementByKeyInMap_def
  by (auto simp: fine_simps dest!: getMap_host setMap_within split: sum.splits option.splits if_splits prod.splits)

lemma removeElementByValueInMap_fine: "fine (keys_map (RemoveElementByValueInMap mapKey val u t)) 1 h (removeElementByValueInMap h mapKey val u t)"
  unfolding removeElementByValueInMap_def
  by (auto simp: fine_simps dest!: getMap_host setMap_within split: sum.splits option.splits if_splits prod.splits)

lemma addIntoMap_fine: "fine (keys_map (AddIntoMap mapKey key val u t)) 1 h (addIntoMap h mapKey key val u t)"
  unfolding addIntoMap_def
  by (auto simp: fine_simps dest!: getMap_host setMap_within split: sum.splits option.splits if_splits prod.splits)

lemma emptyMap_fine: "fine (keys_map (EmptyMap mapKey u t)) 1 h (emptyMap h mapKey u t)"
  unfolding emptyMap_def
  by (auto simp: fine_simps dest!: getMap_host setMap_within split: sum.splits option.splits if_splits prod.splits)
section \<open>The sweeps over the whole storage\<close>

lemma parse_number_plain:
  "parse_number s = Some (v, r) \<Longrightarrow> \<not> is_Map v \<and> \<not> is_Date v"
  by (auto simp: parse_number_def number_of_def is_Map_def is_Date_def
           split: option.splits prod.splits if_splits)

lemma parse_value_plain:
  "parse_value n s = Some (v, r) \<Longrightarrow> \<not> is_Map v \<and> \<not> is_Date v"
  by (cases n)
     (auto simp: is_Map_def is_Date_def dest: parse_number_plain
           split: list.splits option.splits prod.splits if_splits)

lemma JSON_parse_plain: "JSON_parse s = Some v \<Longrightarrow> \<not> is_Map v \<and> \<not> is_Date v"
  unfolding JSON_parse_def
  using parse_value_plain [of "2 * length s + 2" s v]
  by (auto simp del: parse_value.simps split: option.splits prod.splits if_splits)

lemma parsed_plain: "parsed r = Inr v \<Longrightarrow> \<not> is_Map v \<and> \<not> is_Date v"
  by (auto simp: parsed_def JSON_parse_item_def is_Map_def is_Date_def
           dest: JSON_parse_plain split: option.splits)

lemma forEach_unchanged:
  "(\<And>g k h'. f g k = Inr h' \<Longrightarrow> h' = g) \<Longrightarrow> snd (forEach f ks h) = h"
proof (induction ks arbitrary: h)
  case Nil
  then show ?case by simp
next
  case (Cons k ks)
  show ?case
  proof (cases "f h k")
    case (Inl e)
    then show ?thesis by simp
  next
    case (Inr h')
    then have "h' = h" by (rule Cons.prems)
    with Inr have "f h k = Inr h" by simp
    then show ?thesis using Cons.IH [of h] Cons.prems by simp
  qed
qed

lemma forEach_timers:
  "(\<And>g k h'. f g k = Inr h' \<Longrightarrow> timers h' = timers g) \<Longrightarrow>
   timers (snd (forEach f ks h)) = timers h"
proof (induction ks arbitrary: h)
  case Nil
  then show ?case by simp
next
  case (Cons k ks)
  show ?case
  proof (cases "f h k")
    case (Inl e)
    then show ?thesis by simp
  next
    case (Inr h')
    then have "timers h' = timers h" by (rule Cons.prems)
    then show ?thesis using Inr Cons.IH [of h'] Cons.prems by simp
  qed
qed

lemma sweep_index_unchanged:
  "(\<And>k r. test k (item r) \<noteq> Inr True) \<Longrightarrow> snd (sweep_index stay test u i h) = h"
proof (induction stay test u i h rule: sweep_index.induct)
  case (1 stay test u i h)
  show ?case
  proof (cases "i < length (storage_of u h)")
    case False
    then show ?thesis by (subst sweep_index.simps) simp
  next
    case True
    let ?k = "fst (storage_of u h ! i)"
    show ?thesis
    proof (cases "test ?k (item (getItem u ?k h))")
      case (Inl e)
      then show ?thesis using True by (subst sweep_index.simps) simp
    next
      case (Inr b)
      then have "\<not> b" using "1.prems" [of ?k "getItem u ?k h"] by auto
      then show ?thesis
        using True Inr "1.IH"(2) [OF True Inr] "1.prems"
        by (subst sweep_index.simps) simp
    qed
  qed
qed

lemma sweep_index_timers: "timers (snd (sweep_index stay test u i h)) = timers h"
proof (induction stay test u i h rule: sweep_index.induct)
  case (1 stay test u i h)
  show ?case
  proof (cases "i < length (storage_of u h)")
    case False
    then show ?thesis by (subst sweep_index.simps) simp
  next
    case True
    let ?k = "fst (storage_of u h ! i)"
    show ?thesis
    proof (cases "test ?k (item (getItem u ?k h))")
      case (Inl e)
      then show ?thesis using True by (subst sweep_index.simps) simp
    next
      case (Inr b)
      show ?thesis
      proof (cases b)
        case True
        with \<open>i < length (storage_of u h)\<close> Inr "1.IH"(1) [OF \<open>i < length (storage_of u h)\<close> Inr]
        show ?thesis by (subst sweep_index.simps) (simp add: timers_simps)
      next
        case False
        with \<open>i < length (storage_of u h)\<close> Inr "1.IH"(2) [OF \<open>i < length (storage_of u h)\<close> Inr]
        show ?thesis by (subst sweep_index.simps) simp
      qed
    qed
  qed
qed

lemma removeAllMapItems_unchanged: "snd (removeAllMapItems h u t) = h"
  unfolding removeAllMapItems_def
  by (rule forEach_unchanged)
     (auto simp: catchE_def bindE_def reject_eq dest: parsed_plain split: sum.splits if_splits)

lemma removeAllDateItems_unchanged: "snd (removeAllDateItems h u t) = h"
  unfolding removeAllDateItems_def
  by (rule forEach_unchanged)
     (auto simp: catchE_def bindE_def reject_eq dest: parsed_plain split: sum.splits if_splits)

lemma removeAllUndefined_unchanged: "snd (removeAllUndefined h u t) = h"
  unfolding removeAllUndefined_def
  by (rule sweep_index_unchanged) (simp add: item_def split: option.splits)

lemma swept_unchanged: "snd s = h \<Longrightarrow> swept s = (res, h') \<Longrightarrow> within nks n h h'"
  by (auto simp: swept_def within_refl split: option.splits)

lemmas round_simps = catchE_def bindE_def reject_eq holds_def timers_simps

lemma timers_timing_round: "timers (timing_round u h k) = timers h"
  by (simp add: timing_round_def timers_simps split: option.splits)

lemma timers_timing_rounds: "timers (foldl (timing_round u) h ks) = timers h"
  by (induction ks arbitrary: h) (simp_all add: timers_timing_round)

lemma forEach_sweeps_timers:
  "timers (snd (removeAllObjectItems h u t)) = timers h"
  "timers (snd (removeAllArrayItems h u t)) = timers h"
  "timers (snd (removeNumericValues env h u t)) = timers h"
  "timers (snd (removeAllBooleanItems h u t)) = timers h"
  "timers (snd (removeAllStringItems h u t)) = timers h"
  unfolding removeAllObjectItems_def removeAllArrayItems_def removeNumericValues_def
    removeAllBooleanItems_def removeAllStringItems_def
  by (rule forEach_timers, auto simp: round_simps split: sum.splits if_splits)+

lemma index_sweeps_timers:
  "timers (snd (removeAllRegExpItems h u t)) = timers h"
  "timers (snd (removeAllNullItems h u t)) = timers h"
  "timers (snd (removeAllBigIntItems env h u t)) = timers h"
  unfolding removeAllRegExpItems_def removeAllNullItems_def removeAllBigIntItems_def
  by (rule sweep_index_timers)+

lemma removeAllBinaryItems_timers: "timers (snd (removeAllBinaryItems env h u t)) = timers h"
proof -
  let ?s = "sweep_index False
             (\<lambda>key storedValue.
                catchE
                  (case storedValue of
                     JStr s \<Rightarrow>
                       bindE (stored_binary env s) (\<lambda>binaryData.
                         if \<not> is_Uint8Array binaryData
                         then reject t (not_a_valid_binary key) False
                         else Inr False)
                   | _ \<Rightarrow> reject t (not_valid_binary key) False)
                  (\<lambda>e. reject t (error_removing_binary key @ message_of e) False))
             u 0 h"
  have "timers (snd ?s) = timers h" by (rule sweep_index_timers)
  then show ?thesis
    unfolding removeAllBinaryItems_def
    by (cases ?s) (auto simp: timers_simps split: option.splits)
qed

lemma swept_timers:
  "timers (snd s) = timers h \<Longrightarrow> swept s = (res, h') \<Longrightarrow> \<exists>ts. timers h' = timers h @ ts"
  by (auto simp: swept_def split: option.splits)

lemmas sweeps_timers = forEach_sweeps_timers index_sweeps_timers removeAllBinaryItems_timers

lemmas value_settled =
  fine_settle [OF setValue_fine, simplified]
  fine_settle [OF getValue_fine, simplified]
  fine_settle [OF removeValue_fine, simplified]
  fine_settle [OF replaceValue_fine, simplified]
  fine_settle [OF swapValues_fine, simplified]
  fine_settle [OF getAllKeys_fine, simplified]
  fine_settle [OF getAllValues_fine, simplified]
  fine_settle [OF getAllEntries_fine, simplified]
  fine_settle [OF getStorageInfo_fine, simplified]
  fine_settle [OF logAvailableFunctions_fine, simplified]

lemma call_value_within:
  "\<not> sweeping_value c \<Longrightarrow> call_value h c = (res, h') \<Longrightarrow> within (keys_value c) (calls_bound (Values c)) h h'"
  by (cases c) (auto simp: calls_bound_def elim: value_settled)

lemmas object_settled =
  fine_settle [OF setObject_fine, simplified]
  fine_settle [OF getObject_fine, simplified]
  fine_settle [OF addToObject_fine, simplified]
  fine_settle [OF getFromObject_fine, simplified]
  fine_settle [OF updateInObject_fine, simplified]
  fine_settle [OF removeFromObject_fine, simplified]
  fine_settle [OF deleteObject_fine, simplified]

lemma call_object_within:
  "\<not> sweeping_object c \<Longrightarrow> call_object env h c = (res, h') \<Longrightarrow> within (keys_object c) 1 h h'"
  by (cases c) (auto simp: calls_bound_def elim: object_settled)

lemmas array_settled =
  fine_settle [OF setArray_fine, simplified]
  fine_settle [OF getArray_fine, simplified]
  fine_settle [OF addToArray_fine, simplified]
  fine_settle [OF updateInArray_fine, simplified]
  fine_settle [OF removeFromArray_fine, simplified]
  fine_settle [OF getFromArray_fine, simplified]
  fine_settle [OF addToArrayByIndex_fine, simplified]
  fine_settle [OF removeArray_fine, simplified]

lemma call_array_within:
  "\<not> sweeping_array c \<Longrightarrow> call_array env h c = (res, h') \<Longrightarrow> within (keys_array c) 1 h h'"
  by (cases c) (auto simp: calls_bound_def elim: array_settled)

lemmas scalar_settled =
  fine_settle [OF setNumber_fine, simplified]
  fine_settle [OF getNumber_fine, simplified]
  fine_settle [OF updateNumber_fine, simplified]
  fine_settle [OF incrementValue_fine, simplified]
  fine_settle [OF decrementValue_fine, simplified]
  fine_settle [OF setBoolean_fine, simplified]
  fine_settle [OF getBoolean_fine, simplified]
  fine_settle [OF updateBoolean_fine, simplified]
  fine_settle [OF removeBoolean_fine, simplified]
  fine_settle [OF setString_fine, simplified]
  fine_settle [OF getString_fine, simplified]
  fine_settle [OF updateString_fine, simplified]
  fine_settle [OF removeString_fine, simplified]

lemma call_scalar_within:
  "\<not> sweeping_scalar c \<Longrightarrow> call_scalar env h c = (res, h') \<Longrightarrow> within (keys_scalar c) 1 h h'"
  by (cases c) (auto simp: calls_bound_def elim: scalar_settled)

lemmas timing_settled =
  fine_settle [OF setExpiration_fine, simplified]
  fine_settle [OF getExpiration_fine, simplified]
  fine_settle [OF checkExpiration_fine, simplified]
  fine_settle [OF clearExpiredValues_fine, simplified]

lemma call_timing_within:
  "\<not> sweeping_timing c \<Longrightarrow> call_timing env h now c = (res, h') \<Longrightarrow> within (keys_timing c) 1 h h'"
  by (cases c) (auto simp: calls_bound_def elim: timing_settled)

lemmas map_settled =
  fine_settle [OF setMap_fine, simplified]
  fine_settle [OF getMap_fine, simplified]
  fine_settle [OF removeMap_fine, simplified]
  fine_settle [OF updateKeyInMap_fine, simplified]
  fine_settle [OF updateValueInMap_fine, simplified]
  fine_settle [OF removeElementByKeyInMap_fine, simplified]
  fine_settle [OF removeElementByValueInMap_fine, simplified]
  fine_settle [OF addIntoMap_fine, simplified]
  fine_settle [OF emptyMap_fine, simplified]

lemma call_map_within:
  "call_map h c = (res, h') \<Longrightarrow> within (keys_map c) 1 h h'"
  by (cases c) (auto simp: calls_bound_def elim: map_settled swept_unchanged [OF removeAllMapItems_unchanged])

lemmas typed_settled =
  fine_settle [OF setDate_fine, simplified]
  fine_settle [OF getDate_fine, simplified]
  fine_settle [OF removeDate_fine, simplified]
  fine_settle [OF setFunction_fine, simplified]
  fine_settle [OF getFunction_fine, simplified]
  fine_settle [OF removeFunction_fine, simplified]
  fine_settle [OF setRegExp_fine, simplified]
  fine_settle [OF getRegExp_fine, simplified]
  fine_settle [OF removeRegExp_fine, simplified]
  fine_settle [OF setUndefined_fine, simplified]
  fine_settle [OF isUndefined_fine, simplified]
  fine_settle [OF removeUndefined_fine, simplified]
  fine_settle [OF setNull_fine, simplified]
  fine_settle [OF isNull_fine, simplified]
  fine_settle [OF removeNull_fine, simplified]

lemma call_typed_within:
  "\<not> sweeping_typed c \<Longrightarrow> call_typed env h c = (res, h') \<Longrightarrow> within (keys_typed c) 1 h h'"
  by (cases c) (auto simp: calls_bound_def elim: typed_settled swept_unchanged [OF removeAllDateItems_unchanged]
                 swept_unchanged [OF removeAllUndefined_unchanged])

lemmas binary_settled =
  fine_settle [OF setBigInt_fine, simplified]
  fine_settle [OF getBigInt_fine, simplified]
  fine_settle [OF removeBigInt_fine, simplified]
  fine_settle [OF setBinary_fine, simplified]
  fine_settle [OF getBinary_fine, simplified]
  fine_settle [OF removeBinary_fine, simplified]
  fine_settle [OF setEncrypted_fine, simplified]
  fine_settle [OF getDecrypted_fine, simplified]
  fine_settle [OF removeEncrypted_fine, simplified]
  fine_settle [OF setHashed_fine, simplified]
  fine_settle [OF getHashed_fine, simplified]
  fine_settle [OF removeHashed_fine, simplified]
  fine_settle [OF compareHashed_fine, simplified]
  fine_settle [OF setCompressed_fine, simplified]
  fine_settle [OF getCompressed_fine, simplified]

lemma call_binary_within:
  "\<not> sweeping_binary c \<Longrightarrow> call_binary env h c = (res, h') \<Longrightarrow> within (keys_binary c) 1 h h'"
  by (cases c) (auto simp: calls_bound_def elim: binary_settled)

lemma call_within:
  "\<not> sweeping c \<Longrightarrow> call env h now c = (res, h') \<Longrightarrow> within (named_keys c) (calls_bound c) h h'"
  by (cases c)
     (auto simp: calls_bound_def
           dest: call_value_within call_object_within call_array_within call_scalar_within
                 call_timing_within call_map_within call_typed_within call_binary_within)

lemma sweeping_timers:
  "sweeping c \<Longrightarrow> call env h now c = (res, h') \<Longrightarrow> \<exists>ts. timers h' = timers h @ ts"
proof (cases c)
  case (Values x)
  assume "sweeping c" "call env h now c = (res, h')"
  with Values show ?thesis
    by (cases x) (auto simp: clearStorage_def settle_def timers_simps)
next
  case (Objects x)
  assume "sweeping c" "call env h now c = (res, h')"
  with Objects show ?thesis
    by (cases x) (auto dest: sweeps_timers [THEN swept_timers])
next
  case (Arrays x)
  assume "sweeping c" "call env h now c = (res, h')"
  with Arrays show ?thesis
    by (cases x) (auto dest: sweeps_timers [THEN swept_timers])
next
  case (Scalars x)
  assume "sweeping c" "call env h now c = (res, h')"
  with Scalars show ?thesis
    by (cases x) (auto dest: sweeps_timers [THEN swept_timers])
next
  case (Timing x)
  assume "sweeping c" "call env h now c = (res, h')"
  with Timing show ?thesis
    by (cases x) (auto simp: removeAllTimingItems_def settle_def timers_timing_rounds)
next
  case (Maps x)
  assume "sweeping c"
  with Maps show ?thesis by simp
next
  case (Typed x)
  assume "sweeping c" "call env h now c = (res, h')"
  with Typed show ?thesis
    by (cases x) (auto dest: sweeps_timers [THEN swept_timers])
next
  case (Binary x)
  assume "sweeping c" "call env h now c = (res, h')"
  with Binary show ?thesis
    by (cases x) (auto dest: sweeps_timers [THEN swept_timers])
qed

lemma call_timers: "call env h now c = (res, h') \<Longrightarrow> \<exists>ts. timers h' = timers h @ ts"
  using call_within [of c env h now res h'] sweeping_timers [of c env h now res h']
  by (cases "sweeping c") (auto simp: within_def)
section \<open>Properties of StorageManager\<close>




text \<open>
  C6 (as amended). For a non-empty string key whose stored string is valid JSON (an
  absent key reads as \<open>null\<close>): \<open>getNumber\<close>, \<open>getArray\<close> and \<open>getObject\<close> return the
  parsed value when it is a number, an array, a non-array object respectively, and
  otherwise throw when \<open>throwOnError\<close> is true and return \<open>null\<close> when it is false;
  \<open>getBoolean\<close> does the same for a boolean, except that it returns \<open>null\<close> without
  throwing when the parsed value is \<open>null\<close>, as for an absent key; \<open>getValue\<close> returns
  \<open>null\<close> for an absent key and the parsed value of any type otherwise; \<open>getString\<close>
  returns the stored string itself, unparsed, or \<open>null\<close> for an absent key.
\<close>

theorem typed_accessors_on_parsed_value:
  assumes "k \<noteq> []" and "JSON_parse_item (getItem u k h) = Some v"
  shows "getNumber h (JStr k) u t =
           (if typeof v = ''number'' then Inr (Ret v, h)
            else if t then Inl (Error ''Stored value must be a number.'') else Inr (Ret JNull, h))
       \<and> getArray h (JStr k) u t =
           (if isArray_host v then Inr (Ret v, h)
            else if t then Inl (Error ''Stored value must be an array.'') else Inr (Ret JNull, h))
       \<and> getObject h (JStr k) u t =
           (if v \<noteq> JNull \<and> typeof v = ''object'' \<and> \<not> isArray_host v then Inr (Ret v, h)
            else if t then Inl (Error ''Stored value must be an object.'') else Inr (Ret JNull, h))
       \<and> getBoolean h (JStr k) u t =
           (if typeof v = ''boolean'' \<or> v = JNull then Inr (Ret v, h)
            else if t then Inl (Error ''Stored value must be a boolean.'') else Inr (Ret JNull, h))
       \<and> getValue h (JStr k) u t =
           (if getItem u k h = None then Inr (Ret JNull, h) else Inr (Ret v, h))
       \<and> getString h (JStr k) u t =
           Inr (Ret (case getItem u k h of None \<Rightarrow> JNull | Some s \<Rightarrow> JStr s), h)"
  using assms(2)
  by (auto simp: getNumber_def getArray_def getObject_def getBoolean_def getValue_def getString_def
        isString_valid [OF assms(1)] guard_passed bindE_def throwOrReturnOnError_def
        JSON_parse_item_def JSON_parse_empty Let_def
        split: option.splits)

theorem typed_accessors_on_parsed_value_witness:
  "''count'' \<noteq> [] \<and>
   JSON_parse_item (getItem False ''count'' (setItem False ''count'' ''42'' empty_host)) = Some (JNum 42) \<and>
   getNumber (setItem False ''count'' ''42'' empty_host) (JStr ''count'') False True
     = Inr (Ret (JNum 42), setItem False ''count'' ''42'' empty_host) \<and>
   getArray (setItem False ''count'' ''42'' empty_host) (JStr ''count'') False False
     = Inr (Ret JNull, setItem False ''count'' ''42'' empty_host) \<and>
   getArray (setItem False ''count'' ''42'' empty_host) (JStr ''count'') False True
     = Inl (Error ''Stored value must be an array.'')"
proof -
  have a: "''count'' \<noteq> []" by simp
  have b: "JSON_parse_item (getItem False ''count'' (setItem False ''count'' ''42'' empty_host))
             = Some (JNum 42)"
    by (simp add: getItem_setItem JSON_parse_item_def parse_42)
  show ?thesis
    using typed_accessors_on_parsed_value [OF a b, of True]
          typed_accessors_on_parsed_value [OF a b, of False] a b
    by (simp add: typeof_def isArray_host_def)
qed

text \<open>
  C6 (as stated) fails: for an absent key \<open>getBoolean\<close> returns \<open>null\<close> although
  \<open>throwOnError\<close> is true, since its test lets a parsed \<open>null\<close> through.
\<close>

theorem getBoolean_absent_key_no_throw:
  "getItem False ''flag'' empty_host = None \<and>
   getBoolean empty_host (JStr ''flag'') False True = Inr (Ret JNull, empty_host)"
  by (simp add: getBoolean_def isString_def guard_failed Joi_string_required_def getItem_def
      storage_of_def empty_host_def JSON_parse_item_def typeof_def)

text \<open>
  C9 (as amended). For every non-empty string key that is absent from the chosen
  storage and every setting of the flags, \<open>getValue\<close> returns \<open>null\<close> and changes nothing.
\<close>

theorem getValue_absent_key_null:
  assumes "k \<noteq> []" and "getItem u k h = None"
  shows "getValue h (JStr k) u t = Inr (Ret JNull, h)"
  using assms(2)
  by (simp add: getValue_def isString_valid [OF assms(1)] guard_passed)

theorem getValue_absent_key_null_witness:
  "''username'' \<noteq> [] \<and> getItem True ''username'' (setItem False ''username'' ''1'' empty_host) = None \<and>
   getValue (setItem False ''username'' ''1'' empty_host) (JStr ''username'') True True
     = Inr (Ret JNull, setItem False ''username'' ''1'' empty_host)"
proof -
  have a: "''username'' \<noteq> []" by simp
  have b: "getItem True ''username'' (setItem False ''username'' ''1'' empty_host) = None"
    by (simp add: getItem_setItem getItem_empty_host)
  show ?thesis
    using getValue_absent_key_null [OF a b, of True] a b
    by simp
qed

text \<open>
  C9 (as stated) fails at the empty key, which is a string and is absent: the key check
  rejects it, so \<open>getValue\<close> throws with \<open>throwOnError\<close> true and returns \<open>undefined\<close> with
  it false.
\<close>

theorem getValue_empty_key_rejected:
  "getItem False [] empty_host = None \<and>
   getValue empty_host (JStr []) False True = Inl JoiError \<and>
   getValue empty_host (JStr []) False False = Inr (Ret JUndefined, empty_host)"
  by (simp add: getValue_def isString_def guard_failed Joi_string_required_def getItem_def
      storage_of_def empty_host_def)

end
